theory Spec2Isabelle
  imports Main "HOL-Library.Char_ord" "HOL-Library.List_Lexorder" "HOL-Library.AList"
    "HOL-Library.Multiset"
begin

section \<open>The orchestrator of the garden service (class Garden)\<close>

text \<open>
  A shallow embedding of the class \<^verbatim>\<open>Garden\<close>: the instance is a record that every method
  takes and returns, a thrown error is the left summand of the result, and a state change
  made before a throw stays in the returned record, as it stays in the object.
  JavaScript strings are \<^typ>\<open>string\<close>; \<^verbatim>\<open>Array.prototype.sort\<close> without a comparator and
  lodash's \<^verbatim>\<open>sortBy\<close> compare strings unit by unit, a proper prefix first, which is the
  lexicographic order of \<^typ>\<open>string\<close>. A plain object used as a dictionary is the association
  list of its own properties in the order of their creation; \<^verbatim>\<open>Object.values\<close> and
  \<^verbatim>\<open>Object.keys\<close> read it in the order of \<open>objectEntries\<close> below, and a read \<^verbatim>\<open>obj[key]\<close> also
  sees what the object inherits from \<^verbatim>\<open>Object.prototype\<close> (\<open>getProp\<close> below).
  Record fields carry a short prefix of their interface (\<open>mc_name\<close> is \<^verbatim>\<open>ModuleConfig.name\<close>),
  because two records of one theory cannot share a field name. Calls to the logger are
  left out.
\<close>

subsection \<open>Data\<close>

type_synonym DeepPrimitiveMap = "(string \<times> string) list"
type_synonym StringMap = "(string \<times> string) list"
type_synonym CacheKey = "string list"
type_synonym CacheContext = "string list"

record BuildDependencyConfig =
  bd_name :: string
  bd_plugin :: "string option"
  bd_copy :: "(string \<times> string) list"

record ServiceConfig =
  sc_name :: string
  sc_dependencies :: "string list"

record TaskConfig =
  tc_name :: string
  tc_dependencies :: "string list"

record ModuleConfig =
  mc_name :: string
  mc_plugin :: "string option"
  mc_path :: string
  mc_build_dependencies :: "BuildDependencyConfig list"
  mc_serviceConfigs :: "ServiceConfig list"
  mc_taskConfigs :: "TaskConfig list"
  mc_disabled :: bool

record WorkflowConfig =
  wc_name :: string
  wc_path :: string

record ModuleVersion =
  versionString :: string
  dependencyVersions :: "(string \<times> string) list"
  files :: "string list"

text \<open>
  A resolved \<^verbatim>\<open>Module\<close> is a \<^verbatim>\<open>ModuleConfig\<close> with a version, the map of its build
  dependencies and the config it came from (\<^verbatim>\<open>_config\<close>). A build dependency is a
  reference to another \<^verbatim>\<open>Module\<close> object; the map keeps, for each dependency key, the
  name under which \<^verbatim>\<open>keyBy(resolvedModules, "name")\<close> finds that object.
\<close>

record Module = ModuleConfig +
  m_version :: ModuleVersion
  m_buildDependencies :: "(string \<times> string) list"
  m_rawConfig :: ModuleConfig

text \<open>\<^verbatim>\<open>Module | BuildDependencyConfig\<close>, of which \<^verbatim>\<open>resolveVersion\<close> reads name and plugin.\<close>

datatype ModuleDependency = DepModule Module | DepConfig BuildDependencyConfig

fun dep_name :: "ModuleDependency \<Rightarrow> string" where
  "dep_name (DepModule m) = mc_name m"
| "dep_name (DepConfig d) = bd_name d"

fun dep_plugin :: "ModuleDependency \<Rightarrow> string option" where
  "dep_plugin (DepModule m) = mc_plugin m"
| "dep_plugin (DepConfig d) = bd_plugin d"

record ProviderConfig =
  pc_name :: string
  pc_settings :: DeepPrimitiveMap

record EnvironmentStatus =
  st_ready :: bool
  st_cached :: bool

record ProviderDump =
  p_name :: string
  p_dependencies :: "string list"
  p_moduleConfigs :: "ModuleConfig list"
  p_config :: ProviderConfig
  p_status :: EnvironmentStatus

text \<open>
  A \<^verbatim>\<open>Provider\<close> is the record above with its tool handles; \<^verbatim>\<open>Omit<Provider, "tools">\<close>
  is the record above. The dependencies of a provider are kept by name.
\<close>

record Provider = ProviderDump +
  p_tools :: "string list"

record GardenPlugin =
  gp_name :: string
  gp_dependencies :: "string list"

record 'o TaskResult =
  tr_type :: string
  tr_key :: string
  tr_name :: string
  tr_output :: "'o option"
  tr_error :: "string option"

text \<open>
  \<open>tr_error\<close> is the message of the error of a failed task, the one part of it that the
  orchestrator reads. \<^verbatim>\<open>TaskResults\<close> maps a task key to a result or to null.
\<close>

type_synonym 'o TaskResults = "(string \<times> 'o TaskResult option) list"

datatype Resource = ModuleResource ModuleConfig | WorkflowResource WorkflowConfig

record AddBuildDependency =
  ab_by :: string
  ab_on :: string

record AddRuntimeDependency =
  ar_by :: string
  ar_on :: string

subsection \<open>Errors\<close>

text \<open>The detail payload that each throw site attaches to its error.\<close>

datatype detail =
    NoDetail
  | DuplicatePaths string string
  | CircularDescription string
  | FailedProviders "ProviderConfig list" "Provider TaskResults" "string list"
  | ProviderNotFound string "(string \<times> Provider) list"
  | ModuleCycles "string option list list list"
  | FailedModules "Module TaskResults" "string list"
  | Overlapping "(string \<times> string \<times> (string \<times> string) list) list"
  | BuildDependencyDetail Provider AddBuildDependency
  | RuntimeDependencyDetail Provider AddRuntimeDependency
  | DependencyName string

text \<open>
  Modelled from the spec: the \<^verbatim>\<open>cycles\<close> field of the error that the task graph throws for
  circular dependencies; the task graph is not among the sources. The spec has it fail
  with a report of type \<^verbatim>\<open>"circular-dependencies"\<close> that lists each cycle as an ordered
  sequence of task keys: a list of cycles, each a list of keys.
\<close>

type_synonym TaskCycles = "string list list"

text \<open>
  The error classes of \<^verbatim>\<open>exceptions.ts\<close> that the orchestrator throws or reads, the
  error of type \<^verbatim>\<open>"circular-dependencies"\<close> with its \<^verbatim>\<open>cycles\<close> field, which
  \<^verbatim>\<open>getConfigGraph\<close> catches, and JavaScript's \<^verbatim>\<open>TypeError\<close>.

  \<open>InheritedValue key\<close> is no error that the source throws. It ends a run in which the
  source reads \<open>key\<close> from a plain object that has no such property of its own, gets the
  value that \<^verbatim>\<open>Object.prototype\<close> holds under that key, and goes on with it in the place of
  a provider, a plugin or a module, or in which it assigns to the key \<^verbatim>\<open>__proto__\<close>. What the
  source does with such a value is not followed here: the run of the model stops with
  this mark.
\<close>

datatype GardenError =
    ConfigurationError string detail
  | PluginError string detail
  | RuntimeError string detail
  | ParameterError string detail
  | CircularDependenciesError string TaskCycles
  | TypeError string
  | InheritedValue string

fun isConfigurationError :: "GardenError \<Rightarrow> bool" where
  "isConfigurationError (ConfigurationError m d) = True"
| "isConfigurationError e = False"

fun isPluginError :: "GardenError \<Rightarrow> bool" where
  "isPluginError (PluginError m d) = True"
| "isPluginError e = False"

fun isTypeError :: "GardenError \<Rightarrow> bool" where
  "isTypeError (TypeError m) = True"
| "isTypeError e = False"

subsection \<open>Plain objects read as dictionaries\<close>

text \<open>
  The dictionaries of the class (\<^verbatim>\<open>moduleConfigs\<close>, \<^verbatim>\<open>workflowConfigs\<close>, \<^verbatim>\<open>resolvedProviders\<close>)
  are created as \<^verbatim>\<open>{}\<close>, and so are the results of lodash's \<^verbatim>\<open>keyBy\<close>. Such an object
  inherits from \<^verbatim>\<open>Object.prototype\<close>, whose property names on the platform are the ones
  below; each holds a function, and \<^verbatim>\<open>__proto__\<close> gives the prototype itself, so every one
  of them is truthy. A read \<^verbatim>\<open>obj[key]\<close> gives the object's own property when it has one,
  else the inherited value when the key is one of these names, else \<^verbatim>\<open>undefined\<close>.
\<close>

definition objectPrototypeKeys :: "string list" where
  "objectPrototypeKeys =
     [''constructor'', ''__defineGetter__'', ''__defineSetter__'', ''hasOwnProperty'',
      ''__lookupGetter__'', ''__lookupSetter__'', ''isPrototypeOf'', ''propertyIsEnumerable'',
      ''toString'', ''valueOf'', ''__proto__'', ''toLocaleString'']"

datatype 'a property = Own 'a | Inherited string

definition getProp :: "(string \<times> 'a) list \<Rightarrow> string \<Rightarrow> 'a property option" where
  "getProp obj key =
     (case map_of obj key of
        Some v \<Rightarrow> Some (Own v)
      | None \<Rightarrow> if key \<in> set objectPrototypeKeys then Some (Inherited key) else None)"

text \<open>
  \<^verbatim>\<open>Object.values\<close> and \<^verbatim>\<open>Object.keys\<close> read the own properties of an object in this order:
  first the keys that are array indices, by their number, then the other keys in the
  order of their creation. An array index is the decimal numeral, without a leading zero,
  of a number up to \<^verbatim>\<open>4294967294\<close>.
\<close>

definition indexValue :: "string \<Rightarrow> int" where
  "indexValue s = foldl (\<lambda>n c. 10 * n + (of_char c - of_char CHR ''0'')) 0 s"

definition isArrayIndex :: "string \<Rightarrow> bool" where
  "isArrayIndex s \<longleftrightarrow>
     s \<noteq> [] \<and> list_all (\<lambda>c. c \<in> set ''0123456789'') s \<and> (s = ''0'' \<or> hd s \<in> set ''123456789'')
       \<and> indexValue s \<le> 4294967294"

definition objectEntries :: "(string \<times> 'a) list \<Rightarrow> (string \<times> 'a) list" where
  "objectEntries obj =
     sort_key (\<lambda>p. indexValue (fst p)) (filter (\<lambda>p. isArrayIndex (fst p)) obj)
       @ filter (\<lambda>p. \<not> isArrayIndex (fst p)) obj"

definition objectValues :: "(string \<times> 'a) list \<Rightarrow> 'a list" where
  "objectValues obj = map snd (objectEntries obj)"

definition objectKeys :: "(string \<times> 'a) list \<Rightarrow> string list" where
  "objectKeys obj = map fst (objectEntries obj)"

subsection \<open>The cache\<close>

text \<open>
  Modelled from the spec: the class \<^verbatim>\<open>TreeCache\<close> of \<^verbatim>\<open>cache.ts\<close>, which is not among the
  sources. The spec gives it \<^verbatim>\<open>get(key) -> value?\<close> and \<^verbatim>\<open>set(key, value, ...contexts)\<close>:
  an entry holds a value and the contexts that invalidate it.
\<close>

type_synonym TreeCache = "CacheKey \<rightharpoonup> (ModuleVersion \<times> CacheContext list)"

definition cache_get :: "TreeCache \<Rightarrow> CacheKey \<Rightarrow> ModuleVersion option" where
  "cache_get c key = map_option fst (c key)"

definition cache_set :: "TreeCache \<Rightarrow> CacheKey \<Rightarrow> ModuleVersion \<Rightarrow> CacheContext list \<Rightarrow> TreeCache" where
  "cache_set c key v contexts = c(key \<mapsto> (v, contexts))"

subsection \<open>The instance and its collaborators\<close>

type_synonym ModuleTypeMap = "string list"

record ResolveProviderTask =
  rp_plugin :: GardenPlugin
  rp_config :: ProviderConfig
  rp_version :: ModuleVersion
  rp_forceRefresh :: bool
  rp_forceInit :: bool

record ResolveModuleTask =
  rm_moduleConfig :: ModuleConfig
  rm_resolvedProviders :: "(string \<times> Provider) list"

record AddModuleSpec =
  am_name :: string
  am_path :: "string option"

record AugmentGraphResult =
  ag_addBuildDependencies :: "AddBuildDependency list"
  ag_addRuntimeDependencies :: "AddRuntimeDependency list"
  ag_addModules :: "AddModuleSpec list"

record ModuleOverlap =
  mo_module :: Module
  mo_overlaps :: "Module list"

text \<open>
  A \<^verbatim>\<open>ConfigGraph\<close> holds the module objects it was built from, so it shows what is
  assigned to them after its construction.
\<close>

datatype ConfigGraph = ConfigGraph (cg_modules: "Module list") (cg_moduleTypes: ModuleTypeMap)

text \<open>Modelled from the spec: the graph of \<^verbatim>\<open>util/validate-dependencies\<close>, which is not among
  the sources, with the spec's \<^verbatim>\<open>addNode(id)\<close> and \<^verbatim>\<open>addDependency(id, dependsOnId)\<close>; its
  cycle detection and its rendering of cycles are collaborators.\<close>

record DependencyValidationGraph =
  dvg_nodes :: "string list"
  dvg_edges :: "(string \<times> string) list"

definition emptyGraph :: DependencyValidationGraph where
  "emptyGraph = \<lparr>dvg_nodes = [], dvg_edges = []\<rparr>"

definition addNode :: "DependencyValidationGraph \<Rightarrow> string \<Rightarrow> DependencyValidationGraph" where
  "addNode G n = (if n \<in> set (dvg_nodes G) then G else G\<lparr>dvg_nodes := dvg_nodes G @ [n]\<rparr>)"

definition addDependency :: "DependencyValidationGraph \<Rightarrow> string \<Rightarrow> string \<Rightarrow> DependencyValidationGraph" where
  "addDependency G a b = G\<lparr>dvg_edges := dvg_edges G @ [(a, b)]\<rparr>"

text \<open>
  \<open>processed\<close> is not a field of the class: it records, in order, the names of the tasks
  of every batch handed to \<^verbatim>\<open>processTasks\<close>, so that a theorem can say that no task ran.
  \<open>actionHelper\<close> says whether the action router has been created.
\<close>

record Garden =
  loadedPlugins :: "GardenPlugin list option"
  moduleConfigs :: "(string \<times> ModuleConfig) list"
  workflowConfigs :: "(string \<times> WorkflowConfig) list"
  pluginModuleConfigs :: "ModuleConfig list"
  resolvedProviders :: "(string \<times> Provider) list"
  configsScanned :: bool
  registeredPlugins :: "(string \<times> GardenPlugin) list"
  actionHelper :: bool
  cache :: TreeCache
  projectRoot :: string
  environmentName :: string
  namespace :: "string option"
  variables :: DeepPrimitiveMap
  secrets :: StringMap
  providerConfigs :: "ProviderConfig list"
  projectId :: "string option"
  version :: ModuleVersion
  forceRefresh :: bool
  processed :: "string list list"

text \<open>
  The functions of other files and of the platform that the class calls. Each is a field
  of one record, so that a theorem holds for every collaborator and a witness runs with
  a concrete one. A collaborator that can throw returns a sum or an optional error.
  Tasks run inside \<open>processProviderTasks\<close> and \<open>processModuleTasks\<close> (the task graph);
  what they write to the instance while they run is not modelled.
  \<open>vcs_dirty\<close> is the content-hashing collaborator's report of uncommitted changes in a
  module; no method of the class reads it.
\<close>

record Collab =
  getModuleKey :: "string \<Rightarrow> string option \<Rightarrow> string"
  getModuleCacheContext :: "ModuleConfig \<Rightarrow> CacheContext"
  vcs_resolveVersion :: "ModuleConfig \<Rightarrow> ModuleConfig list \<Rightarrow> GardenError + ModuleVersion"
  vcs_dirty :: "ModuleConfig \<Rightarrow> bool"
  pickKeys :: "(string \<times> ModuleConfig) list \<Rightarrow> string list \<Rightarrow> GardenError + (string \<times> ModuleConfig) list"
  pickWorkflowKeys :: "(string \<times> WorkflowConfig) list \<Rightarrow> string list
     \<Rightarrow> GardenError + (string \<times> WorkflowConfig) list"
  relative :: "string \<Rightarrow> string \<Rightarrow> string"
  resolvePath :: "string \<Rightarrow> string \<Rightarrow> string"
  getConfigFilePath :: "string \<Rightarrow> string"
  loadProjectConfigs :: "GardenError + Resource list"
  missingModuleSecrets :: "(string \<times> ModuleConfig) list \<Rightarrow> StringMap \<Rightarrow> GardenError option"
  missingWorkflowSecrets :: "(string \<times> WorkflowConfig) list \<Rightarrow> StringMap \<Rightarrow> GardenError option"
  missingProviderSecrets :: "(string \<times> ProviderConfig) list \<Rightarrow> StringMap \<Rightarrow> GardenError option"
  findByNames :: "string list \<Rightarrow> ProviderConfig list \<Rightarrow> GardenError + ProviderConfig list"
  loadPlugins :: "(string \<times> GardenPlugin) list \<Rightarrow> ProviderConfig list \<Rightarrow> GardenError + GardenPlugin list"
  getAllProviderDependencyNames :: "GardenPlugin \<Rightarrow> ProviderConfig \<Rightarrow> GardenError + string list"
  detectCircularDependencies :: "DependencyValidationGraph \<Rightarrow> string list list"
  cyclesToString :: "string list list \<Rightarrow> string"
  processProviderTasks :: "Garden \<Rightarrow> ResolveProviderTask list \<Rightarrow> GardenError + Provider TaskResults"
  defaultProvider :: Provider
  processModuleTasks :: "Garden \<Rightarrow> ResolveModuleTask list \<Rightarrow> GardenError + Module TaskResults"
  getResolvedModules :: "Module TaskResults \<Rightarrow> Module list"
  getModuleTypes :: "GardenPlugin list \<Rightarrow> GardenError + ModuleTypeMap"
  detectModuleOverlap :: "Module list \<Rightarrow> ModuleOverlap list"
  overlapMessage :: "ModuleOverlap list \<Rightarrow> string"
  getDependencyOrder :: "Provider list \<Rightarrow> (string \<times> GardenPlugin) list \<Rightarrow> GardenError + Provider list"
  hasAugmentGraphHandler :: "string \<Rightarrow> bool"
  validateConfigGraph :: "Module list \<Rightarrow> ModuleTypeMap \<Rightarrow> GardenError option"
  augmentGraph :: "string \<Rightarrow> (string \<times> Provider) list \<Rightarrow> Module list \<Rightarrow> GardenError + AugmentGraphResult"
  resolveAddedModule :: "Garden \<Rightarrow> AddModuleSpec \<Rightarrow> string \<Rightarrow> Module list \<Rightarrow> Module list
     \<Rightarrow> GardenError + Module"
  getModules :: "ConfigGraph \<Rightarrow> bool \<Rightarrow> Module list"
  resolveWorkflowConfig :: "(string \<times> Provider) list \<Rightarrow> WorkflowConfig \<Rightarrow> GardenError + WorkflowConfig"
  chalk_red :: "string \<Rightarrow> string"
  chalk_white_bold :: "string \<Rightarrow> string"

subsection \<open>Adding module and workflow configs\<close>

definition quote :: string where
  "quote = [CHR 0x27]"

definition newline :: string where
  "newline = [CHR 0x0A]"

definition declaredTwice :: "string \<Rightarrow> string \<Rightarrow> string \<Rightarrow> string \<Rightarrow> string" where
  "declaredTwice kind key pathA pathB =
     kind @ '' '' @ key @ '' is declared multiple times (in '' @ quote @ pathA @ quote
       @ '' and '' @ quote @ pathB @ quote @ '')''"

text \<open>
  \<^verbatim>\<open>addModule\<close>: when \<^verbatim>\<open>this.moduleConfigs[key]\<close> is truthy the call throws, else the key is
  assigned. For a config registered under the key, the error is the \<^verbatim>\<open>ConfigurationError\<close>
  with the config file paths of the old and the new config, relative to the project root
  and sorted. For a key that the dictionary only inherits, \<^verbatim>\<open>this.moduleConfigs[key].path\<close> is
  \<^verbatim>\<open>undefined\<close>, and \<^verbatim>\<open>getConfigFilePath(undefined)\<close> throws a \<^verbatim>\<open>TypeError\<close>, which rejects the
  \<^verbatim>\<open>Bluebird.map\<close> over the two paths. \<^verbatim>\<open>addWorkflow\<close> is written the same way.
\<close>

definition undefinedPath :: GardenError where
  "undefinedPath = TypeError ''The path argument must be of type string. Received undefined''"

definition addModule :: "Collab \<Rightarrow> Garden \<Rightarrow> ModuleConfig \<Rightarrow> (GardenError + unit) \<times> Garden" where
  "addModule E g config =
     (let key = getModuleKey E (mc_name config) (mc_plugin config) in
      case getProp (moduleConfigs g) key of
        Some (Own existing) \<Rightarrow>
          (let paths = [mc_path existing, mc_path config];
               sorted_paths = sort (map (\<lambda>path. relative E (projectRoot g) (getConfigFilePath E path)) paths);
               pathA = sorted_paths ! 0;
               pathB = sorted_paths ! 1
           in (Inl (ConfigurationError (declaredTwice ''Module'' key pathA pathB)
                      (DuplicatePaths pathA pathB)), g))
      | Some (Inherited k) \<Rightarrow> (Inl undefinedPath, g)
      | None \<Rightarrow> (Inr (), g\<lparr>moduleConfigs := moduleConfigs g @ [(key, config)]\<rparr>))"

definition addWorkflow :: "Collab \<Rightarrow> Garden \<Rightarrow> WorkflowConfig \<Rightarrow> (GardenError + unit) \<times> Garden" where
  "addWorkflow E g config =
     (let key = wc_name config in
      case getProp (workflowConfigs g) key of
        Some (Own existing) \<Rightarrow>
          (let paths = [wc_path existing, wc_path config];
               sorted_paths = sort (map (\<lambda>path. relative E (projectRoot g) (getConfigFilePath E path)) paths);
               pathA = sorted_paths ! 0;
               pathB = sorted_paths ! 1
           in (Inl (ConfigurationError (declaredTwice ''Workflow'' key pathA pathB)
                      (DuplicatePaths pathA pathB)), g))
      | Some (Inherited k) \<Rightarrow> (Inl undefinedPath, g)
      | None \<Rightarrow> (Inr (), g\<lparr>workflowConfigs := workflowConfigs g @ [(key, config)]\<rparr>))"

text \<open>
  \<^verbatim>\<open>Bluebird.map(configs, async (config) => this.addModule(config))\<close>: every call runs, in
  the order of the list, up to its first \<^verbatim>\<open>await\<close>, which only the throwing branch has. So
  every free key is assigned whatever else fails, and the errors are collected in the
  order of the list.
\<close>

fun addModules :: "Collab \<Rightarrow> Garden \<Rightarrow> ModuleConfig list \<Rightarrow> GardenError list \<times> Garden" where
  "addModules E g [] = ([], g)"
| "addModules E g (c # cs) =
     (case addModule E g c of
        (Inl e, g1) \<Rightarrow> (case addModules E g1 cs of (es, g2) \<Rightarrow> (e # es, g2))
      | (Inr u, g1) \<Rightarrow> addModules E g1 cs)"

fun addWorkflows :: "Collab \<Rightarrow> Garden \<Rightarrow> WorkflowConfig list \<Rightarrow> GardenError list \<times> Garden" where
  "addWorkflows E g [] = ([], g)"
| "addWorkflows E g (c # cs) =
     (case addWorkflow E g c of
        (Inl e, g1) \<Rightarrow> (case addWorkflows E g1 cs of (es, g2) \<Rightarrow> (e # es, g2))
      | (Inr u, g1) \<Rightarrow> addWorkflows E g1 cs)"

fun moduleResources :: "Resource list \<Rightarrow> ModuleConfig list" where
  "moduleResources [] = []"
| "moduleResources (ModuleResource c # rs) = c # moduleResources rs"
| "moduleResources (WorkflowResource w # rs) = moduleResources rs"

fun workflowResources :: "Resource list \<Rightarrow> WorkflowConfig list" where
  "workflowResources [] = []"
| "workflowResources (ModuleResource c # rs) = workflowResources rs"
| "workflowResources (WorkflowResource w # rs) = w # workflowResources rs"

text \<open>
  Of several rejections \<^verbatim>\<open>Bluebird.map\<close> and \<^verbatim>\<open>Bluebird.all\<close> report the one that arrives
  first. The \<^verbatim>\<open>TypeError\<close> of an inherited key arrives before the error of a duplicate,
  which waits for the file system to answer \<^verbatim>\<open>getConfigFilePath\<close>; among errors of one
  kind the model takes the first in the order of the calls.
\<close>

definition firstRejection :: "GardenError list \<Rightarrow> GardenError option" where
  "firstRejection errors =
     (case filter isTypeError errors of
        e # es \<Rightarrow> Some e
      | [] \<Rightarrow> (case errors of e # es \<Rightarrow> Some e | [] \<Rightarrow> None))"

text \<open>
  \<^verbatim>\<open>scanAndAddConfigs\<close>. \<open>loadProjectConfigs\<close> stands for the scan of the project root and of
  the external sources and for the loading of every config file found. The calls of
  \<^verbatim>\<open>addModule\<close> come before those of \<^verbatim>\<open>addWorkflow\<close>.
\<close>

definition scanAndAddConfigs :: "Collab \<Rightarrow> Garden \<Rightarrow> bool \<Rightarrow> (GardenError + unit) \<times> Garden" where
  "scanAndAddConfigs E g force =
     (if configsScanned g \<and> \<not> force then (Inr (), g)
      else case loadProjectConfigs E of
        Inl e \<Rightarrow> (Inl e, g)
      | Inr resources \<Rightarrow>
          (let rawModuleConfigs = pluginModuleConfigs g @ moduleResources resources;
               rawWorkflowConfigs = workflowResources resources
           in case missingModuleSecrets E (map (\<lambda>c. (mc_name c, c)) rawModuleConfigs) (secrets g) of
                Some e \<Rightarrow> (Inl e, g)
              | None \<Rightarrow>
             (case missingWorkflowSecrets E (map (\<lambda>c. (wc_name c, c)) rawWorkflowConfigs) (secrets g) of
                Some e \<Rightarrow> (Inl e, g)
              | None \<Rightarrow>
             (case addModules E g rawModuleConfigs of (es1, g1) \<Rightarrow>
              case addWorkflows E g1 rawWorkflowConfigs of (es2, g2) \<Rightarrow>
                (case firstRejection (es1 @ es2) of
                   Some e \<Rightarrow> (Inl e, g2)
                 | None \<Rightarrow> (Inr (), g2\<lparr>configsScanned := True\<rparr>))))))"

text \<open>\<^verbatim>\<open>getRawModuleConfigs(keys?)\<close>: scans first when that has not been done.\<close>

definition getRawModuleConfigs ::
  "Collab \<Rightarrow> Garden \<Rightarrow> string list option \<Rightarrow> (GardenError + ModuleConfig list) \<times> Garden" where
  "getRawModuleConfigs E g keys =
     (case (if \<not> configsScanned g then scanAndAddConfigs E g False else (Inr (), g)) of
        (Inl e, g1) \<Rightarrow> (Inl e, g1)
      | (Inr u, g1) \<Rightarrow>
          (case keys of
             None \<Rightarrow> (Inr (objectValues (moduleConfigs g1)), g1)
           | Some ks \<Rightarrow>
               (case pickKeys E (moduleConfigs g1) ks of
                  Inl e \<Rightarrow> (Inl e, g1)
                | Inr picked \<Rightarrow> (Inr (objectValues picked), g1))))"

subsection \<open>Versions\<close>

definition versionCacheKey :: "ModuleConfig \<Rightarrow> ModuleDependency list \<Rightarrow> CacheKey" where
  "versionCacheKey moduleConfig moduleDependencies =
     ''moduleVersions'' # mc_name moduleConfig # sort (map dep_name moduleDependencies)"

text \<open>
  \<^verbatim>\<open>resolveVersion(moduleConfig, moduleDependencies, force = false)\<close>: unless forced, an
  entry of the cache under the key is returned as it is; otherwise the content-hashing
  collaborator computes the version, which is stored under the key.
\<close>

definition resolveVersion ::
  "Collab \<Rightarrow> Garden \<Rightarrow> ModuleConfig \<Rightarrow> ModuleDependency list \<Rightarrow> bool
     \<Rightarrow> (GardenError + ModuleVersion) \<times> Garden" where
  "resolveVersion E g moduleConfig moduleDependencies force =
     (let cacheKey = versionCacheKey moduleConfig moduleDependencies in
      case (if \<not> force then cache_get (cache g) cacheKey else None) of
        Some cached \<Rightarrow> (Inr cached, g)
      | None \<Rightarrow>
          (let dependencyKeys = map (\<lambda>dep. getModuleKey E (dep_name dep) (dep_plugin dep)) moduleDependencies in
           case getRawModuleConfigs E g (Some dependencyKeys) of
             (Inl e, g1) \<Rightarrow> (Inl e, g1)
           | (Inr dependencies, g1) \<Rightarrow>
               (let cacheContexts = map (getModuleCacheContext E) (dependencies @ [moduleConfig]) in
                case vcs_resolveVersion E moduleConfig dependencies of
                  Inl e \<Rightarrow> (Inl e, g1)
                | Inr resolved \<Rightarrow>
                    (Inr resolved, g1\<lparr>cache := cache_set (cache g1) cacheKey resolved cacheContexts\<rparr>))))"

subsection \<open>Helpers of the platform and of lodash\<close>

text \<open>\<^verbatim>\<open>Array.prototype.join\<close> on strings.\<close>

fun join :: "string \<Rightarrow> string list \<Rightarrow> string" where
  "join sep [] = []"
| "join sep [x] = x"
| "join sep (x # y # ys) = x @ sep @ join sep (y # ys)"

text \<open>
  \<^verbatim>\<open>keyBy(xs, "name")\<close> and \<^verbatim>\<open>fromPairs\<close>: a later entry of the same name replaces the value
  and keeps the place of the first.
\<close>

definition keyBy :: "('a \<Rightarrow> string) \<Rightarrow> 'a list \<Rightarrow> (string \<times> 'a) list" where
  "keyBy nm xs = fold (\<lambda>x acc. AList.update (nm x) x acc) xs []"

definition fromPairs :: "(string \<times> 'a) list \<Rightarrow> (string \<times> 'a) list" where
  "fromPairs ps = fold (\<lambda>p acc. AList.update (fst p) (snd p) acc) ps []"

text \<open>
  An array inside a template string or inside \<^verbatim>\<open>join\<close> is rendered by its own
  \<^verbatim>\<open>join(",")\<close>, and \<^verbatim>\<open>undefined\<close> is rendered as the empty string.
\<close>

definition renderName :: "string option \<Rightarrow> string" where
  "renderName k = (case k of None \<Rightarrow> [] | Some n \<Rightarrow> n)"

definition renderCycles :: "string option list list \<Rightarrow> string" where
  "renderCycles c = join '','' (map (\<lambda>cycle. join '','' (map renderName cycle)) c)"

subsection \<open>Providers\<close>

definition getRawProviderConfigs :: "Collab \<Rightarrow> Garden \<Rightarrow> string list option \<Rightarrow> GardenError + ProviderConfig list" where
  "getRawProviderConfigs E g names =
     (case names of Some ns \<Rightarrow> findByNames E ns (providerConfigs g) | None \<Rightarrow> Inr (providerConfigs g))"

definition getPlugins :: "Collab \<Rightarrow> Garden \<Rightarrow> (GardenError + GardenPlugin list) \<times> Garden" where
  "getPlugins E g =
     (case loadedPlugins g of
        Some ps \<Rightarrow> (Inr ps, g)
      | None \<Rightarrow>
          (case getRawProviderConfigs E g None of
             Inl e \<Rightarrow> (Inl e, g)
           | Inr rawConfigs \<Rightarrow>
               (case loadPlugins E (registeredPlugins g) rawConfigs of
                  Inl e \<Rightarrow> (Inl e, g)
                | Inr ps \<Rightarrow> (Inr ps, g\<lparr>loadedPlugins := Some ps\<rparr>))))"

text \<open>
  The validation graph of \<^verbatim>\<open>resolveProviders\<close>. Every call of the mapper runs up to its
  \<^verbatim>\<open>await\<close> before any continues: first \<^verbatim>\<open>plugins[config.name]\<close> is read and its name added
  as a node for every config, where a config without a plugin is a \<^verbatim>\<open>TypeError\<close>; then
  the dependencies of each config are added. The run of the model ends at the first
  config, in the order of the list, whose plugin is undefined or inherited.
\<close>

fun lookupPlugins ::
  "(string \<times> GardenPlugin) list \<Rightarrow> ProviderConfig list \<Rightarrow> GardenError + (GardenPlugin \<times> ProviderConfig) list" where
  "lookupPlugins plugins [] = Inr []"
| "lookupPlugins plugins (config # cs) =
     (case getProp plugins (pc_name config) of
        None \<Rightarrow> Inl (TypeError ''Cannot read property name of undefined'')
      | Some (Inherited k) \<Rightarrow> Inl (InheritedValue k)
      | Some (Own plugin) \<Rightarrow>
          (case lookupPlugins plugins cs of
             Inl e \<Rightarrow> Inl e
           | Inr ps \<Rightarrow> Inr ((plugin, config) # ps)))"

fun addProviderDependencies ::
  "Collab \<Rightarrow> DependencyValidationGraph \<Rightarrow> (GardenPlugin \<times> ProviderConfig) list
     \<Rightarrow> GardenError + DependencyValidationGraph" where
  "addProviderDependencies E G [] = Inr G"
| "addProviderDependencies E G ((plugin, config) # ps) =
     (case getAllProviderDependencyNames E plugin config of
        Inl e \<Rightarrow> Inl e
      | Inr deps \<Rightarrow>
          addProviderDependencies E
            (fold (\<lambda>dep G'. addDependency (addNode G' dep) (gp_name plugin) dep) deps G) ps)"

definition buildValidationGraph ::
  "Collab \<Rightarrow> (GardenPlugin \<times> ProviderConfig) list \<Rightarrow> GardenError + DependencyValidationGraph" where
  "buildValidationGraph E pcs =
     addProviderDependencies E (fold (\<lambda>pc G. addNode G (gp_name (fst pc))) pcs emptyGraph) pcs"

definition circularProvidersMessage :: "string \<Rightarrow> string" where
  "circularProvidersMessage description =
     ''One or more circular dependencies found between providers or their configurations:''
       @ newline @ newline @ description"

text \<open>\<^verbatim>\<open>Object.values(taskResults).filter((r) => r && r.error)\<close>\<close>

definition failedResults :: "'o TaskResults \<Rightarrow> 'o TaskResult list" where
  "failedResults taskResults =
     filter (\<lambda>r. tr_error r \<noteq> None) (List.map_filter (\<lambda>x. x) (objectValues taskResults))"

definition failedMessage :: "'o TaskResult \<Rightarrow> string" where
  "failedMessage r = ''- '' @ tr_name r @ '': '' @ renderName (tr_error r)"

definition failedProvidersMessage :: "string list \<Rightarrow> string" where
  "failedProvidersMessage failedNames =
     ''Failed resolving one or more providers:'' @ newline @ ''- '' @ join (newline @ ''- '') failedNames"

text \<open>
  \<^verbatim>\<open>Object.values(taskResults).map((result) => result!.output)\<close>: a null result is a
  \<^verbatim>\<open>TypeError\<close>, a result without output gives \<^verbatim>\<open>undefined\<close>.
\<close>

fun taskOutputs :: "'o TaskResults \<Rightarrow> GardenError + 'o option list" where
  "taskOutputs [] = Inr []"
| "taskOutputs ((k, None) # rs) = Inl (TypeError ''Cannot read property output of null'')"
| "taskOutputs ((k, Some r) # rs) =
     (case taskOutputs rs of Inl e \<Rightarrow> Inl e | Inr os \<Rightarrow> Inr (tr_output r # os))"

text \<open>\<^verbatim>\<open>!!providers.find((p) => p.status.cached)\<close>, which stops at the first cached status.\<close>

fun gotCachedResult :: "Provider option list \<Rightarrow> GardenError + bool" where
  "gotCachedResult [] = Inr False"
| "gotCachedResult (None # ps) = Inl (TypeError ''Cannot read property status of undefined'')"
| "gotCachedResult (Some p # ps) = (if st_cached (p_status p) then Inr True else gotCachedResult ps)"

text \<open>\<^verbatim>\<open>moduleConfig.plugin = provider.name\<close> for every module config of the provider.\<close>

definition scopeModuleConfigs :: "Provider \<Rightarrow> Provider" where
  "scopeModuleConfigs p =
     p\<lparr>p_moduleConfigs := map (\<lambda>c. c\<lparr>mc_plugin := Some (p_name p)\<rparr>) (p_moduleConfigs p)\<rparr>"

text \<open>
  \<^verbatim>\<open>this.resolvedProviders[provider.name] = provider\<close> for every provider. An assignment to
  the key \<^verbatim>\<open>__proto__\<close> gives the dictionary no property: it replaces its prototype. The
  model registers providers of other names only, and \<open>collectProviders\<close> stops at that name.
\<close>

definition registerProviders :: "(string \<times> Provider) list \<Rightarrow> Provider list \<Rightarrow> (string \<times> Provider) list" where
  "registerProviders reg ps = fold (\<lambda>p acc. AList.update (p_name p) p acc) ps reg"

text \<open>
  \<^verbatim>\<open>resolveProviders(forceInit = false, names?)\<close>, in three parts. The last part is what
  follows \<^verbatim>\<open>processTasks\<close>: in the loop that adds the module configs of the providers, an
  undefined provider rejects at once, before the rejection of any module, while the
  configs of the other providers are still added.
\<close>

definition collectProviders ::
  "Collab \<Rightarrow> Garden \<Rightarrow> ProviderConfig list \<Rightarrow> Provider TaskResults
     \<Rightarrow> (GardenError + (string \<times> Provider) list) \<times> Garden" where
  "collectProviders E g rawConfigs taskResults =
     (let failed = failedResults taskResults in
      if length failed > 0
      then (let messages = map failedMessage failed;
                failedNames = map tr_name failed
            in (Inl (PluginError (failedProvidersMessage failedNames)
                       (FailedProviders rawConfigs taskResults messages)), g))
      else case taskOutputs (objectEntries taskResults) of
        Inl e \<Rightarrow> (Inl e, g)
      | Inr outputs \<Rightarrow>
          (case gotCachedResult outputs of
             Inl e \<Rightarrow> (Inl e, g)
           | Inr cached \<Rightarrow>
               (let providers = map scopeModuleConfigs (List.map_filter (\<lambda>x. x) outputs) in
                case addModules E g (concat (map p_moduleConfigs providers)) of
                  (es, g3) \<Rightarrow>
                    if None \<in> set outputs
                    then (Inl (TypeError ''Cannot read property moduleConfigs of undefined''), g3)
                    else (case firstRejection es of
                            Some e \<Rightarrow> (Inl e, g3)
                          | None \<Rightarrow>
                              if ''__proto__'' \<in> set (map p_name providers)
                              then (Inl (InheritedValue ''__proto__''), g3)
                              else (Inr (keyBy p_name providers),
                                    g3\<lparr>resolvedProviders :=
                                         registerProviders (resolvedProviders g3) providers\<rparr>)))))"

text \<open>The tasks, one for each config, and the record of a batch handed to \<^verbatim>\<open>processTasks\<close>.\<close>

definition providerTasks :: "Garden \<Rightarrow> bool \<Rightarrow> (GardenPlugin \<times> ProviderConfig) list \<Rightarrow> ResolveProviderTask list" where
  "providerTasks g forceInit pcs =
     map (\<lambda>pc. \<lparr>rp_plugin = fst pc, rp_config = snd pc, rp_version = version g,
                 rp_forceRefresh = forceRefresh g, rp_forceInit = forceInit\<rparr>) pcs"

definition recordBatch :: "Garden \<Rightarrow> string list \<Rightarrow> Garden" where
  "recordBatch g taskNames = g\<lparr>processed := processed g @ [taskNames]\<rparr>"

text \<open>The part from the validation graph to \<^verbatim>\<open>processTasks\<close>.\<close>

definition validateAndProcess ::
  "Collab \<Rightarrow> Garden \<Rightarrow> bool \<Rightarrow> ProviderConfig list \<Rightarrow> GardenPlugin list
     \<Rightarrow> (GardenError + (string \<times> Provider) list) \<times> Garden" where
  "validateAndProcess E g forceInit rawConfigs loaded =
     (let plugins = keyBy gp_name loaded in
      case lookupPlugins plugins rawConfigs of
        Inl e \<Rightarrow> (Inl e, g)
      | Inr pcs \<Rightarrow>
          (case buildValidationGraph E pcs of
             Inl e \<Rightarrow> (Inl e, g)
           | Inr validationGraph \<Rightarrow>
               (let cycles = detectCircularDependencies E validationGraph in
                if length cycles > 0
                then (let description = cyclesToString E cycles in
                      (Inl (PluginError (circularProvidersMessage description)
                              (CircularDescription description)), g))
                else
                  (let tasks = providerTasks g forceInit pcs;
                       g2 = recordBatch g (map (\<lambda>t. pc_name (rp_config t)) tasks)
                   in case processProviderTasks E g2 tasks of
                        Inl e \<Rightarrow> (Inl e, g2)
                      | Inr taskResults \<Rightarrow> collectProviders E g2 rawConfigs taskResults))))"

text \<open>\<^verbatim>\<open>if (!names) { names = getNames(rawConfigs) }\<close>\<close>

definition requestedNames :: "string list option \<Rightarrow> ProviderConfig list \<Rightarrow> string list" where
  "requestedNames names0 rawConfigs = (case names0 of None \<Rightarrow> map pc_name rawConfigs | Some ns \<Rightarrow> ns)"

text \<open>
  The values read from a dictionary, when each is a property of the dictionary itself; the
  run of the model stops at the first that is inherited.
\<close>

fun ownValues :: "'a property list \<Rightarrow> GardenError + 'a list" where
  "ownValues [] = Inr []"
| "ownValues (Own v # ps) = (case ownValues ps of Inl e \<Rightarrow> Inl e | Inr vs \<Rightarrow> Inr (v # vs))"
| "ownValues (Inherited k # ps) = Inl (InheritedValue k)"

text \<open>
  \<^verbatim>\<open>names.map((name) => this.resolvedProviders[name]).filter(Boolean)\<close> keeps every truthy
  value, own or inherited; when there are as many as names, they are what is returned.
\<close>

definition resolveProviders ::
  "Collab \<Rightarrow> Garden \<Rightarrow> bool \<Rightarrow> string list option \<Rightarrow> (GardenError + (string \<times> Provider) list) \<times> Garden" where
  "resolveProviders E g forceInit names0 =
     (case getRawProviderConfigs E g names0 of
        Inl e \<Rightarrow> (Inl e, g)
      | Inr rawConfigs \<Rightarrow>
          (let names = requestedNames names0 rawConfigs in
           case missingProviderSecrets E (map (\<lambda>c. (pc_name c, c)) rawConfigs) (secrets g) of
             Some e \<Rightarrow> (Inl e, g)
           | None \<Rightarrow>
               (let alreadyResolvedProviders = List.map_filter (getProp (resolvedProviders g)) names in
                if length alreadyResolvedProviders = length names
                then (case ownValues alreadyResolvedProviders of
                        Inl e \<Rightarrow> (Inl e, g)
                      | Inr providers \<Rightarrow> (Inr (keyBy p_name providers), g))
                else case getPlugins E g of
                       (Inl e, g1) \<Rightarrow> (Inl e, g1)
                     | (Inr loaded, g1) \<Rightarrow> validateAndProcess E g1 forceInit rawConfigs loaded)))"

definition providerNotFoundMessage :: "string \<Rightarrow> string \<Rightarrow> string list \<Rightarrow> string" where
  "providerNotFoundMessage name env providerNames =
     ''Could not find provider '' @ quote @ name @ quote @ '' in environment '' @ quote @ env @ quote
       @ '' (configured providers: '' @ join '', '' providerNames @ '')''"

text \<open>\<^verbatim>\<open>resolveProvider(name)\<close>\<close>

definition resolveProvider :: "Collab \<Rightarrow> Garden \<Rightarrow> string \<Rightarrow> (GardenError + Provider) \<times> Garden" where
  "resolveProvider E g name =
     (if name = ''_default'' then (Inr (defaultProvider E), g)
      else case getProp (resolvedProviders g) name of
        Some (Own p) \<Rightarrow> (Inr p, g)
      | Some (Inherited k) \<Rightarrow> (Inl (InheritedValue k), g)
      | None \<Rightarrow>
          (case resolveProviders E g False (Some [name]) of
             (Inl e, g1) \<Rightarrow> (Inl e, g1)
           | (Inr providers, g1) \<Rightarrow>
               (case getProp providers name of
                  None \<Rightarrow> (Inl (PluginError
                              (providerNotFoundMessage name (environmentName g1) (objectKeys providers))
                              (ProviderNotFound name providers)), g1)
                | Some (Inherited k) \<Rightarrow> (Inl (InheritedValue k), g1)
                | Some (Own provider) \<Rightarrow> (Inr provider, g1))))"

subsection \<open>The config graph\<close>

text \<open>
  The \<^verbatim>\<open>catch\<close> around \<^verbatim>\<open>processTasks\<close> in \<^verbatim>\<open>getConfigGraph\<close>. For an error of type
  \<^verbatim>\<open>"circular-dependencies"\<close> it computes
  \<^verbatim>\<open>err.cycles.map((c) => c.map((cycle) => cycle.map((key) => key.split(".")[1])))\<close>
  and throws a \<^verbatim>\<open>ConfigurationError\<close> over the result; any other error is thrown as it is.
  The function given to the outer \<^verbatim>\<open>map\<close> receives a cycle, and the function given to
  \<^verbatim>\<open>c.map\<close> receives an element of the cycle, a task key. A string has no method \<^verbatim>\<open>map\<close>, so
  \<^verbatim>\<open>cycle.map(...)\<close> throws a \<^verbatim>\<open>TypeError\<close> at the first key of the first cycle that has one,
  and \<^verbatim>\<open>key.split(".")[1]\<close> is never computed. A cycle without a key is mapped to the empty
  array.
\<close>

fun stripCycle :: "string list \<Rightarrow> GardenError + string option list list" where
  "stripCycle [] = Inr []"
| "stripCycle (cycle # c) = Inl (TypeError ''cycle.map is not a function'')"

fun stripTaskKeys :: "TaskCycles \<Rightarrow> GardenError + string option list list list" where
  "stripTaskKeys [] = Inr []"
| "stripTaskKeys (c # cs) =
     (case stripCycle c of
        Inl e \<Rightarrow> Inl e
      | Inr stripped \<Rightarrow>
          (case stripTaskKeys cs of
             Inl e \<Rightarrow> Inl e
           | Inr rest \<Rightarrow> Inr (stripped # rest)))"

definition circularModulesMessage :: "string option list list list \<Rightarrow> string" where
  "circularModulesMessage cycles =
     ''Detected one or more circular dependencies between module configurations:''
       @ newline @ newline @ join newline (map renderCycles cycles)"

fun wrapCircular :: "GardenError \<Rightarrow> GardenError" where
  "wrapCircular (CircularDependenciesError m cs) =
     (case stripTaskKeys cs of
        Inl e \<Rightarrow> e
      | Inr cycles \<Rightarrow> ConfigurationError (circularModulesMessage cycles) (ModuleCycles cycles))"
| "wrapCircular err = err"

definition failedModulesError :: "Collab \<Rightarrow> Module TaskResults \<Rightarrow> GardenError" where
  "failedModulesError E results =
     (let errors = map (\<lambda>r. chalk_white_bold E (tr_name r) @ '': '' @ renderName (tr_error r))
                       (failedResults results)
      in ConfigurationError
           (chalk_red E (''Failed resolving one or more modules:'' @ newline @ newline @ join newline errors))
           (FailedModules results errors))"

text \<open>\<^verbatim>\<open>getModuleTypes()\<close> and \<^verbatim>\<open>getActionRouter()\<close> of the class.\<close>

definition configuredModuleTypes :: "Collab \<Rightarrow> Garden \<Rightarrow> (GardenError + ModuleTypeMap) \<times> Garden" where
  "configuredModuleTypes E g =
     (case getPlugins E g of
        (Inl e, g1) \<Rightarrow> (Inl e, g1)
      | (Inr loaded, g1) \<Rightarrow>
          (case getRawProviderConfigs E g1 None of
             Inl e \<Rightarrow> (Inl e, g1)
           | Inr rawConfigs \<Rightarrow>
               (let configNames = keyBy pc_name rawConfigs in
                (getModuleTypes E (filter (\<lambda>p. getProp configNames (gp_name p) \<noteq> None) loaded), g1))))"

definition getActionRouter :: "Collab \<Rightarrow> Garden \<Rightarrow> (GardenError + unit) \<times> Garden" where
  "getActionRouter E g =
     (if actionHelper g then (Inr (), g)
      else case getPlugins E g of
        (Inl e, g1) \<Rightarrow> (Inl e, g1)
      | (Inr loaded, g1) \<Rightarrow>
          (case configuredModuleTypes E g1 of
             (Inl e, g2) \<Rightarrow> (Inl e, g2)
           | (Inr moduleTypes, g2) \<Rightarrow> (Inr (), g2\<lparr>actionHelper := True\<rparr>)))"

text \<open>
  \<^verbatim>\<open>makeOverlapError\<close>: the text, which chalk, dedent and naturalList format, is the
  collaborator \<open>overlapMessage\<close>; the detail holds names and resolved paths.
\<close>

definition makeOverlapError :: "Collab \<Rightarrow> Garden \<Rightarrow> ModuleOverlap list \<Rightarrow> GardenError" where
  "makeOverlapError E g moduleOverlaps =
     ConfigurationError (overlapMessage E moduleOverlaps)
       (Overlapping (map (\<lambda>ov. (mc_name (mo_module ov),
                               resolvePath E (projectRoot g) (mc_path (mo_module ov)),
                               map (\<lambda>m. (mc_name m, resolvePath E (projectRoot g) (mc_path m)))
                                   (mo_overlaps ov)))
                         moduleOverlaps))"

text \<open>
  \<^verbatim>\<open>new ConfigGraph(resolvedModules, moduleTypes)\<close>: the constructor validates the
  dependency structure (the collaborator \<open>validateConfigGraph\<close>) and throws or returns.
\<close>

definition newConfigGraph :: "Collab \<Rightarrow> Module list \<Rightarrow> ModuleTypeMap \<Rightarrow> GardenError + ConfigGraph" where
  "newConfigGraph E ms moduleTypes =
     (case validateConfigGraph E ms moduleTypes of
        Some e \<Rightarrow> Inl e
      | None \<Rightarrow> Inr (ConfigGraph ms moduleTypes))"

text \<open>
  The modules that a plugin adds: \<open>resolveAddedModule\<close> stands for
  \<^verbatim>\<open>prepareModuleResource\<close>, \<^verbatim>\<open>resolveModuleConfig\<close> with the config context of this round and
  \<^verbatim>\<open>moduleFromConfig\<close>; the result is pushed.
\<close>

fun addResolvedModules ::
  "Collab \<Rightarrow> Garden \<Rightarrow> Module list \<Rightarrow> AddModuleSpec list \<Rightarrow> Module list \<Rightarrow> GardenError + Module list" where
  "addResolvedModules E g context [] ms = Inr ms"
| "addResolvedModules E g context (spec # specs) ms =
     (let path = (case am_path spec of
                    None \<Rightarrow> projectRoot g
                  | Some p \<Rightarrow> if p = [] then projectRoot g else p)
      in case resolveAddedModule E g spec path context ms of
           Inl e \<Rightarrow> Inl e
         | Inr m \<Rightarrow> addResolvedModules E g context specs (ms @ [m]))"

text \<open>
  \<^verbatim>\<open>findByName(resolvedModules, dependency.by)\<close> and the push to the build dependencies of
  the module found, the first of that name; \<open>None\<close> when there is none.
\<close>

fun pushBuildDependency :: "Module list \<Rightarrow> string \<Rightarrow> string \<Rightarrow> Module list option" where
  "pushBuildDependency [] byName onName = None"
| "pushBuildDependency (m # ms) byName onName =
     (if mc_name m = byName
      then Some (m\<lparr>mc_build_dependencies :=
                     mc_build_dependencies m @ [\<lparr>bd_name = onName, bd_plugin = None, bd_copy = []\<rparr>]\<rparr> # ms)
      else map_option ((#) m) (pushBuildDependency ms byName onName))"

definition buildDependencyMessage :: "string \<Rightarrow> string \<Rightarrow> string \<Rightarrow> string" where
  "buildDependencyMessage providerName byName onName =
     ''Provider '' @ quote @ providerName @ quote @ '' added a build dependency by module ''
       @ quote @ byName @ quote @ '' on '' @ quote @ onName @ quote @ '' but module ''
       @ quote @ byName @ quote @ '' could not be found.''"

fun addBuildDeps :: "Provider \<Rightarrow> Module list \<Rightarrow> AddBuildDependency list \<Rightarrow> GardenError + Module list" where
  "addBuildDeps provider ms [] = Inr ms"
| "addBuildDeps provider ms (dependency # ds) =
     (case pushBuildDependency ms (ab_by dependency) (ab_on dependency) of
        None \<Rightarrow> Inl (PluginError
                      (buildDependencyMessage (p_name provider) (ab_by dependency) (ab_on dependency))
                      (BuildDependencyDetail provider dependency))
      | Some ms' \<Rightarrow> addBuildDeps provider ms' ds)"

text \<open>A runtime dependency is pushed to every service and task of the name.\<close>

definition hasServiceOrTask :: "Module list \<Rightarrow> string \<Rightarrow> bool" where
  "hasServiceOrTask ms byName =
     list_ex (\<lambda>m. list_ex (\<lambda>s. sc_name s = byName) (mc_serviceConfigs m)
                \<or> list_ex (\<lambda>t. tc_name t = byName) (mc_taskConfigs m)) ms"

definition pushRuntimeDependency :: "string \<Rightarrow> string \<Rightarrow> Module \<Rightarrow> Module" where
  "pushRuntimeDependency byName onName m =
     m\<lparr>mc_serviceConfigs :=
         map (\<lambda>s. if sc_name s = byName then s\<lparr>sc_dependencies := sc_dependencies s @ [onName]\<rparr> else s)
             (mc_serviceConfigs m),
       mc_taskConfigs :=
         map (\<lambda>t. if tc_name t = byName then t\<lparr>tc_dependencies := tc_dependencies t @ [onName]\<rparr> else t)
             (mc_taskConfigs m)\<rparr>"

definition runtimeDependencyMessage :: "string \<Rightarrow> string \<Rightarrow> string \<Rightarrow> string" where
  "runtimeDependencyMessage providerName byName onName =
     ''Provider '' @ quote @ providerName @ quote @ '' added a runtime dependency by ''
       @ quote @ byName @ quote @ '' on '' @ quote @ onName @ quote @ '' but service or task ''
       @ quote @ byName @ quote @ '' could not be found.''"

fun addRuntimeDeps :: "Provider \<Rightarrow> Module list \<Rightarrow> AddRuntimeDependency list \<Rightarrow> GardenError + Module list" where
  "addRuntimeDeps provider ms [] = Inr ms"
| "addRuntimeDeps provider ms (dependency # ds) =
     (if hasServiceOrTask ms (ar_by dependency)
      then addRuntimeDeps provider (map (pushRuntimeDependency (ar_by dependency) (ar_on dependency)) ms) ds
      else Inl (PluginError
                  (runtimeDependencyMessage (p_name provider) (ar_by dependency) (ar_on dependency))
                  (RuntimeDependencyDetail provider dependency)))"

text \<open>
  One round of the walk over the providers: the state is the list of resolved modules
  and the variable \<^verbatim>\<open>graph\<close>, which every addition resets to \<^verbatim>\<open>undefined\<close>.
\<close>

definition augmentStep ::
  "Collab \<Rightarrow> Garden \<Rightarrow> (string \<times> Provider) list \<Rightarrow> ModuleTypeMap \<Rightarrow> Provider
     \<Rightarrow> Module list \<times> ConfigGraph option \<Rightarrow> GardenError + Module list \<times> ConfigGraph option" where
  "augmentStep E g providers moduleTypes provider st =
     (if \<not> hasAugmentGraphHandler E (p_name provider) then Inr st
      else case (case snd st of Some gr \<Rightarrow> Inr gr | None \<Rightarrow> newConfigGraph E (fst st) moduleTypes) of
        Inl e \<Rightarrow> Inl e
      | Inr gr \<Rightarrow>
          (case augmentGraph E (p_name provider) providers (fst st) of
             Inl e \<Rightarrow> Inl e
           | Inr r \<Rightarrow>
               (case addResolvedModules E g (fst st) (ag_addModules r) (fst st) of
                  Inl e \<Rightarrow> Inl e
                | Inr ms1 \<Rightarrow>
                    (case addBuildDeps provider ms1 (ag_addBuildDependencies r) of
                       Inl e \<Rightarrow> Inl e
                     | Inr ms2 \<Rightarrow>
                         (case addRuntimeDeps provider ms2 (ag_addRuntimeDependencies r) of
                            Inl e \<Rightarrow> Inl e
                          | Inr ms3 \<Rightarrow>
                              Inr (ms3,
                                   if ag_addModules r = [] \<and> ag_addBuildDependencies r = []
                                        \<and> ag_addRuntimeDependencies r = []
                                   then Some gr else None))))))"

fun augmentAll ::
  "Collab \<Rightarrow> Garden \<Rightarrow> (string \<times> Provider) list \<Rightarrow> ModuleTypeMap \<Rightarrow> Provider list
     \<Rightarrow> Module list \<times> ConfigGraph option \<Rightarrow> GardenError + Module list \<times> ConfigGraph option" where
  "augmentAll E g providers moduleTypes [] st = Inr st"
| "augmentAll E g providers moduleTypes (provider # ps) st =
     (case augmentStep E g providers moduleTypes provider st of
        Inl e \<Rightarrow> Inl e
      | Inr st' \<Rightarrow> augmentAll E g providers moduleTypes ps st')"

text \<open>
  The last loop of \<^verbatim>\<open>getConfigGraph\<close>. Every call of the mapper runs up to its \<^verbatim>\<open>await\<close>
  before any continues, so the build dependencies of all modules are looked up first, and
  the first module with a missing one rejects the whole; the versions are resolved after
  that, here one module after the other. \<^verbatim>\<open>modulesByName[key]\<close> is a read of the plain
  object that \<^verbatim>\<open>keyBy\<close> returns: an inherited key is truthy and throws nothing, and the run
  of the model ends at the first dependency, in the order of the lists, that is missing or
  inherited.
\<close>

definition missingDependencyMessage :: "Collab \<Rightarrow> string \<Rightarrow> string \<Rightarrow> string" where
  "missingDependencyMessage E moduleName key =
     chalk_red E (''Module '' @ chalk_white_bold E moduleName @ '' specifies build dependency ''
                    @ chalk_white_bold E key @ '' which cannot be found.'')"

fun lookupBuildDeps ::
  "Collab \<Rightarrow> (string \<times> Module) list \<Rightarrow> string \<Rightarrow> BuildDependencyConfig list \<Rightarrow> GardenError + Module list" where
  "lookupBuildDeps E modulesByName moduleName [] = Inr []"
| "lookupBuildDeps E modulesByName moduleName (d # ds) =
     (let key = getModuleKey E (bd_name d) (bd_plugin d) in
      case getProp modulesByName key of
        None \<Rightarrow> Inl (ConfigurationError (missingDependencyMessage E moduleName key) (DependencyName key))
      | Some (Inherited k) \<Rightarrow> Inl (InheritedValue k)
      | Some (Own depModule) \<Rightarrow>
          (case lookupBuildDeps E modulesByName moduleName ds of
             Inl e \<Rightarrow> Inl e
           | Inr deps \<Rightarrow> Inr (depModule # deps)))"

fun linkModules ::
  "Collab \<Rightarrow> (string \<times> Module) list \<Rightarrow> Module list \<Rightarrow> GardenError + (Module \<times> Module list) list" where
  "linkModules E modulesByName [] = Inr []"
| "linkModules E modulesByName (m # ms) =
     (case lookupBuildDeps E modulesByName (mc_name m) (mc_build_dependencies m) of
        Inl e \<Rightarrow> Inl e
      | Inr buildDeps \<Rightarrow>
          (case linkModules E modulesByName ms of
             Inl e \<Rightarrow> Inl e
           | Inr rest \<Rightarrow>
               Inr ((m\<lparr>m_buildDependencies :=
                         fromPairs (map (\<lambda>d. (getModuleKey E (mc_name d) (mc_plugin d), mc_name d)) buildDeps)\<rparr>,
                     buildDeps) # rest)))"

fun resolveVersions ::
  "Collab \<Rightarrow> Garden \<Rightarrow> (Module \<times> Module list) list \<Rightarrow> (GardenError + Module list) \<times> Garden" where
  "resolveVersions E g [] = (Inr [], g)"
| "resolveVersions E g ((m, buildDeps) # rest) =
     (case resolveVersion E g (ModuleConfig.truncate m) (map DepModule buildDeps) False of
        (Inl e, g1) \<Rightarrow> (Inl e, g1)
      | (Inr v, g1) \<Rightarrow>
          (case resolveVersions E g1 rest of
             (Inl e, g2) \<Rightarrow> (Inl e, g2)
           | (Inr ms, g2) \<Rightarrow> (Inr (m\<lparr>m_version := v\<rparr> # ms), g2)))"

definition finishGraph ::
  "Collab \<Rightarrow> Garden \<Rightarrow> Module list \<Rightarrow> ModuleTypeMap \<Rightarrow> (GardenError + ConfigGraph) \<times> Garden" where
  "finishGraph E g resolvedModules moduleTypes =
     (case newConfigGraph E resolvedModules moduleTypes of
        Inl e \<Rightarrow> (Inl e, g)
      | Inr gr \<Rightarrow>
          (case linkModules E (keyBy mc_name resolvedModules) resolvedModules of
             Inl e \<Rightarrow> (Inl e, g)
           | Inr linked \<Rightarrow>
               (case resolveVersions E g linked of
                  (Inl e, g1) \<Rightarrow> (Inl e, g1)
                | (Inr final, g1) \<Rightarrow> (Inr (ConfigGraph final moduleTypes), g1))))"

text \<open>\<^verbatim>\<open>getConfigGraph\<close> from the action router on.\<close>

definition augmentAndFinish ::
  "Collab \<Rightarrow> Garden \<Rightarrow> (string \<times> Provider) list \<Rightarrow> Module list \<Rightarrow> (GardenError + ConfigGraph) \<times> Garden" where
  "augmentAndFinish E g providers resolvedModules =
     (case getActionRouter E g of
        (Inl e, g1) \<Rightarrow> (Inl e, g1)
      | (Inr u, g1) \<Rightarrow>
          (case configuredModuleTypes E g1 of
             (Inl e, g2) \<Rightarrow> (Inl e, g2)
           | (Inr moduleTypes, g2) \<Rightarrow>
               (let overlaps = detectModuleOverlap E resolvedModules in
                if length overlaps > 0 then (Inl (makeOverlapError E g2 overlaps), g2)
                else case getDependencyOrder E (objectValues providers) (registeredPlugins g2) of
                  Inl e \<Rightarrow> (Inl e, g2)
                | Inr ordered \<Rightarrow>
                    (case augmentAll E g2 providers moduleTypes ordered (resolvedModules, None) of
                       Inl e \<Rightarrow> (Inl e, g2)
                     | Inr st \<Rightarrow> finishGraph E g2 (fst st) moduleTypes))))"

text \<open>\<^verbatim>\<open>getConfigGraph\<close> from the module tasks on.\<close>

definition moduleTasks :: "(string \<times> Provider) list \<Rightarrow> ModuleConfig list \<Rightarrow> ResolveModuleTask list" where
  "moduleTasks providers configs =
     map (\<lambda>c. \<lparr>rm_moduleConfig = c, rm_resolvedProviders = providers\<rparr>) configs"

definition resolveModules ::
  "Collab \<Rightarrow> Garden \<Rightarrow> (string \<times> Provider) list \<Rightarrow> ModuleConfig list \<Rightarrow> (GardenError + ConfigGraph) \<times> Garden" where
  "resolveModules E g providers configs =
     (let tasks = moduleTasks providers configs;
          g1 = recordBatch g (map (\<lambda>t. mc_name (rm_moduleConfig t)) tasks)
      in case processModuleTasks E g1 tasks of
           Inl err \<Rightarrow> (Inl (wrapCircular err), g1)
         | Inr results \<Rightarrow>
             if length (failedResults results) > 0 then (Inl (failedModulesError E results), g1)
             else augmentAndFinish E g1 providers (getResolvedModules E results))"

definition getConfigGraph :: "Collab \<Rightarrow> Garden \<Rightarrow> (GardenError + ConfigGraph) \<times> Garden" where
  "getConfigGraph E g =
     (case resolveProviders E g False None of
        (Inl e, g1) \<Rightarrow> (Inl e, g1)
      | (Inr providers, g1) \<Rightarrow>
          (case getRawModuleConfigs E g1 None of
             (Inl e, g2) \<Rightarrow> (Inl e, g2)
           | (Inr configs, g2) \<Rightarrow> resolveModules E g2 providers configs))"

subsection \<open>The dump of the configuration\<close>

record ConfigDump =
  cd_environmentName :: string
  cd_namespace :: "string option"
  cd_providers :: "ProviderDump list"
  cd_variables :: DeepPrimitiveMap
  cd_moduleConfigs :: "ModuleConfig list"
  cd_workflowConfigs :: "WorkflowConfig list"
  cd_projectRoot :: string
  cd_projectId :: "string option"

text \<open>\<^verbatim>\<open>omit(p, ["tools"])\<close>\<close>

definition omitTools :: "Provider \<Rightarrow> ProviderDump" where
  "omitTools p = \<lparr>p_name = p_name p, p_dependencies = p_dependencies p,
                  p_moduleConfigs = p_moduleConfigs p, p_config = p_config p, p_status = p_status p\<rparr>"

text \<open>lodash's \<^verbatim>\<open>sortBy(xs, "name")\<close>, a stable sort.\<close>

definition sortBy :: "('a \<Rightarrow> string) \<Rightarrow> 'a list \<Rightarrow> 'a list" where
  "sortBy nm xs = sort_key nm xs"

fun resolveWorkflowConfigs ::
  "Collab \<Rightarrow> (string \<times> Provider) list \<Rightarrow> WorkflowConfig list \<Rightarrow> GardenError + WorkflowConfig list" where
  "resolveWorkflowConfigs E providers [] = Inr []"
| "resolveWorkflowConfigs E providers (c # cs) =
     (case resolveWorkflowConfig E providers c of
        Inl e \<Rightarrow> Inl e
      | Inr w \<Rightarrow>
          (case resolveWorkflowConfigs E providers cs of
             Inl e \<Rightarrow> Inl e
           | Inr ws \<Rightarrow> Inr (w # ws)))"

definition getRawWorkflowConfigs :: "Collab \<Rightarrow> Garden \<Rightarrow> string list option \<Rightarrow> GardenError + WorkflowConfig list" where
  "getRawWorkflowConfigs E g names =
     (case names of
        Some ns \<Rightarrow>
          (case pickWorkflowKeys E (workflowConfigs g) ns of
             Inl e \<Rightarrow> Inl e
           | Inr picked \<Rightarrow> Inr (objectValues picked))
      | None \<Rightarrow> Inr (objectValues (workflowConfigs g)))"

definition getWorkflowConfigs ::
  "Collab \<Rightarrow> Garden \<Rightarrow> string list option \<Rightarrow> (GardenError + WorkflowConfig list) \<times> Garden" where
  "getWorkflowConfigs E g names =
     (case resolveProviders E g False None of
        (Inl e, g1) \<Rightarrow> (Inl e, g1)
      | (Inr providers, g1) \<Rightarrow>
          (case getRawWorkflowConfigs E g1 names of
             Inl e \<Rightarrow> (Inl e, g1)
           | Inr configs \<Rightarrow> (resolveWorkflowConfigs E providers configs, g1)))"

definition dumpConfig :: "Collab \<Rightarrow> Garden \<Rightarrow> bool \<Rightarrow> (GardenError + ConfigDump) \<times> Garden" where
  "dumpConfig E g includeDisabled =
     (case getConfigGraph E g of
        (Inl e, g1) \<Rightarrow> (Inl e, g1)
      | (Inr graph, g1) \<Rightarrow>
          (let modules = getModules E graph includeDisabled in
           case getWorkflowConfigs E g1 None of
             (Inl e, g2) \<Rightarrow> (Inl e, g2)
           | (Inr wfs, g2) \<Rightarrow>
               (case resolveProviders E g2 False None of
                  (Inl e, g3) \<Rightarrow> (Inl e, g3)
                | (Inr providers, g3) \<Rightarrow>
                    (Inr \<lparr>cd_environmentName = environmentName g3,
                          cd_namespace = namespace g3,
                          cd_providers = map omitTools (objectValues providers),
                          cd_variables = variables g3,
                          cd_moduleConfigs = sortBy mc_name (map m_rawConfig modules),
                          cd_workflowConfigs = sortBy wc_name wfs,
                          cd_projectRoot = projectRoot g3,
                          cd_projectId = projectId g3\<rparr>, g3))))"

section \<open>A sample project\<close>

text \<open>
  One project with the module \<open>web\<close> and the provider \<open>test-plugin\<close>, and collaborators
  that behave as the real ones do on it. The theorems below are run on it.
\<close>

definition web :: ModuleConfig where
  "web = \<lparr>mc_name = ''web'', mc_plugin = None, mc_path = ''/project/web'', mc_build_dependencies = [],
          mc_serviceConfigs = [], mc_taskConfigs = [], mc_disabled = False\<rparr>"

definition web_again :: ModuleConfig where
  "web_again = web\<lparr>mc_path := ''/project/api''\<rparr>"

definition sampleVersion :: "string \<Rightarrow> ModuleVersion" where
  "sampleVersion s = \<lparr>versionString = s, dependencyVersions = [], files = []\<rparr>"

definition sampleProvider :: "string \<Rightarrow> Provider" where
  "sampleProvider n =
     \<lparr>p_name = n, p_dependencies = [], p_moduleConfigs = [],
      p_config = \<lparr>pc_name = n, pc_settings = []\<rparr>,
      p_status = \<lparr>st_ready = True, st_cached = False\<rparr>, p_tools = [''kubectl'']\<rparr>"

definition sampleModule :: "ModuleConfig \<Rightarrow> Module" where
  "sampleModule c =
     \<lparr>mc_name = mc_name c, mc_plugin = mc_plugin c, mc_path = mc_path c,
      mc_build_dependencies = mc_build_dependencies c, mc_serviceConfigs = mc_serviceConfigs c,
      mc_taskConfigs = mc_taskConfigs c, mc_disabled = mc_disabled c,
      m_version = sampleVersion (''v-'' @ mc_name c), m_buildDependencies = [], m_rawConfig = c\<rparr>"

definition providerResult :: "ResolveProviderTask \<Rightarrow> string \<times> Provider TaskResult option" where
  "providerResult t =
     (''resolve-provider.'' @ pc_name (rp_config t),
      Some \<lparr>tr_type = ''resolve-provider'', tr_key = ''resolve-provider.'' @ pc_name (rp_config t),
            tr_name = pc_name (rp_config t), tr_output = Some (sampleProvider (pc_name (rp_config t))),
            tr_error = None\<rparr>)"

definition failedProviderResult :: "ResolveProviderTask \<Rightarrow> string \<times> Provider TaskResult option" where
  "failedProviderResult t =
     (''resolve-provider.'' @ pc_name (rp_config t),
      Some \<lparr>tr_type = ''resolve-provider'', tr_key = ''resolve-provider.'' @ pc_name (rp_config t),
            tr_name = pc_name (rp_config t), tr_output = None,
            tr_error = Some ''cluster unreachable''\<rparr>)"

definition moduleResult :: "ResolveModuleTask \<Rightarrow> string \<times> Module TaskResult option" where
  "moduleResult t =
     (''resolve-module.'' @ mc_name (rm_moduleConfig t),
      Some \<lparr>tr_type = ''resolve-module'', tr_key = ''resolve-module.'' @ mc_name (rm_moduleConfig t),
            tr_name = mc_name (rm_moduleConfig t), tr_output = Some (sampleModule (rm_moduleConfig t)),
            tr_error = None\<rparr>)"

definition sampleCollab :: Collab where
  "sampleCollab =
     \<lparr>getModuleKey = (\<lambda>n p. case p of None \<Rightarrow> n | Some q \<Rightarrow> q @ ''--'' @ n),
      getModuleCacheContext = (\<lambda>c. [''modules'', mc_name c]),
      vcs_resolveVersion = (\<lambda>m deps. Inr (sampleVersion (''v-'' @ mc_name m @ ''-dirty''))),
      vcs_dirty = (\<lambda>m. True),
      pickKeys = (\<lambda>ms ks. Inr (filter (\<lambda>p. fst p \<in> set ks) ms)),
      pickWorkflowKeys = (\<lambda>ms ks. Inr (filter (\<lambda>p. fst p \<in> set ks) ms)),
      relative = (\<lambda>root p. drop (length root + 1) p),
      resolvePath = (\<lambda>root p. p),
      getConfigFilePath = (\<lambda>p. p @ ''/garden.yml''),
      loadProjectConfigs = Inr [ModuleResource web],
      missingModuleSecrets = (\<lambda>cs s. None),
      missingWorkflowSecrets = (\<lambda>cs s. None),
      missingProviderSecrets = (\<lambda>cs s. None),
      findByNames = (\<lambda>ns cs. Inr (filter (\<lambda>c. pc_name c \<in> set ns) cs)),
      loadPlugins = (\<lambda>reg cs. Inr (map snd reg)),
      getAllProviderDependencyNames = (\<lambda>p c. Inr (gp_dependencies p)),
      detectCircularDependencies =
        (\<lambda>G. map (\<lambda>e. [fst e, snd e, fst e])
                 (filter (\<lambda>e. (snd e, fst e) \<in> set (dvg_edges G)) (dvg_edges G))),
      cyclesToString = (\<lambda>cs. join newline (map (join '' <- '') cs)),
      processProviderTasks = (\<lambda>g ts. Inr (map providerResult ts)),
      defaultProvider = sampleProvider ''_default'',
      processModuleTasks = (\<lambda>g ts. Inr (map moduleResult ts)),
      getResolvedModules =
        (\<lambda>rs. List.map_filter (\<lambda>r. case snd r of None \<Rightarrow> None | Some x \<Rightarrow> tr_output x) rs),
      getModuleTypes = (\<lambda>ps. Inr (map gp_name ps)),
      detectModuleOverlap = (\<lambda>ms. []),
      overlapMessage = (\<lambda>os. ''Missing include and/or exclude directives''),
      getDependencyOrder = (\<lambda>ps reg. Inr ps),
      hasAugmentGraphHandler = (\<lambda>n. n = ''test-plugin''),
      validateConfigGraph = (\<lambda>ms mt. None),
      augmentGraph =
        (\<lambda>n ps ms. Inr \<lparr>ag_addBuildDependencies = [], ag_addRuntimeDependencies = [], ag_addModules = []\<rparr>),
      resolveAddedModule = (\<lambda>g spec path context ms. Inl (PluginError ''no module type'' NoDetail)),
      getModules = (\<lambda>gr incl. filter (\<lambda>m. if incl then True else \<not> mc_disabled m) (cg_modules gr)),
      resolveWorkflowConfig = (\<lambda>ps w. Inr w),
      chalk_red = (\<lambda>s. s),
      chalk_white_bold = (\<lambda>s. s)\<rparr>"

definition testPlugin :: GardenPlugin where
  "testPlugin = \<lparr>gp_name = ''test-plugin'', gp_dependencies = []\<rparr>"

definition sampleGarden :: Garden where
  "sampleGarden =
     \<lparr>loadedPlugins = None, moduleConfigs = [], workflowConfigs = [], pluginModuleConfigs = [],
      resolvedProviders = [], configsScanned = False,
      registeredPlugins = [(''test-plugin'', testPlugin)],
      actionHelper = False, cache = Map.empty, projectRoot = ''/project'', environmentName = ''local'',
      namespace = None, variables = [], secrets = [],
      providerConfigs = [\<lparr>pc_name = ''test-plugin'', pc_settings = []\<rparr>],
      projectId = None, version = sampleVersion ''0.12.0'', forceRefresh = False, processed = []\<rparr>"

definition duplicateCollab :: Collab where
  "duplicateCollab = sampleCollab\<lparr>loadProjectConfigs := Inr [ModuleResource web_again]\<rparr>"

definition changedCollab :: Collab where
  "changedCollab = sampleCollab\<lparr>vcs_resolveVersion := (\<lambda>m deps. Inr (sampleVersion (''v-'' @ mc_name m @ ''-dirty-2'')))\<rparr>"



definition depsCollab :: Collab where
  "depsCollab =
     sampleCollab\<lparr>loadProjectConfigs :=
       Inr [ModuleResource web, ModuleResource (web\<lparr>mc_name := ''api''\<rparr>),
            ModuleResource (web\<lparr>mc_name := ''db''\<rparr>)]\<rparr>"

definition failingCollab :: Collab where
  "failingCollab = sampleCollab\<lparr>processProviderTasks := (\<lambda>g ts. Inr (map failedProviderResult ts))\<rparr>"

definition testA :: GardenPlugin where
  "testA = \<lparr>gp_name = ''test-a'', gp_dependencies = [''test-b'']\<rparr>"

definition testB :: GardenPlugin where
  "testB = \<lparr>gp_name = ''test-b'', gp_dependencies = [''test-a'']\<rparr>"

definition cyclicGarden :: Garden where
  "cyclicGarden =
     sampleGarden\<lparr>registeredPlugins := [(''test-a'', testA), (''test-b'', testB)],
                  providerConfigs := [\<lparr>pc_name = ''test-a'', pc_settings = []\<rparr>,
                                      \<lparr>pc_name = ''test-b'', pc_settings = []\<rparr>]\<rparr>"

definition cyclicDescription :: string where
  "cyclicDescription = ''test-a <- test-b <- test-a'' @ newline @ ''test-b <- test-a <- test-b''"

definition circularCollab :: Collab where
  "circularCollab =
     sampleCollab\<lparr>processModuleTasks :=
       (\<lambda>g ts. Inl (CircularDependenciesError ''Circular task dependencies detected''
                      [[''resolve-module.web'', ''resolve-module.api'', ''resolve-module.web'']]))\<rparr>"

text \<open>A module whose name is a property name of \<^verbatim>\<open>Object.prototype\<close>, declared twice.\<close>

definition builtin :: ModuleConfig where
  "builtin = web\<lparr>mc_name := ''constructor'', mc_path := ''/project/constructor''\<rparr>"

definition builtin_again :: ModuleConfig where
  "builtin_again = builtin\<lparr>mc_path := ''/project/other''\<rparr>"

definition builtinCollab :: Collab where
  "builtinCollab = sampleCollab\<lparr>loadProjectConfigs := Inr [ModuleResource builtin]\<rparr>"


text \<open>A plugin that adds a build dependency by a module that does not exist.\<close>

definition orphanCollab :: Collab where
  "orphanCollab =
     sampleCollab\<lparr>augmentGraph :=
       (\<lambda>n ps ms. Inr \<lparr>ag_addBuildDependencies = [\<lparr>ab_by = ''api'', ab_on = ''web''\<rparr>],
                       ag_addRuntimeDependencies = [], ag_addModules = []\<rparr>)\<rparr>"

definition augmentingCollab :: Collab where
  "augmentingCollab =
     sampleCollab\<lparr>augmentGraph :=
       (\<lambda>n ps ms. Inr \<lparr>ag_addBuildDependencies = [\<lparr>ab_by = ''web'', ab_on = ''missing-module''\<rparr>],
                       ag_addRuntimeDependencies = [], ag_addModules = []\<rparr>)\<rparr>"

definition strictCollab :: Collab where
  "strictCollab =
     augmentingCollab\<lparr>validateConfigGraph :=
       (\<lambda>ms mt. if list_all (\<lambda>m. list_all (\<lambda>d. bd_name d \<in> set (map mc_name ms)) (mc_build_dependencies m)) ms
                 then None
                 else Some (ConfigurationError ''Unknown build dependency'' NoDetail))\<rparr>"

definition webMissing :: Module where
  "webMissing =
     (sampleModule web)\<lparr>mc_build_dependencies :=
        [\<lparr>bd_name = ''missing-module'', bd_plugin = None, bd_copy = []\<rparr>]\<rparr>"

text \<open>The fields of the instance that are set once, by the constructor, and read by the dump.\<close>

definition project :: "Garden \<Rightarrow> string \<times> string \<times> string option \<times> DeepPrimitiveMap \<times> string option" where
  "project g = (projectRoot g, environmentName g, namespace g, variables g, projectId g)"

definition api :: ModuleConfig where
  "api = web\<lparr>mc_name := ''api'', mc_path := ''/project/api''\<rparr>"

definition dumpCollab :: Collab where
  "dumpCollab =
     sampleCollab\<lparr>loadProjectConfigs :=
       Inr [ModuleResource web, ModuleResource api,
            WorkflowResource \<lparr>wc_name = ''deploy'', wc_path = ''/project''\<rparr>,
            WorkflowResource \<lparr>wc_name = ''build'', wc_path = ''/project''\<rparr>]\<rparr>"

definition sampleDump :: ConfigDump where
  "sampleDump =
     \<lparr>cd_environmentName = ''local'', cd_namespace = None,
      cd_providers = [\<lparr>p_name = ''test-plugin'', p_dependencies = [], p_moduleConfigs = [],
                       p_config = \<lparr>pc_name = ''test-plugin'', pc_settings = []\<rparr>,
                       p_status = \<lparr>st_ready = True, st_cached = False\<rparr>\<rparr>],
      cd_variables = [],
      cd_moduleConfigs = [api, web],
      cd_workflowConfigs = [\<lparr>wc_name = ''build'', wc_path = ''/project''\<rparr>,
                            \<lparr>wc_name = ''deploy'', wc_path = ''/project''\<rparr>],
      cd_projectRoot = ''/project'', cd_projectId = None\<rparr>"

section \<open>Properties\<close>

subsection \<open>The order of the properties of an object\<close>

lemma mset_objectEntries: "mset (objectEntries obj) = mset obj"
  by (simp add: objectEntries_def)

lemma set_objectEntries: "set (objectEntries obj) = set obj"
  using mset_objectEntries[of obj] by (metis set_mset_mset)

lemma set_objectValues: "set (objectValues obj) = snd ` set obj"
  by (simp add: objectValues_def set_objectEntries)

subsection \<open>Module configs of one key\<close>

lemma addModule_Inr:
  assumes "addModule E g c = (Inr u, g1)"
  shows "map_of (moduleConfigs g) (getModuleKey E (mc_name c) (mc_plugin c)) = None"
    and "getModuleKey E (mc_name c) (mc_plugin c) \<notin> set objectPrototypeKeys"
    and "g1 = g\<lparr>moduleConfigs := moduleConfigs g @ [(getModuleKey E (mc_name c) (mc_plugin c), c)]\<rparr>"
  using assms by (auto simp: addModule_def Let_def getProp_def split: option.splits if_splits)

lemma addModule_taken:
  assumes "map_of (moduleConfigs g) (getModuleKey E (mc_name c) (mc_plugin c)) = Some old"
  shows "addModule E g c =
     (Inl (ConfigurationError
             (declaredTwice ''Module'' (getModuleKey E (mc_name c) (mc_plugin c))
                (min (relative E (projectRoot g) (getConfigFilePath E (mc_path old)))
                     (relative E (projectRoot g) (getConfigFilePath E (mc_path c))))
                (max (relative E (projectRoot g) (getConfigFilePath E (mc_path old)))
                     (relative E (projectRoot g) (getConfigFilePath E (mc_path c)))))
             (DuplicatePaths
                (min (relative E (projectRoot g) (getConfigFilePath E (mc_path old)))
                     (relative E (projectRoot g) (getConfigFilePath E (mc_path c))))
                (max (relative E (projectRoot g) (getConfigFilePath E (mc_path old)))
                     (relative E (projectRoot g) (getConfigFilePath E (mc_path c)))))), g)"
  using assms by (auto simp: addModule_def Let_def min_def max_def getProp_def)

lemma addModule_inherited:
  assumes "map_of (moduleConfigs g) (getModuleKey E (mc_name c) (mc_plugin c)) = None"
      and "getModuleKey E (mc_name c) (mc_plugin c) \<in> set objectPrototypeKeys"
  shows "addModule E g c = (Inl undefinedPath, g)"
  using assms by (simp add: addModule_def Let_def getProp_def)

lemma addModule_cases:
  "(\<exists>u. addModule E g c = (Inr u, g\<lparr>moduleConfigs := moduleConfigs g @ [(getModuleKey E (mc_name c) (mc_plugin c), c)]\<rparr>)
        \<and> map_of (moduleConfigs g) (getModuleKey E (mc_name c) (mc_plugin c)) = None)
   \<or> (\<exists>e. addModule E g c = (Inl e, g))"
  by (auto simp: addModule_def Let_def getProp_def split: option.splits)

lemma addModules_state:
  "addModules E g cs = (es, g') \<Longrightarrow> configsScanned g' = configsScanned g
     \<and> processed g' = processed g \<and> resolvedProviders g' = resolvedProviders g"
proof (induction cs arbitrary: g es)
  case Nil then show ?case by simp
next
  case (Cons c cs)
  from addModule_cases[of E g c] show ?case
  proof (elim disjE exE conjE)
    fix u assume a: "addModule E g c = (Inr u, g\<lparr>moduleConfigs := moduleConfigs g @ [(getModuleKey E (mc_name c) (mc_plugin c), c)]\<rparr>)"
    with Cons.prems have "addModules E (g\<lparr>moduleConfigs := moduleConfigs g @ [(getModuleKey E (mc_name c) (mc_plugin c), c)]\<rparr>) cs = (es, g')"
      by simp
    from Cons.IH[OF this] show ?thesis by simp
  next
    fix e assume a: "addModule E g c = (Inl e, g)"
    with Cons.prems obtain es' where e: "addModules E g cs = (es', g')"
      by (auto split: prod.splits)
    from Cons.IH[OF e] show ?thesis by simp
  qed
qed

text \<open>
  Duplicates are rejected as the spec has it for every key that the dictionary does not
  inherit: when the first of two configs of one key has been added, adding the second
  throws the \<^verbatim>\<open>ConfigurationError\<close> whose message and detail name the config file paths of
  both, relative to the project root, the smaller first, and the instance is left as it
  was.
\<close>

lemma addModule_duplicate:
  assumes same: "getModuleKey E (mc_name c2) (mc_plugin c2) = getModuleKey E (mc_name c1) (mc_plugin c1)"
      and first: "addModule E g c1 = (Inr (), g1)"
  defines "a \<equiv> relative E (projectRoot g) (getConfigFilePath E (mc_path c1))"
      and "b \<equiv> relative E (projectRoot g) (getConfigFilePath E (mc_path c2))"
  shows "addModule E g1 c2 =
           (Inl (ConfigurationError
                   (declaredTwice ''Module'' (getModuleKey E (mc_name c1) (mc_plugin c1)) (min a b) (max a b))
                   (DuplicatePaths (min a b) (max a b))), g1)"
    and "min a b \<le> max a b"
proof -
  from addModule_Inr[OF first]
  have free: "map_of (moduleConfigs g) (getModuleKey E (mc_name c1) (mc_plugin c1)) = None"
    and g1: "g1 = g\<lparr>moduleConfigs := moduleConfigs g @ [(getModuleKey E (mc_name c1) (mc_plugin c1), c1)]\<rparr>"
    by simp_all
  have taken: "map_of (moduleConfigs g1) (getModuleKey E (mc_name c2) (mc_plugin c2)) = Some c1"
    using free same by (simp add: g1 map_add_def)
  have root: "projectRoot g1 = projectRoot g" by (simp add: g1)
  from addModule_taken[OF taken] show "addModule E g1 c2 =
           (Inl (ConfigurationError
                   (declaredTwice ''Module'' (getModuleKey E (mc_name c1) (mc_plugin c1)) (min a b) (max a b))
                   (DuplicatePaths (min a b) (max a b))), g1)"
    by (simp add: same root a_def b_def)
  show "min a b \<le> max a b" by (rule order_trans[OF min.cobounded1 max.cobounded1])
qed

text \<open>
  C3 fails for a key that the dictionary inherits. Two module configs are named
  \<open>constructor\<close> and have no plugin, so they map to one key. On a new instance
  \<^verbatim>\<open>this.moduleConfigs["constructor"]\<close> is the function \<^verbatim>\<open>Object\<close>, which is truthy: adding
  the first config already takes the branch of the duplicate, and throws a \<^verbatim>\<open>TypeError\<close>
  for the path of that function, which is undefined. Nothing is registered, so adding
  the second config throws the same \<^verbatim>\<open>TypeError\<close>, not the \<^verbatim>\<open>ConfigurationError\<close> that names
  both config files; and the scan of a project that has one such module fails with it.
\<close>

theorem inherited_module_key:
  "getModuleKey sampleCollab (mc_name builtin_again) (mc_plugin builtin_again) = ''constructor''
   \<and> getModuleKey sampleCollab (mc_name builtin) (mc_plugin builtin) = ''constructor''
   \<and> moduleConfigs sampleGarden = []
   \<and> fst (addModule sampleCollab sampleGarden builtin)
       = Inl (TypeError ''The path argument must be of type string. Received undefined'')
   \<and> moduleConfigs (snd (addModule sampleCollab sampleGarden builtin)) = []
   \<and> fst (addModule sampleCollab (snd (addModule sampleCollab sampleGarden builtin)) builtin_again)
       = Inl (TypeError ''The path argument must be of type string. Received undefined'')
   \<and> \<not> isConfigurationError (TypeError ''The path argument must be of type string. Received undefined'')
   \<and> fst (scanAndAddConfigs builtinCollab sampleGarden False)
       = Inl (TypeError ''The path argument must be of type string. Received undefined'')"
  by code_simp

subsection \<open>Versions and the cache\<close>

lemma pair_fst_snd: "fst x = a \<Longrightarrow> x = (a, snd x)"
  by (cases x) simp



lemma resolveVersion_hit:
  "\<not> force \<Longrightarrow> cache_get (cache g) (versionCacheKey m deps) = Some v
     \<Longrightarrow> resolveVersion E g m deps force = (Inr v, g)"
  by (simp add: resolveVersion_def)

lemma resolveVersion_fresh:
  assumes "force \<or> cache_get (cache g) (versionCacheKey m deps) = None"
      and "getRawModuleConfigs E g (Some (map (\<lambda>dep. getModuleKey E (dep_name dep) (dep_plugin dep)) deps)) = (Inr ds, g1)"
      and "vcs_resolveVersion E m ds = Inr v"
  shows "resolveVersion E g m deps force =
           (Inr v, g1\<lparr>cache := cache_set (cache g1) (versionCacheKey m deps) v
                                 (map (getModuleCacheContext E) (ds @ [m]))\<rparr>)"
  using assms by (auto simp: resolveVersion_def Let_def)


text \<open>
  C2, as the code has it. \<^verbatim>\<open>resolveVersion\<close> never asks whether the module or a dependency
  is dirty: whatever the content-hashing collaborator reports, an unforced call returns
  the entry that the cache holds under the key, and leaves the instance as it is. The
  version is computed by the collaborator, and stored under the key, when the call is
  forced or the cache holds nothing under the key.
\<close>

theorem resolveVersion_cache_policy:
  "(\<not> force \<and> cache_get (cache g) (versionCacheKey m deps) = Some v
      \<longrightarrow> resolveVersion E g m deps force = (Inr v, g))
   \<and> ((force' \<or> cache_get (cache g') (versionCacheKey m' deps') = None)
        \<and> getRawModuleConfigs E' g' (Some (map (\<lambda>dep. getModuleKey E' (dep_name dep) (dep_plugin dep)) deps'))
             = (Inr ds, g1)
        \<and> vcs_resolveVersion E' m' ds = Inr v'
      \<longrightarrow> resolveVersion E' g' m' deps' force' =
            (Inr v', g1\<lparr>cache := cache_set (cache g1) (versionCacheKey m' deps') v'
                                   (map (getModuleCacheContext E') (ds @ [m']))\<rparr>))"
  using resolveVersion_hit[of force g m deps v E] resolveVersion_fresh[of force' g' m' deps' E' ds g1 v']
  by blast

theorem resolveVersion_cache_policy_witness:
  "fst (resolveVersion changedCollab (snd (resolveVersion sampleCollab sampleGarden web [] False)) web [] False)
     = Inr (sampleVersion ''v-web-dirty'')
   \<and> fst (resolveVersion sampleCollab sampleGarden web [] False) = Inr (sampleVersion ''v-web-dirty'')"
proof -
  let ?g = "snd (resolveVersion sampleCollab sampleGarden web [] False)"
  let ?g1 = "snd (getRawModuleConfigs sampleCollab sampleGarden
                    (Some (map (\<lambda>dep. getModuleKey sampleCollab (dep_name dep) (dep_plugin dep)) [])))"
  have h1: "\<not> False \<and> cache_get (cache ?g) (versionCacheKey web []) = Some (sampleVersion ''v-web-dirty'')"
    by code_simp
  have "fst (getRawModuleConfigs sampleCollab sampleGarden
               (Some (map (\<lambda>dep. getModuleKey sampleCollab (dep_name dep) (dep_plugin dep)) []))) = Inr []"
    by code_simp
  then have h2: "getRawModuleConfigs sampleCollab sampleGarden
               (Some (map (\<lambda>dep. getModuleKey sampleCollab (dep_name dep) (dep_plugin dep)) [])) = (Inr [], ?g1)"
    by (rule pair_fst_snd)
  have h3: "cache_get (cache sampleGarden) (versionCacheKey web []) = None" by code_simp
  have h4: "vcs_resolveVersion sampleCollab web [] = Inr (sampleVersion ''v-web-dirty'')" by code_simp
  note policy = resolveVersion_cache_policy[of False ?g web "[]" "sampleVersion ''v-web-dirty''" changedCollab
         False sampleGarden web "[]" sampleCollab "[]" ?g1 "sampleVersion ''v-web-dirty''"]
  from policy h1 have
    "resolveVersion changedCollab ?g web [] False = (Inr (sampleVersion ''v-web-dirty''), ?g)"
    by blast
  then have r1: "fst (resolveVersion changedCollab ?g web [] False) = Inr (sampleVersion ''v-web-dirty'')"
    by (simp only: fst_conv)
  from policy h2 h3 h4 have
    "resolveVersion sampleCollab sampleGarden web [] False =
       (Inr (sampleVersion ''v-web-dirty''),
        ?g1\<lparr>cache := cache_set (cache ?g1) (versionCacheKey web []) (sampleVersion ''v-web-dirty'')
                         (map (getModuleCacheContext sampleCollab) ([] @ [web]))\<rparr>)"
    by blast
  then have r2: "fst (resolveVersion sampleCollab sampleGarden web [] False) = Inr (sampleVersion ''v-web-dirty'')"
    by (simp only: fst_conv)
  from r1 r2 show ?thesis by (rule conjI)
qed

text \<open>
  C2, as the claim states it, fails. The module \<open>web\<close> is dirty at both calls; the second
  call returns the version that the first call stored, not the one that the collaborator
  computes by then.
\<close>

theorem dirty_served_from_cache_counterexample:
  "vcs_dirty sampleCollab web \<and> vcs_dirty changedCollab web
   \<and> fst (resolveVersion sampleCollab sampleGarden web [] False) = Inr (sampleVersion ''v-web-dirty'')
   \<and> vcs_resolveVersion changedCollab web [] = Inr (sampleVersion ''v-web-dirty-2'')
   \<and> fst (resolveVersion changedCollab (snd (resolveVersion sampleCollab sampleGarden web [] False)) web [] False)
       = Inr (sampleVersion ''v-web-dirty'')"
  by code_simp




subsection \<open>Providers\<close>

text \<open>
  C10. For the reserved name \<^verbatim>\<open>"_default"\<close>, \<^verbatim>\<open>resolveProvider\<close> returns the built-in default
  provider, whatever the instance holds: the result does not depend on the registry of
  resolved providers, and the instance comes back unchanged, so no provider is resolved,
  no task is processed and nothing is written.
\<close>

theorem resolveProvider_default:
  "resolveProvider E g ''_default'' = (Inr (defaultProvider E), g)"
  by (simp add: resolveProvider_def)

theorem resolveProvider_default_witness:
  "resolveProvider sampleCollab sampleGarden ''_default'' = (Inr (sampleProvider ''_default''), sampleGarden)"
  using resolveProvider_default[of sampleCollab sampleGarden] by (simp add: sampleCollab_def)

lemma failedResults_iff:
  "r \<in> set (failedResults rs) \<longleftrightarrow> (\<exists>k. (k, Some r) \<in> set rs) \<and> tr_error r \<noteq> None"
  by (force simp: failedResults_def map_filter_def set_objectValues)

lemma lookupPlugins_snd: "lookupPlugins ps cs = Inr pcs \<Longrightarrow> map snd pcs = cs"
  by (induction cs arbitrary: pcs) (auto split: option.splits sum.splits property.splits)

lemma providerTasks_names:
  "map (\<lambda>t. pc_name (rp_config t)) (providerTasks g forceInit pcs) = map pc_name (map snd pcs)"
  by (simp add: providerTasks_def)

lemma getPlugins_keeps:
  "getPlugins E g = (res, g1) \<Longrightarrow> processed g1 = processed g \<and> resolvedProviders g1 = resolvedProviders g"
  by (auto simp: getPlugins_def split: option.splits sum.splits)

lemma recordBatch_simps [simp]:
  "processed (recordBatch g ns) = processed g @ [ns]"
  "resolvedProviders (recordBatch g ns) = resolvedProviders g"
  by (simp_all add: recordBatch_def)

lemma collectProviders_failed:
  assumes "failedResults rs \<noteq> []"
  shows "collectProviders E g raw rs =
           (Inl (PluginError (failedProvidersMessage (map tr_name (failedResults rs)))
                   (FailedProviders raw rs (map failedMessage (failedResults rs)))), g)"
  using assms by (simp add: collectProviders_def Let_def)

lemma collectProviders_processed:
  assumes "collectProviders E g raw rs = (res, g')"
  shows "processed g' = processed g"
proof -
  obtain es g3 where a: "addModules E g (concat (map p_moduleConfigs
      (map scopeModuleConfigs (List.map_filter (\<lambda>x. x) (case taskOutputs (objectEntries rs) of Inr os \<Rightarrow> os | Inl e \<Rightarrow> []))))) = (es, g3)"
    by (cases "addModules E g (concat (map p_moduleConfigs
      (map scopeModuleConfigs (List.map_filter (\<lambda>x. x) (case taskOutputs (objectEntries rs) of Inr os \<Rightarrow> os | Inl e \<Rightarrow> [])))))")
  from addModules_state[OF a] have "processed g3 = processed g" by simp
  with assms a show ?thesis
    by (auto simp: collectProviders_def Let_def split: if_splits sum.splits option.splits)
qed

lemma validateAndProcess_cycles:
  assumes "lookupPlugins (keyBy gp_name loaded) raw = Inr pcs"
      and "buildValidationGraph E pcs = Inr G"
      and "detectCircularDependencies E G \<noteq> []"
  shows "validateAndProcess E g forceInit raw loaded =
           (Inl (PluginError (circularProvidersMessage (cyclesToString E (detectCircularDependencies E G)))
                   (CircularDescription (cyclesToString E (detectCircularDependencies E G)))), g)"
  using assms by (simp add: validateAndProcess_def Let_def)

lemma validateAndProcess_tasks:
  assumes look: "lookupPlugins (keyBy gp_name loaded) raw = Inr pcs"
      and "buildValidationGraph E pcs = Inr G"
      and "detectCircularDependencies E G = []"
  shows "validateAndProcess E g forceInit raw loaded =
           (case processProviderTasks E (recordBatch g (map pc_name raw)) (providerTasks g forceInit pcs) of
              Inl e \<Rightarrow> (Inl e, recordBatch g (map pc_name raw))
            | Inr taskResults \<Rightarrow> collectProviders E (recordBatch g (map pc_name raw)) raw taskResults)"
proof -
  have names: "map (\<lambda>t. pc_name (rp_config t)) (providerTasks g forceInit pcs) = map pc_name raw"
    using lookupPlugins_snd[OF look] by (simp add: providerTasks_names)
  show ?thesis using assms
    by (simp add: validateAndProcess_def Let_def names split: sum.split)
qed

lemma validateAndProcess_processed:
  assumes "validateAndProcess E g forceInit raw loaded = (res, g')"
  shows "processed g' = processed g
         \<or> (\<exists>pcs G. lookupPlugins (keyBy gp_name loaded) raw = Inr pcs
               \<and> buildValidationGraph E pcs = Inr G \<and> detectCircularDependencies E G = []
               \<and> processed g' = processed g @ [map pc_name raw])"
proof (cases "lookupPlugins (keyBy gp_name loaded) raw")
  case (Inl e)
  with assms show ?thesis by (simp add: validateAndProcess_def Let_def)
next
  case look: (Inr pcs)
  show ?thesis
  proof (cases "buildValidationGraph E pcs")
    case (Inl e)
    with assms look show ?thesis by (simp add: validateAndProcess_def Let_def)
  next
    case graph: (Inr G)
    show ?thesis
    proof (cases "detectCircularDependencies E G = []")
      case False
      from validateAndProcess_cycles[OF look graph False] assms show ?thesis by simp
    next
      case True
      note step = validateAndProcess_tasks[OF look graph True, of g forceInit]
      have "processed g' = processed g @ [map pc_name raw]"
      proof (cases "processProviderTasks E (recordBatch g (map pc_name raw)) (providerTasks g forceInit pcs)")
        case (Inl e)
        with step assms show ?thesis by auto
      next
        case (Inr rs)
        with step assms have "collectProviders E (recordBatch g (map pc_name raw)) raw rs = (res, g')" by simp
        from collectProviders_processed[OF this] show ?thesis by simp
      qed
      with look graph True show ?thesis by blast
    qed
  qed
qed

lemma resolveProviders_reach:
  assumes "getRawProviderConfigs E g names = Inr rawConfigs"
      and "missingProviderSecrets E (map (\<lambda>c. (pc_name c, c)) rawConfigs) (secrets g) = None"
      and "length (List.map_filter (getProp (resolvedProviders g)) (requestedNames names rawConfigs))
             \<noteq> length (requestedNames names rawConfigs)"
      and "getPlugins E g = (Inr loaded, g1)"
  shows "resolveProviders E g forceInit names = validateAndProcess E g1 forceInit rawConfigs loaded"
  using assms by (simp add: resolveProviders_def Let_def)

lemma resolveProviders_cases:
  assumes "resolveProviders E g forceInit names = (res, g')"
  shows "processed g' = processed g
         \<or> (\<exists>rawConfigs loaded g1. getRawProviderConfigs E g names = Inr rawConfigs
               \<and> getPlugins E g = (Inr loaded, g1) \<and> processed g1 = processed g
               \<and> validateAndProcess E g1 forceInit rawConfigs loaded = (res, g'))"
proof (cases "getRawProviderConfigs E g names")
  case (Inl e)
  with assms show ?thesis by (simp add: resolveProviders_def)
next
  case raw: (Inr rawConfigs)
  show ?thesis
  proof (cases "missingProviderSecrets E (map (\<lambda>c. (pc_name c, c)) rawConfigs) (secrets g)")
    case (Some e)
    with assms raw show ?thesis by (simp add: resolveProviders_def Let_def)
  next
    case sec: None
    show ?thesis
    proof (cases "length (List.map_filter (getProp (resolvedProviders g)) (requestedNames names rawConfigs))
             = length (requestedNames names rawConfigs)")
      case True
      with assms raw sec show ?thesis by (auto simp: resolveProviders_def Let_def split: sum.splits)
    next
      case todo: False
      obtain r g1 where plug: "getPlugins E g = (r, g1)" by (cases "getPlugins E g")
      from getPlugins_keeps[OF plug] have p: "processed g1 = processed g" by simp
      show ?thesis
      proof (cases r)
        case (Inl e)
        with assms raw sec todo plug p show ?thesis by (simp add: resolveProviders_def Let_def)
      next
        case (Inr loaded)
        from resolveProviders_reach[OF raw sec todo plug[unfolded Inr]] assms
        have "validateAndProcess E g1 forceInit rawConfigs loaded = (res, g')" by simp
        with raw plug Inr p show ?thesis by blast
      qed
    qed
  qed
qed

lemma resolveProviders_cycles:
  assumes raw: "getRawProviderConfigs E g names = Inr rawConfigs"
      and sec: "missingProviderSecrets E (map (\<lambda>c. (pc_name c, c)) rawConfigs) (secrets g) = None"
      and todo: "length (List.map_filter (getProp (resolvedProviders g)) (requestedNames names rawConfigs))
             \<noteq> length (requestedNames names rawConfigs)"
      and plug: "getPlugins E g = (Inr loaded, g1)"
      and look: "lookupPlugins (keyBy gp_name loaded) rawConfigs = Inr pcs"
      and graph: "buildValidationGraph E pcs = Inr G"
      and cyc: "detectCircularDependencies E G \<noteq> []"
  shows "resolveProviders E g forceInit names =
           (Inl (PluginError (circularProvidersMessage (cyclesToString E (detectCircularDependencies E G)))
                   (CircularDescription (cyclesToString E (detectCircularDependencies E G)))), g1)"
  using resolveProviders_reach[OF raw sec todo plug] validateAndProcess_cycles[OF look graph cyc] by simp

text \<open>
  C4. A run of \<^verbatim>\<open>resolveProviders\<close> reaches the tasks (the configs are found, no secret is
  missing, some requested provider is unresolved, the plugins load, the validation graph
  has no cycle and \<^verbatim>\<open>processTasks\<close> returns) and the result of some task \<open>r\<close> carries an
  error. Then the call throws one \<^verbatim>\<open>PluginError\<close>: its message lists the name of every
  failed task, its detail lists \<^verbatim>\<open>- name: message\<close> for every failed task, \<open>r\<close> among them,
  where the failed tasks are exactly the results with an error. No provider map is
  returned, and the registry of resolved providers is as before the call.
\<close>

theorem failed_providers_aggregated:
  assumes raw: "getRawProviderConfigs E g names = Inr rawConfigs"
      and sec: "missingProviderSecrets E (map (\<lambda>c. (pc_name c, c)) rawConfigs) (secrets g) = None"
      and todo: "length (List.map_filter (getProp (resolvedProviders g)) (requestedNames names rawConfigs))
             \<noteq> length (requestedNames names rawConfigs)"
      and plug: "getPlugins E g = (Inr loaded, g1)"
      and look: "lookupPlugins (keyBy gp_name loaded) rawConfigs = Inr pcs"
      and graph: "buildValidationGraph E pcs = Inr G"
      and acyclic: "detectCircularDependencies E G = []"
      and ran: "processProviderTasks E (recordBatch g1 (map pc_name rawConfigs)) (providerTasks g1 forceInit pcs)
                  = Inr taskResults"
      and err: "(k, Some r) \<in> set taskResults" "tr_error r = Some msg"
  shows "resolveProviders E g forceInit names =
           (Inl (PluginError (failedProvidersMessage (map tr_name (failedResults taskResults)))
                   (FailedProviders rawConfigs taskResults (map failedMessage (failedResults taskResults)))),
            recordBatch g1 (map pc_name rawConfigs))
         \<and> resolvedProviders (recordBatch g1 (map pc_name rawConfigs)) = resolvedProviders g
         \<and> tr_name r \<in> set (map tr_name (failedResults taskResults))
         \<and> (''- '' @ tr_name r @ '': '' @ msg) \<in> set (map failedMessage (failedResults taskResults))
         \<and> set (failedResults taskResults) = {x. (\<exists>j. (j, Some x) \<in> set taskResults) \<and> tr_error x \<noteq> None}"
proof -
  from err have mem: "r \<in> set (failedResults taskResults)" by (auto simp: failedResults_iff)
  then have ne: "failedResults taskResults \<noteq> []" by auto
  have 1: "resolveProviders E g forceInit names =
           (Inl (PluginError (failedProvidersMessage (map tr_name (failedResults taskResults)))
                   (FailedProviders rawConfigs taskResults (map failedMessage (failedResults taskResults)))),
            recordBatch g1 (map pc_name rawConfigs))"
    using resolveProviders_reach[OF raw sec todo plug, of forceInit]
      validateAndProcess_tasks[OF look graph acyclic, of g1 forceInit] ran
      collectProviders_failed[OF ne, of E "recordBatch g1 (map pc_name rawConfigs)" rawConfigs]
    by simp
  have 2: "resolvedProviders (recordBatch g1 (map pc_name rawConfigs)) = resolvedProviders g"
    using getPlugins_keeps[OF plug] by simp
  have 3: "tr_name r \<in> set (map tr_name (failedResults taskResults))" using mem by simp
  have "failedMessage r = ''- '' @ tr_name r @ '': '' @ msg"
    using err(2) by (simp add: failedMessage_def renderName_def)
  with mem have 4: "(''- '' @ tr_name r @ '': '' @ msg) \<in> set (map failedMessage (failedResults taskResults))"
    by (metis image_eqI set_map)
  have 5: "set (failedResults taskResults) = {x. (\<exists>j. (j, Some x) \<in> set taskResults) \<and> tr_error x \<noteq> None}"
    by (auto simp: failedResults_iff)
  from 1 2 3 4 5 show ?thesis by blast
qed

theorem failed_providers_aggregated_witness:
  "fst (resolveProviders failingCollab sampleGarden False None) =
     Inl (PluginError (''Failed resolving one or more providers:'' @ newline @ ''- test-plugin'')
            (FailedProviders (providerConfigs sampleGarden)
               (map failedProviderResult
                  (providerTasks (snd (getPlugins failingCollab sampleGarden)) False
                     [(testPlugin, \<lparr>pc_name = ''test-plugin'', pc_settings = []\<rparr>)]))
               [''- test-plugin: cluster unreachable'']))
   \<and> resolvedProviders (snd (resolveProviders failingCollab sampleGarden False None)) = []"
proof -
  let ?E = failingCollab
  let ?g1 = "snd (getPlugins failingCollab sampleGarden)"
  let ?raw = "providerConfigs sampleGarden"
  let ?pcs = "[(testPlugin, \<lparr>pc_name = ''test-plugin'', pc_settings = []\<rparr>)]"
  let ?G = "\<lparr>dvg_nodes = [''test-plugin''], dvg_edges = []\<rparr>"
  let ?rs = "map failedProviderResult (providerTasks ?g1 False ?pcs)"
  let ?r = "the (snd (failedProviderResult (hd (providerTasks ?g1 False ?pcs))))"
  have raw: "getRawProviderConfigs ?E sampleGarden None = Inr ?raw"
    by (simp add: getRawProviderConfigs_def)
  have sec: "missingProviderSecrets ?E (map (\<lambda>c. (pc_name c, c)) ?raw) (secrets sampleGarden) = None"
    by (simp add: failingCollab_def sampleCollab_def)
  have todo: "length (List.map_filter (getProp (resolvedProviders sampleGarden)) (requestedNames None ?raw))
                \<noteq> length (requestedNames None ?raw)"
    by code_simp
  have "fst (getPlugins ?E sampleGarden) = Inr [testPlugin]" by code_simp
  then have plug: "getPlugins ?E sampleGarden = (Inr [testPlugin], ?g1)" by (rule pair_fst_snd)
  have look: "lookupPlugins (keyBy gp_name [testPlugin]) ?raw = Inr ?pcs" by code_simp
  have graph: "buildValidationGraph ?E ?pcs = Inr ?G" by code_simp
  have acyclic: "detectCircularDependencies ?E ?G = []" by code_simp
  have ran: "processProviderTasks ?E (recordBatch ?g1 (map pc_name ?raw)) (providerTasks ?g1 False ?pcs) = Inr ?rs"
    by (simp add: failingCollab_def sampleCollab_def)
  have mem: "(''resolve-provider.test-plugin'', Some ?r) \<in> set ?rs"
    by (simp add: providerTasks_def failedProviderResult_def)
  have err: "tr_error ?r = Some ''cluster unreachable''"
    by (simp add: providerTasks_def failedProviderResult_def)
  note t = failed_providers_aggregated[OF raw sec todo plug look graph acyclic ran mem err]
  have m1: "failedProvidersMessage (map tr_name (failedResults ?rs))
              = ''Failed resolving one or more providers:'' @ newline @ ''- test-plugin''"
    by code_simp
  have m2: "map failedMessage (failedResults ?rs) = [''- test-plugin: cluster unreachable'']"
    by code_simp
  from t have "resolveProviders ?E sampleGarden False None =
     (Inl (PluginError (''Failed resolving one or more providers:'' @ newline @ ''- test-plugin'')
            (FailedProviders ?raw ?rs [''- test-plugin: cluster unreachable''])),
      recordBatch ?g1 (map pc_name ?raw))"
    unfolding m1 m2 by (rule conjunct1)
  moreover from t have "resolvedProviders (recordBatch ?g1 (map pc_name ?raw)) = resolvedProviders sampleGarden"
    by (rule conjunct1[OF conjunct2])
  moreover have "resolvedProviders sampleGarden = []" by (simp add: sampleGarden_def)
  ultimately show ?thesis by simp
qed

lemma addNode_graph [simp]:
  "dvg_edges (addNode G n) = dvg_edges G"
  "set (dvg_nodes (addNode G n)) = insert n (set (dvg_nodes G))"
  by (auto simp: addNode_def)

lemma addDependency_graph [simp]:
  "dvg_edges (addDependency G a b) = dvg_edges G @ [(a, b)]"
  "dvg_nodes (addDependency G a b) = dvg_nodes G"
  by (simp_all add: addDependency_def)

lemma fold_dependencies_graph:
  "dvg_edges (fold (\<lambda>dep G'. addDependency (addNode G' dep) n dep) deps G) = dvg_edges G @ map (Pair n) deps
   \<and> set (dvg_nodes (fold (\<lambda>dep G'. addDependency (addNode G' dep) n dep) deps G)) = set (dvg_nodes G) \<union> set deps"
  by (induction deps arbitrary: G) auto

lemma fold_nodes_graph:
  "dvg_edges (fold (\<lambda>pc G'. addNode G' (gp_name (fst pc))) pcs G) = dvg_edges G
   \<and> set (dvg_nodes (fold (\<lambda>pc G'. addNode G' (gp_name (fst pc))) pcs G))
       = set (dvg_nodes G) \<union> set (map (\<lambda>pc. gp_name (fst pc)) pcs)"
  by (induction pcs arbitrary: G) auto

lemma addProviderDependencies_graph:
  "addProviderDependencies E G pcs = Inr G' \<Longrightarrow>
     set (dvg_edges G') = set (dvg_edges G)
        \<union> {(gp_name p, dep) | p c deps dep. (p, c) \<in> set pcs \<and> getAllProviderDependencyNames E p c = Inr deps \<and> dep \<in> set deps}
     \<and> set (dvg_nodes G') = set (dvg_nodes G)
        \<union> {dep | p c deps dep. (p, c) \<in> set pcs \<and> getAllProviderDependencyNames E p c = Inr deps \<and> dep \<in> set deps}"
proof (induction pcs arbitrary: G)
  case Nil then show ?case by simp
next
  case (Cons pc pcs)
  obtain p c where pc: "pc = (p, c)" by (cases pc)
  from Cons.prems pc obtain deps where d: "getAllProviderDependencyNames E p c = Inr deps"
    and r: "addProviderDependencies E (fold (\<lambda>dep G'. addDependency (addNode G' dep) (gp_name p) dep) deps G) pcs = Inr G'"
    by (auto split: sum.splits)
  from Cons.IH[OF r] fold_dependencies_graph[of "gp_name p" deps G] d pc
  show ?case by (auto; force)
qed

lemma buildValidationGraph_covers:
  assumes "buildValidationGraph E pcs = Inr G"
  shows "set (dvg_edges G)
           = {(gp_name p, dep) | p c deps dep. (p, c) \<in> set pcs \<and> getAllProviderDependencyNames E p c = Inr deps \<and> dep \<in> set deps}"
    and "set (map (\<lambda>pc. gp_name (fst pc)) pcs) \<subseteq> set (dvg_nodes G)"
  using addProviderDependencies_graph[OF assms[unfolded buildValidationGraph_def]]
        fold_nodes_graph[of pcs emptyGraph]
  by (auto simp: emptyGraph_def)

text \<open>
  C6. Whatever \<^verbatim>\<open>resolveProviders\<close> returns, if a batch of tasks was handed to
  \<^verbatim>\<open>processTasks\<close> during the call, then before that the validation graph was built: it
  has a node for the plugin of every config and its edges are exactly the pairs of a
  plugin and one of its dependency names; and it had no cycle. And when the graph of a
  run has a cycle, the call throws the \<^verbatim>\<open>PluginError\<close> that renders the cycles, and no
  batch was handed to \<^verbatim>\<open>processTasks\<close>.
\<close>

theorem validation_precedes_tasks:
  assumes run: "resolveProviders E g forceInit names = (res, g')"
  shows "(processed g' = processed g
          \<or> (\<exists>rawConfigs loaded g1 pcs G.
                getRawProviderConfigs E g names = Inr rawConfigs
                \<and> getPlugins E g = (Inr loaded, g1)
                \<and> lookupPlugins (keyBy gp_name loaded) rawConfigs = Inr pcs
                \<and> map snd pcs = rawConfigs
                \<and> buildValidationGraph E pcs = Inr G
                \<and> set (map (\<lambda>pc. gp_name (fst pc)) pcs) \<subseteq> set (dvg_nodes G)
                \<and> set (dvg_edges G)
                    = {(gp_name p, dep) | p c deps dep.
                         (p, c) \<in> set pcs \<and> getAllProviderDependencyNames E p c = Inr deps \<and> dep \<in> set deps}
                \<and> detectCircularDependencies E G = []
                \<and> processed g' = processed g @ [map pc_name rawConfigs]))
         \<and> (getRawProviderConfigs E g names = Inr rawConfigs
              \<and> missingProviderSecrets E (map (\<lambda>c. (pc_name c, c)) rawConfigs) (secrets g) = None
              \<and> length (List.map_filter (getProp (resolvedProviders g)) (requestedNames names rawConfigs))
                   \<noteq> length (requestedNames names rawConfigs)
              \<and> getPlugins E g = (Inr loaded, g1)
              \<and> lookupPlugins (keyBy gp_name loaded) rawConfigs = Inr pcs
              \<and> buildValidationGraph E pcs = Inr G
              \<and> detectCircularDependencies E G \<noteq> []
            \<longrightarrow> res = Inl (PluginError (circularProvidersMessage (cyclesToString E (detectCircularDependencies E G)))
                              (CircularDescription (cyclesToString E (detectCircularDependencies E G))))
                \<and> processed g' = processed g)"
proof (rule conjI)
  from resolveProviders_cases[OF run]
  show "processed g' = processed g
          \<or> (\<exists>rawConfigs loaded g1 pcs G.
                getRawProviderConfigs E g names = Inr rawConfigs
                \<and> getPlugins E g = (Inr loaded, g1)
                \<and> lookupPlugins (keyBy gp_name loaded) rawConfigs = Inr pcs
                \<and> map snd pcs = rawConfigs
                \<and> buildValidationGraph E pcs = Inr G
                \<and> set (map (\<lambda>pc. gp_name (fst pc)) pcs) \<subseteq> set (dvg_nodes G)
                \<and> set (dvg_edges G)
                    = {(gp_name p, dep) | p c deps dep.
                         (p, c) \<in> set pcs \<and> getAllProviderDependencyNames E p c = Inr deps \<and> dep \<in> set deps}
                \<and> detectCircularDependencies E G = []
                \<and> processed g' = processed g @ [map pc_name rawConfigs])"
  proof
    assume "processed g' = processed g" then show ?thesis by simp
  next
    assume "\<exists>rawConfigs loaded g1. getRawProviderConfigs E g names = Inr rawConfigs
               \<and> getPlugins E g = (Inr loaded, g1) \<and> processed g1 = processed g
               \<and> validateAndProcess E g1 forceInit rawConfigs loaded = (res, g')"
    then obtain rawConfigs loaded g1 where
      a: "getRawProviderConfigs E g names = Inr rawConfigs" "getPlugins E g = (Inr loaded, g1)"
         "processed g1 = processed g" "validateAndProcess E g1 forceInit rawConfigs loaded = (res, g')"
      by blast
    from validateAndProcess_processed[OF a(4)] show ?thesis
    proof
      assume "processed g' = processed g1"
      with a(3) show ?thesis by simp
    next
      assume "\<exists>pcs G. lookupPlugins (keyBy gp_name loaded) rawConfigs = Inr pcs
               \<and> buildValidationGraph E pcs = Inr G \<and> detectCircularDependencies E G = []
               \<and> processed g' = processed g1 @ [map pc_name rawConfigs]"
      then obtain pcs G where
        b: "lookupPlugins (keyBy gp_name loaded) rawConfigs = Inr pcs" "buildValidationGraph E pcs = Inr G"
           "detectCircularDependencies E G = []" "processed g' = processed g1 @ [map pc_name rawConfigs]"
        by blast
      note c = lookupPlugins_snd[OF b(1)] buildValidationGraph_covers[OF b(2)]
      from a(1,2) b(1) c(1) b(2) c(3) c(2) b(3) b(4)[unfolded a(3)]
      show ?thesis by blast
    qed
  qed
next
  show "getRawProviderConfigs E g names = Inr rawConfigs
              \<and> missingProviderSecrets E (map (\<lambda>c. (pc_name c, c)) rawConfigs) (secrets g) = None
              \<and> length (List.map_filter (getProp (resolvedProviders g)) (requestedNames names rawConfigs))
                   \<noteq> length (requestedNames names rawConfigs)
              \<and> getPlugins E g = (Inr loaded, g1)
              \<and> lookupPlugins (keyBy gp_name loaded) rawConfigs = Inr pcs
              \<and> buildValidationGraph E pcs = Inr G
              \<and> detectCircularDependencies E G \<noteq> []
            \<longrightarrow> res = Inl (PluginError (circularProvidersMessage (cyclesToString E (detectCircularDependencies E G)))
                              (CircularDescription (cyclesToString E (detectCircularDependencies E G))))
                \<and> processed g' = processed g"
  proof (intro impI, elim conjE)
    assume h: "getRawProviderConfigs E g names = Inr rawConfigs"
      "missingProviderSecrets E (map (\<lambda>c. (pc_name c, c)) rawConfigs) (secrets g) = None"
      "length (List.map_filter (getProp (resolvedProviders g)) (requestedNames names rawConfigs))
                   \<noteq> length (requestedNames names rawConfigs)"
      "getPlugins E g = (Inr loaded, g1)"
      "lookupPlugins (keyBy gp_name loaded) rawConfigs = Inr pcs"
      "buildValidationGraph E pcs = Inr G"
      "detectCircularDependencies E G \<noteq> []"
    from resolveProviders_cycles[OF h, of forceInit] run getPlugins_keeps[OF h(4)]
    show "res = Inl (PluginError (circularProvidersMessage (cyclesToString E (detectCircularDependencies E G)))
                              (CircularDescription (cyclesToString E (detectCircularDependencies E G))))
                \<and> processed g' = processed g"
      by simp
  qed
qed

theorem validation_precedes_tasks_witness:
  "fst (resolveProviders sampleCollab cyclicGarden False None) =
     Inl (PluginError (circularProvidersMessage cyclicDescription) (CircularDescription cyclicDescription))
   \<and> processed (snd (resolveProviders sampleCollab cyclicGarden False None)) = processed cyclicGarden"
proof -
  let ?E = sampleCollab
  let ?g1 = "snd (getPlugins sampleCollab cyclicGarden)"
  let ?raw = "providerConfigs cyclicGarden"
  let ?loaded = "[testA, testB]"
  let ?pcs = "[(testA, \<lparr>pc_name = ''test-a'', pc_settings = []\<rparr>), (testB, \<lparr>pc_name = ''test-b'', pc_settings = []\<rparr>)]"
  let ?G = "\<lparr>dvg_nodes = [''test-a'', ''test-b''], dvg_edges = [(''test-a'', ''test-b''), (''test-b'', ''test-a'')]\<rparr>"
  have run: "resolveProviders ?E cyclicGarden False None =
               (fst (resolveProviders ?E cyclicGarden False None), snd (resolveProviders ?E cyclicGarden False None))"
    by simp
  have raw: "getRawProviderConfigs ?E cyclicGarden None = Inr ?raw"
    by (simp add: getRawProviderConfigs_def)
  have sec: "missingProviderSecrets ?E (map (\<lambda>c. (pc_name c, c)) ?raw) (secrets cyclicGarden) = None"
    by (simp add: sampleCollab_def)
  have todo: "length (List.map_filter (getProp (resolvedProviders cyclicGarden)) (requestedNames None ?raw))
                \<noteq> length (requestedNames None ?raw)"
    by code_simp
  have "fst (getPlugins ?E cyclicGarden) = Inr ?loaded" by code_simp
  then have plug: "getPlugins ?E cyclicGarden = (Inr ?loaded, ?g1)" by (rule pair_fst_snd)
  have look: "lookupPlugins (keyBy gp_name ?loaded) ?raw = Inr ?pcs" by code_simp
  have graph: "buildValidationGraph ?E ?pcs = Inr ?G" by code_simp
  have cyc: "detectCircularDependencies ?E ?G \<noteq> []" by code_simp
  have d: "cyclesToString ?E (detectCircularDependencies ?E ?G) = cyclicDescription" by code_simp
  from validation_precedes_tasks[OF run, of ?raw ?loaded ?g1 ?pcs ?G] raw sec todo plug look graph cyc
  show ?thesis unfolding d by blast
qed

subsection \<open>Circular dependencies\<close>

lemma stripTaskKeys_keys:
  "list_ex (\<lambda>c. c \<noteq> []) cycles \<Longrightarrow> stripTaskKeys cycles = Inl (TypeError ''cycle.map is not a function'')"
proof (induction cycles)
  case Nil then show ?case by simp
next
  case (Cons c cycles)
  show ?case
  proof (cases c)
    case Nil
    with Cons show ?thesis by simp
  next
    case (Cons key keys)
    then show ?thesis by simp
  qed
qed

lemma stripTaskKeys_empty:
  "list_all (\<lambda>c. c = []) cycles \<Longrightarrow> stripTaskKeys cycles = Inr (map (\<lambda>c. []) cycles)"
  by (induction cycles) auto

lemma getConfigGraph_circular:
  assumes "resolveProviders E g False None = (Inr providers, g1)"
      and "getRawModuleConfigs E g1 None = (Inr configs, g2)"
      and "processModuleTasks E (recordBatch g2 (map mc_name configs)) (moduleTasks providers configs)
             = Inl (CircularDependenciesError m cycles)"
  shows "getConfigGraph E g =
           (Inl (wrapCircular (CircularDependenciesError m cycles)), recordBatch g2 (map mc_name configs))"
proof -
  have names: "map (\<lambda>t. mc_name (rm_moduleConfig t)) (moduleTasks providers configs) = map mc_name configs"
    by (simp add: moduleTasks_def comp_def)
  show ?thesis using assms
    by (simp add: getConfigGraph_def resolveModules_def Let_def names)
qed

text \<open>
  What \<^verbatim>\<open>getConfigGraph\<close> throws for every cycle report of the task graph. The providers
  resolve, the raw module configs are read, and \<^verbatim>\<open>processTasks\<close> throws the error of type
  \<^verbatim>\<open>"circular-dependencies"\<close>. When some cycle of the report holds a key, which every cycle
  of a graph does, \<^verbatim>\<open>getConfigGraph\<close> throws the \<^verbatim>\<open>TypeError\<close> of its handler; the
  \<^verbatim>\<open>ConfigurationError\<close> is thrown only for a report whose cycles are all empty, and then
  it names nothing.
\<close>

lemma module_cycles_handler:
  assumes prov: "resolveProviders E g False None = (Inr providers, g1)"
      and raw: "getRawModuleConfigs E g1 None = (Inr configs, g2)"
      and cyc: "processModuleTasks E (recordBatch g2 (map mc_name configs)) (moduleTasks providers configs)
                  = Inl (CircularDependenciesError m cycles)"
  shows "list_ex (\<lambda>c. c \<noteq> []) cycles \<Longrightarrow>
           getConfigGraph E g = (Inl (TypeError ''cycle.map is not a function''),
                                 recordBatch g2 (map mc_name configs))"
    and "list_all (\<lambda>c. c = []) cycles \<Longrightarrow>
           getConfigGraph E g =
             (Inl (ConfigurationError
                     (''Detected one or more circular dependencies between module configurations:''
                        @ newline @ newline @ join newline (map (\<lambda>c. []) cycles))
                     (ModuleCycles (map (\<lambda>c. []) cycles))),
              recordBatch g2 (map mc_name configs))"
proof -
  assume "list_ex (\<lambda>c. c \<noteq> []) cycles"
  from stripTaskKeys_keys[OF this] getConfigGraph_circular[OF prov raw cyc]
  show "getConfigGraph E g = (Inl (TypeError ''cycle.map is not a function''),
                                 recordBatch g2 (map mc_name configs))"
    by simp
next
  assume "list_all (\<lambda>c. c = []) cycles"
  from stripTaskKeys_empty[OF this] getConfigGraph_circular[OF prov raw cyc]
  show "getConfigGraph E g =
             (Inl (ConfigurationError
                     (''Detected one or more circular dependencies between module configurations:''
                        @ newline @ newline @ join newline (map (\<lambda>c. []) cycles))
                     (ModuleCycles (map (\<lambda>c. []) cycles))),
              recordBatch g2 (map mc_name configs))"
    by (simp add: circularModulesMessage_def renderCycles_def comp_def)
qed

text \<open>
  C7 fails on the cycle report of the task graph. The modules \<open>web\<close> and \<open>api\<close> depend on
  each other, and \<^verbatim>\<open>processTasks\<close> throws the error of type \<^verbatim>\<open>"circular-dependencies"\<close> whose
  one cycle is the sequence of task keys \<^verbatim>\<open>resolve-module.web\<close>, \<^verbatim>\<open>resolve-module.api\<close>,
  \<^verbatim>\<open>resolve-module.web\<close>. The handler of \<^verbatim>\<open>getConfigGraph\<close> calls \<^verbatim>\<open>map\<close> on the first key, a
  string, and \<^verbatim>\<open>getConfigGraph\<close> throws a \<^verbatim>\<open>TypeError\<close>: no error names the modules \<open>web\<close> and
  \<open>api\<close>.
\<close>

theorem module_cycle_type_error:
  "processModuleTasks circularCollab sampleGarden []
     = Inl (CircularDependenciesError ''Circular task dependencies detected''
              [[''resolve-module.web'', ''resolve-module.api'', ''resolve-module.web'']])
   \<and> wrapCircular (CircularDependenciesError ''Circular task dependencies detected''
              [[''resolve-module.web'', ''resolve-module.api'', ''resolve-module.web'']])
       = TypeError ''cycle.map is not a function''
   \<and> fst (getConfigGraph circularCollab sampleGarden) = Inl (TypeError ''cycle.map is not a function'')
   \<and> \<not> isConfigurationError (TypeError ''cycle.map is not a function'')"
  by code_simp

text \<open>
  C5, as the code has it for providers. A run of \<^verbatim>\<open>resolveProviders\<close> builds the validation
  graph (the configs are found, no secret is missing, some requested provider is
  unresolved, the plugins load) and the graph has a cycle. Then the call throws a
  \<^verbatim>\<open>PluginError\<close> whose message and detail render the cycles; and \<^verbatim>\<open>getConfigGraph\<close>, which
  resolves the providers first, throws the same \<^verbatim>\<open>PluginError\<close> to its caller.
\<close>

theorem provider_cycles_are_plugin_errors:
  assumes raw: "getRawProviderConfigs E g names = Inr rawConfigs"
      and sec: "missingProviderSecrets E (map (\<lambda>c. (pc_name c, c)) rawConfigs) (secrets g) = None"
      and todo: "length (List.map_filter (getProp (resolvedProviders g)) (requestedNames names rawConfigs))
                   \<noteq> length (requestedNames names rawConfigs)"
      and plug: "getPlugins E g = (Inr loaded, g1)"
      and look: "lookupPlugins (keyBy gp_name loaded) rawConfigs = Inr pcs"
      and graph: "buildValidationGraph E pcs = Inr G"
      and cyc: "detectCircularDependencies E G \<noteq> []"
  shows "resolveProviders E g forceInit names =
           (Inl (PluginError (circularProvidersMessage (cyclesToString E (detectCircularDependencies E G)))
                   (CircularDescription (cyclesToString E (detectCircularDependencies E G)))), g1)
         \<and> (names = None \<longrightarrow>
              getConfigGraph E g =
                (Inl (PluginError (circularProvidersMessage (cyclesToString E (detectCircularDependencies E G)))
                        (CircularDescription (cyclesToString E (detectCircularDependencies E G)))), g1))"
proof (intro conjI impI)
  show "resolveProviders E g forceInit names =
           (Inl (PluginError (circularProvidersMessage (cyclesToString E (detectCircularDependencies E G)))
                   (CircularDescription (cyclesToString E (detectCircularDependencies E G)))), g1)"
    by (rule resolveProviders_cycles[OF raw sec todo plug look graph cyc])
next
  assume n: "names = None"
  from resolveProviders_cycles[OF raw sec todo plug look graph cyc, of False]
  show "getConfigGraph E g =
          (Inl (PluginError (circularProvidersMessage (cyclesToString E (detectCircularDependencies E G)))
                  (CircularDescription (cyclesToString E (detectCircularDependencies E G)))), g1)"
    by (simp add: getConfigGraph_def n)
qed

theorem provider_cycles_are_plugin_errors_witness:
  "resolveProviders sampleCollab cyclicGarden False None =
     (Inl (PluginError (circularProvidersMessage cyclicDescription) (CircularDescription cyclicDescription)),
      snd (getPlugins sampleCollab cyclicGarden))
   \<and> getConfigGraph sampleCollab cyclicGarden =
     (Inl (PluginError (circularProvidersMessage cyclicDescription) (CircularDescription cyclicDescription)),
      snd (getPlugins sampleCollab cyclicGarden))"
proof -
  let ?E = sampleCollab
  let ?g1 = "snd (getPlugins sampleCollab cyclicGarden)"
  let ?raw = "providerConfigs cyclicGarden"
  let ?loaded = "[testA, testB]"
  let ?pcs = "[(testA, \<lparr>pc_name = ''test-a'', pc_settings = []\<rparr>), (testB, \<lparr>pc_name = ''test-b'', pc_settings = []\<rparr>)]"
  let ?G = "\<lparr>dvg_nodes = [''test-a'', ''test-b''], dvg_edges = [(''test-a'', ''test-b''), (''test-b'', ''test-a'')]\<rparr>"
  have raw: "getRawProviderConfigs ?E cyclicGarden None = Inr ?raw"
    by (simp add: getRawProviderConfigs_def)
  have sec: "missingProviderSecrets ?E (map (\<lambda>c. (pc_name c, c)) ?raw) (secrets cyclicGarden) = None"
    by (simp add: sampleCollab_def)
  have todo: "length (List.map_filter (getProp (resolvedProviders cyclicGarden)) (requestedNames None ?raw))
                \<noteq> length (requestedNames None ?raw)"
    by code_simp
  have "fst (getPlugins ?E cyclicGarden) = Inr ?loaded" by code_simp
  then have plug: "getPlugins ?E cyclicGarden = (Inr ?loaded, ?g1)" by (rule pair_fst_snd)
  have look: "lookupPlugins (keyBy gp_name ?loaded) ?raw = Inr ?pcs" by code_simp
  have graph: "buildValidationGraph ?E ?pcs = Inr ?G" by code_simp
  have cyc: "detectCircularDependencies ?E ?G \<noteq> []" by code_simp
  have d: "cyclesToString ?E (detectCircularDependencies ?E ?G) = cyclicDescription" by code_simp
  note t = provider_cycles_are_plugin_errors[OF raw sec todo plug look graph cyc, of False, unfolded d]
  from conjunct1[OF t] mp[OF conjunct2[OF t] refl] show ?thesis by (rule conjI)
qed

text \<open>
  C5, as the claim states it, fails for providers. The plugins \<open>test-a\<close> and \<open>test-b\<close>
  depend on each other; \<^verbatim>\<open>resolveProviders\<close>, and \<^verbatim>\<open>getConfigGraph\<close> through it, throw a
  \<^verbatim>\<open>PluginError\<close>, not a \<^verbatim>\<open>ConfigurationError\<close>.
\<close>

theorem provider_cycle_counterexample:
  "detectCircularDependencies sampleCollab
       \<lparr>dvg_nodes = [''test-a'', ''test-b''], dvg_edges = [(''test-a'', ''test-b''), (''test-b'', ''test-a'')]\<rparr>
     = [[''test-a'', ''test-b'', ''test-a''], [''test-b'', ''test-a'', ''test-b'']]
   \<and> fst (resolveProviders sampleCollab cyclicGarden False None) =
       Inl (PluginError (circularProvidersMessage cyclicDescription) (CircularDescription cyclicDescription))
   \<and> \<not> isConfigurationError (PluginError (circularProvidersMessage cyclicDescription) (CircularDescription cyclicDescription))
   \<and> fst (getConfigGraph sampleCollab cyclicGarden) =
       Inl (PluginError (circularProvidersMessage cyclicDescription) (CircularDescription cyclicDescription))"
  by code_simp

subsection \<open>Build dependencies added by plugins\<close>

lemma pushBuildDependency_None:
  "list_all (\<lambda>m. mc_name m \<noteq> byName) ms \<Longrightarrow> pushBuildDependency ms byName onName = None"
  by (induction ms) auto

lemma pushBuildDependency_Some:
  "pushBuildDependency ms byName onName = Some ms2 \<Longrightarrow>
     \<exists>xs m ys. ms = xs @ m # ys \<and> list_all (\<lambda>x. mc_name x \<noteq> byName) xs \<and> mc_name m = byName
        \<and> ms2 = xs @ m\<lparr>mc_build_dependencies :=
                           mc_build_dependencies m @ [\<lparr>bd_name = onName, bd_plugin = None, bd_copy = []\<rparr>]\<rparr> # ys"
proof (induction ms arbitrary: ms2)
  case Nil then show ?case by simp
next
  case (Cons a ms)
  show ?case
  proof (cases "mc_name a = byName")
    case True
    with Cons.prems have "ms2 = a\<lparr>mc_build_dependencies :=
                           mc_build_dependencies a @ [\<lparr>bd_name = onName, bd_plugin = None, bd_copy = []\<rparr>]\<rparr> # ms"
      by simp
    with True show ?thesis by (intro exI[of _ "[]"] exI[of _ a] exI[of _ ms]) simp
  next
    case False
    with Cons.prems obtain rest where r: "pushBuildDependency ms byName onName = Some rest" "ms2 = a # rest"
      by auto
    from Cons.IH[OF r(1)] obtain xs m ys where
      d: "ms = xs @ m # ys" "list_all (\<lambda>x. mc_name x \<noteq> byName) xs" "mc_name m = byName"
         "rest = xs @ m\<lparr>mc_build_dependencies :=
                           mc_build_dependencies m @ [\<lparr>bd_name = onName, bd_plugin = None, bd_copy = []\<rparr>]\<rparr> # ys"
      by blast
    with False r(2) show ?thesis by (intro exI[of _ "a # xs"] exI[of _ m] exI[of _ ys]) simp
  qed
qed

lemma addBuildDeps_append:
  "addBuildDeps provider ms (ds1 @ ds2) =
     (case addBuildDeps provider ms ds1 of Inl e \<Rightarrow> Inl e | Inr ms' \<Rightarrow> addBuildDeps provider ms' ds2)"
  by (induction ds1 arbitrary: ms) (auto split: option.splits)

lemma addRuntimeDeps_Inr:
  "addRuntimeDeps provider ms rds = Inr ms' \<Longrightarrow>
     map mc_name ms' = map mc_name ms \<and> map mc_build_dependencies ms' = map mc_build_dependencies ms"
proof (induction rds arbitrary: ms)
  case Nil then show ?case by simp
next
  case (Cons x rds)
  from Cons.prems have "addRuntimeDeps provider (map (pushRuntimeDependency (ar_by x) (ar_on x)) ms) rds = Inr ms'"
    by (simp split: if_splits)
  from Cons.IH[OF this] show ?case by (simp add: comp_def pushRuntimeDependency_def)
qed

lemma fold_update_keys:
  "fst ` set (fold (\<lambda>x acc. AList.update (nm x) x acc) xs acc) = fst ` set acc \<union> nm ` set xs"
  by (induction xs arbitrary: acc) (auto simp: dom_update)

lemma keyBy_None: "map_of (keyBy nm xs) k = None \<longleftrightarrow> k \<notin> nm ` set xs"
  using fold_update_keys[of nm xs "[]"] by (simp add: keyBy_def map_of_eq_None_iff)

lemma getProp_keyBy_member:
  "k \<in> nm ` set xs \<Longrightarrow> \<exists>v. getProp (keyBy nm xs) k = Some (Own v)"
  using keyBy_None[of nm xs k] by (auto simp: getProp_def split: option.splits)

lemma getProp_keyBy_missing:
  "k \<notin> nm ` set xs \<Longrightarrow> k \<notin> set objectPrototypeKeys \<Longrightarrow> getProp (keyBy nm xs) k = None"
  using keyBy_None[of nm xs k] by (simp add: getProp_def)

lemma lookupBuildDeps_found:
  "list_all (\<lambda>dep. \<exists>v. getProp byName (getModuleKey E (bd_name dep) (bd_plugin dep)) = Some (Own v)) ds \<Longrightarrow>
     \<exists>deps. lookupBuildDeps E byName n ds = Inr deps"
  by (induction ds) (auto simp: Let_def)

lemma lookupBuildDeps_first_missing:
  assumes "list_all (\<lambda>dep. \<exists>v. getProp byName (getModuleKey E (bd_name dep) (bd_plugin dep)) = Some (Own v)) ds"
      and "getProp byName (getModuleKey E (bd_name bad) (bd_plugin bad)) = None"
  shows "lookupBuildDeps E byName n (ds @ bad # rest) =
           Inl (ConfigurationError (missingDependencyMessage E n (getModuleKey E (bd_name bad) (bd_plugin bad)))
                  (DependencyName (getModuleKey E (bd_name bad) (bd_plugin bad))))"
  using assms by (induction ds) (auto simp: Let_def)

lemma linkModules_first_missing:
  assumes "list_all (\<lambda>x. list_all (\<lambda>dep. \<exists>v. getProp byName (getModuleKey E (bd_name dep) (bd_plugin dep)) = Some (Own v))
                              (mc_build_dependencies x)) xs"
      and "mc_build_dependencies m = ds @ bad # rest"
      and "list_all (\<lambda>dep. \<exists>v. getProp byName (getModuleKey E (bd_name dep) (bd_plugin dep)) = Some (Own v)) ds"
      and "getProp byName (getModuleKey E (bd_name bad) (bd_plugin bad)) = None"
  shows "linkModules E byName (xs @ m # ys) =
           Inl (ConfigurationError
                  (missingDependencyMessage E (mc_name m) (getModuleKey E (bd_name bad) (bd_plugin bad)))
                  (DependencyName (getModuleKey E (bd_name bad) (bd_plugin bad))))"
  using assms(1)
proof (induction xs)
  case Nil
  from lookupBuildDeps_first_missing[OF assms(3,4), of "mc_name m" rest] assms(2)
  show ?case by simp
next
  case (Cons x xs)
  from Cons.prems have "list_all (\<lambda>dep. \<exists>v. getProp byName (getModuleKey E (bd_name dep) (bd_plugin dep)) = Some (Own v))
                              (mc_build_dependencies x)" by simp
  from lookupBuildDeps_found[OF this, of "mc_name x"] obtain deps where
    "lookupBuildDeps E byName (mc_name x) (mc_build_dependencies x) = Inr deps" ..
  moreover from Cons have "linkModules E byName (xs @ m # ys) =
           Inl (ConfigurationError
                  (missingDependencyMessage E (mc_name m) (getModuleKey E (bd_name bad) (bd_plugin bad)))
                  (DependencyName (getModuleKey E (bd_name bad) (bd_plugin bad))))" by simp
  ultimately show ?case by simp
qed

lemma linkModules_error_cong:
  "map mc_name ms' = map mc_name ms \<Longrightarrow> map mc_build_dependencies ms' = map mc_build_dependencies ms
     \<Longrightarrow> linkModules E byName ms = Inl e \<Longrightarrow> linkModules E byName ms' = Inl e"
proof (induction ms arbitrary: ms')
  case Nil then show ?case by simp
next
  case (Cons m ms)
  from Cons.prems(1) obtain m' rest where ms': "ms' = m' # rest" "mc_name m' = mc_name m" "map mc_name rest = map mc_name ms"
    by (cases ms') auto
  from Cons.prems(2) ms' have deps: "mc_build_dependencies m' = mc_build_dependencies m"
    "map mc_build_dependencies rest = map mc_build_dependencies ms" by simp_all
  show ?case
  proof (cases "lookupBuildDeps E byName (mc_name m) (mc_build_dependencies m)")
    case (Inl e')
    with Cons.prems(3) have "e' = e" by simp
    with Inl ms' deps show ?thesis by simp
  next
    case (Inr found)
    with Cons.prems(3) have "linkModules E byName ms = Inl e" by (simp split: sum.splits)
    from Cons.IH[OF ms'(3) deps(2) this] Inr ms' deps show ?thesis by simp
  qed
qed

lemma augmentAll_append:
  "augmentAll E g providers moduleTypes (xs @ ys) st =
     (case augmentAll E g providers moduleTypes xs st of
        Inl e \<Rightarrow> Inl e
      | Inr st' \<Rightarrow> augmentAll E g providers moduleTypes ys st')"
  by (induction xs arbitrary: st) (auto split: sum.splits)

lemma augmentAll_no_handler:
  "list_all (\<lambda>p. \<not> hasAugmentGraphHandler E (p_name p)) ps \<Longrightarrow>
     augmentAll E g providers moduleTypes ps st = Inr st"
  by (induction ps) (auto simp: augmentStep_def)

lemma getConfigGraph_reach:
  assumes prov: "resolveProviders E g False None = (Inr providers, g1)"
      and raw: "getRawModuleConfigs E g1 None = (Inr configs, g2)"
      and ran: "processModuleTasks E (recordBatch g2 (map mc_name configs)) (moduleTasks providers configs)
                  = Inr results"
      and ok: "failedResults results = []"
      and router: "getActionRouter E (recordBatch g2 (map mc_name configs)) = (Inr (), g3)"
      and types: "configuredModuleTypes E g3 = (Inr moduleTypes, g4)"
      and overlap: "detectModuleOverlap E (getResolvedModules E results) = []"
      and order: "getDependencyOrder E (objectValues providers) (registeredPlugins g4) = Inr ordered"
  shows "getConfigGraph E g =
           (case augmentAll E g4 providers moduleTypes ordered (getResolvedModules E results, None) of
              Inl e \<Rightarrow> (Inl e, g4)
            | Inr st \<Rightarrow> finishGraph E g4 (fst st) moduleTypes)"
proof -
  have names: "map (\<lambda>t. mc_name (rm_moduleConfig t)) (moduleTasks providers configs) = map mc_name configs"
    by (simp add: moduleTasks_def comp_def)
  have "augmentAndFinish E (recordBatch g2 (map mc_name configs)) providers (getResolvedModules E results) =
           (case augmentAll E g4 providers moduleTypes ordered (getResolvedModules E results, None) of
              Inl e \<Rightarrow> (Inl e, g4)
            | Inr st \<Rightarrow> finishGraph E g4 (fst st) moduleTypes)"
    using router types overlap order by (simp add: augmentAndFinish_def Let_def)
  then show ?thesis using prov raw ran ok
    by (simp add: getConfigGraph_def resolveModules_def Let_def names)
qed

lemma augment_missing_by:
  assumes prov: "resolveProviders E g False None = (Inr providers, g1)"
      and raw: "getRawModuleConfigs E g1 None = (Inr configs, g2)"
      and ran: "processModuleTasks E (recordBatch g2 (map mc_name configs)) (moduleTasks providers configs)
                  = Inr results"
      and ok: "failedResults results = []"
      and router: "getActionRouter E (recordBatch g2 (map mc_name configs)) = (Inr (), g3)"
      and types: "configuredModuleTypes E g3 = (Inr moduleTypes, g4)"
      and overlap: "detectModuleOverlap E (getResolvedModules E results) = []"
      and order: "getDependencyOrder E (objectValues providers) (registeredPlugins g4) = Inr (before @ provider # later)"
      and walk: "augmentAll E g4 providers moduleTypes before (getResolvedModules E results, None) = Inr st"
      and handler: "hasAugmentGraphHandler E (p_name provider)"
      and graph: "(case snd st of Some x \<Rightarrow> Inr x | None \<Rightarrow> newConfigGraph E (fst st) moduleTypes) = Inr gr"
      and aug: "augmentGraph E (p_name provider) providers (fst st) = Inr r"
      and added: "addResolvedModules E g4 (fst st) (ag_addModules r) (fst st) = Inr ms1"
      and deps: "ag_addBuildDependencies r = ds1 @ d # ds2"
      and pushed: "addBuildDeps provider ms1 ds1 = Inr msA"
      and noby: "list_all (\<lambda>m. mc_name m \<noteq> ab_by d) msA"
  shows "getConfigGraph E g =
           (Inl (PluginError (buildDependencyMessage (p_name provider) (ab_by d) (ab_on d))
                   (BuildDependencyDetail provider d)), g4)"
proof -
  have "addBuildDeps provider ms1 (ds1 @ d # ds2) =
          Inl (PluginError (buildDependencyMessage (p_name provider) (ab_by d) (ab_on d))
                 (BuildDependencyDetail provider d))"
    using pushed pushBuildDependency_None[OF noby, of "ab_on d"] by (simp add: addBuildDeps_append)
  then have step: "augmentStep E g4 providers moduleTypes provider st =
          Inl (PluginError (buildDependencyMessage (p_name provider) (ab_by d) (ab_on d))
                 (BuildDependencyDetail provider d))"
    using handler graph aug added deps by (simp add: augmentStep_def)
  have "augmentAll E g4 providers moduleTypes (before @ provider # later) (getResolvedModules E results, None) =
          Inl (PluginError (buildDependencyMessage (p_name provider) (ab_by d) (ab_on d))
                 (BuildDependencyDetail provider d))"
    using walk step by (simp add: augmentAll_append)
  with getConfigGraph_reach[OF prov raw ran ok router types overlap order] show ?thesis by simp
qed

lemma augment_missing_on:
  assumes prov: "resolveProviders E g False None = (Inr providers, g1)"
      and raw: "getRawModuleConfigs E g1 None = (Inr configs, g2)"
      and ran: "processModuleTasks E (recordBatch g2 (map mc_name configs)) (moduleTasks providers configs)
                  = Inr results"
      and ok: "failedResults results = []"
      and router: "getActionRouter E (recordBatch g2 (map mc_name configs)) = (Inr (), g3)"
      and types: "configuredModuleTypes E g3 = (Inr moduleTypes, g4)"
      and overlap: "detectModuleOverlap E (getResolvedModules E results) = []"
      and order: "getDependencyOrder E (objectValues providers) (registeredPlugins g4) = Inr (before @ provider # later)"
      and walk: "augmentAll E g4 providers moduleTypes before (getResolvedModules E results, None) = Inr st"
      and handler: "hasAugmentGraphHandler E (p_name provider)"
      and graph: "(case snd st of Some x \<Rightarrow> Inr x | None \<Rightarrow> newConfigGraph E (fst st) moduleTypes) = Inr gr"
      and aug: "augmentGraph E (p_name provider) providers (fst st) = Inr r"
      and added: "addResolvedModules E g4 (fst st) (ag_addModules r) (fst st) = Inr ms1"
      and deps: "ag_addBuildDependencies r = [d]"
      and byFound: "pushBuildDependency ms1 (ab_by d) (ab_on d) = Some ms2"
      and runtime: "addRuntimeDeps provider ms2 (ag_addRuntimeDependencies r) = Inr ms3"
      and rest: "list_all (\<lambda>p. \<not> hasAugmentGraphHandler E (p_name p)) later"
      and resolved: "list_all (\<lambda>m. list_all (\<lambda>dep. getModuleKey E (bd_name dep) (bd_plugin dep) \<in> set (map mc_name ms1))
                                       (mc_build_dependencies m)) ms1"
      and missing: "getModuleKey E (ab_on d) None \<notin> set (map mc_name ms1)"
      and notInherited: "getModuleKey E (ab_on d) None \<notin> set objectPrototypeKeys"
  shows "getConfigGraph E g =
           (Inl (case validateConfigGraph E ms3 moduleTypes of
                   Some e \<Rightarrow> e
                 | None \<Rightarrow> ConfigurationError
                             (missingDependencyMessage E (ab_by d) (getModuleKey E (ab_on d) None))
                             (DependencyName (getModuleKey E (ab_on d) None))), g4)"
proof -
  let ?k = "getModuleKey E (ab_on d) None"
  let ?new = "\<lparr>bd_name = ab_on d, bd_plugin = None, bd_copy = []\<rparr>"
  let ?err = "ConfigurationError (missingDependencyMessage E (ab_by d) ?k) (DependencyName ?k)"
  have "addBuildDeps provider ms1 [d] = Inr ms2" using byFound by simp
  then have step: "augmentStep E g4 providers moduleTypes provider st = Inr (ms3, None)"
    using handler graph aug added deps runtime by (simp add: augmentStep_def)
  have all: "augmentAll E g4 providers moduleTypes (before @ provider # later) (getResolvedModules E results, None)
               = Inr (ms3, None)"
    using walk step augmentAll_no_handler[OF rest] by (simp add: augmentAll_append)
  from pushBuildDependency_Some[OF byFound] obtain xs m ys where
    split: "ms1 = xs @ m # ys" "mc_name m = ab_by d"
      "ms2 = xs @ m\<lparr>mc_build_dependencies := mc_build_dependencies m @ [?new]\<rparr> # ys"
    by blast
  let ?m2 = "m\<lparr>mc_build_dependencies := mc_build_dependencies m @ [?new]\<rparr>"
  have names2: "map mc_name ms2 = map mc_name ms1" by (simp add: split)
  from addRuntimeDeps_Inr[OF runtime] have same: "map mc_name ms3 = map mc_name ms2"
    "map mc_build_dependencies ms3 = map mc_build_dependencies ms2" by simp_all
  have names3: "mc_name ` set ms3 = set (map mc_name ms1)"
    using same(1) names2 by (metis set_map)
  let ?byName = "keyBy mc_name ms3"
  have own: "\<exists>v. getProp ?byName k = Some (Own v)" if "k \<in> set (map mc_name ms1)" for k
    using that getProp_keyBy_member[of k mc_name ms3] names3 by simp
  have none: "getProp ?byName (getModuleKey E (bd_name ?new) (bd_plugin ?new)) = None"
    using getProp_keyBy_missing[of ?k mc_name ms3] missing notInherited names3 by simp
  have res: "\<exists>v. getProp ?byName (getModuleKey E (bd_name dep) (bd_plugin dep)) = Some (Own v)"
    if "x \<in> set ms1" "dep \<in> set (mc_build_dependencies x)" for x dep
  proof -
    from resolved that have "getModuleKey E (bd_name dep) (bd_plugin dep) \<in> set (map mc_name ms1)"
      unfolding list_all_iff by blast
    then show ?thesis by (rule own)
  qed
  have sub: "set xs \<subseteq> set ms1" "m \<in> set ms1" by (auto simp: split(1))
  have r1: "list_all (\<lambda>x. list_all (\<lambda>dep. \<exists>v. getProp ?byName (getModuleKey E (bd_name dep) (bd_plugin dep)) = Some (Own v))
                              (mc_build_dependencies x)) xs"
    unfolding list_all_iff using res sub(1) by blast
  have r2: "list_all (\<lambda>dep. \<exists>v. getProp ?byName (getModuleKey E (bd_name dep) (bd_plugin dep)) = Some (Own v))
              (mc_build_dependencies m)"
    unfolding list_all_iff using res sub(2) by blast
  have d2: "mc_build_dependencies ?m2 = mc_build_dependencies m @ ?new # []" by simp
  from linkModules_first_missing[OF r1 d2 r2 none, of ys]
  have "linkModules E ?byName ms2 = Inl ?err" by (simp add: split)
  from linkModules_error_cong[OF same this]
  have link: "linkModules E ?byName ms3 = Inl ?err" .
  have "finishGraph E g4 ms3 moduleTypes =
          (Inl (case validateConfigGraph E ms3 moduleTypes of Some e \<Rightarrow> e | None \<Rightarrow> ?err), g4)"
    using link by (simp add: finishGraph_def newConfigGraph_def split: option.splits)
  with getConfigGraph_reach[OF prov raw ran ok router types overlap order] all show ?thesis by simp
qed

text \<open>
  C1, as the code has it, with \<^verbatim>\<open>getConfigGraph\<close> followed from its first line. In both
  runs the providers resolve, the raw module configs are read, every module task
  succeeds, the action router and the module types are there, no module overlaps
  another, the providers are ordered as \<open>before\<close>, \<open>provider\<close>, \<open>later\<close>, the walk over
  \<open>before\<close> ends in the state \<open>st\<close>, and \<open>provider\<close> has a handler for \<^verbatim>\<open>augmentGraph\<close>, is
  given a graph that the \<^verbatim>\<open>ConfigGraph\<close> constructor accepts, and returns \<open>r\<close>, whose added
  modules resolve and give the modules \<open>modules\<close>.

  In the first run \<open>d\<close> is one of the build dependencies of \<open>r\<close>, the ones before it are
  pushed, and no module is named as its \<^verbatim>\<open>by\<close>. Then \<^verbatim>\<open>getConfigGraph\<close> throws the
  \<^verbatim>\<open>PluginError\<close> that names the provider, \<^verbatim>\<open>by\<close> and \<^verbatim>\<open>on\<close>.

  In the second run \<open>d\<close> is the one build dependency of \<open>r\<close>, a module is named as its
  \<^verbatim>\<open>by\<close>, and no module is named as the key of its \<^verbatim>\<open>on\<close>, which is no property name of
  \<^verbatim>\<open>Object.prototype\<close>; the runtime dependencies of \<open>r\<close> are pushed, no later provider has
  a handler for \<^verbatim>\<open>augmentGraph\<close>, and every build dependency that the modules had before
  names a module. Then the loop throws nothing, and \<^verbatim>\<open>getConfigGraph\<close> fails when the graph
  is finished over the modules \<open>final\<close>: with the error of the \<^verbatim>\<open>ConfigGraph\<close> constructor
  when that rejects them, and otherwise with the \<^verbatim>\<open>ConfigurationError\<close> of the last loop,
  which names the \<^verbatim>\<open>by\<close> module and the key of \<^verbatim>\<open>on\<close>, and not the provider.
\<close>

theorem plugin_build_dependency:
  "(resolveProviders E g False None = (Inr providers, gp)
      \<and> getRawModuleConfigs E gp None = (Inr configs, gs)
      \<and> processModuleTasks E (recordBatch gs (map mc_name configs)) (moduleTasks providers configs)
           = Inr results
      \<and> failedResults results = []
      \<and> getActionRouter E (recordBatch gs (map mc_name configs)) = (Inr (), ga)
      \<and> configuredModuleTypes E ga = (Inr moduleTypes, gt)
      \<and> detectModuleOverlap E (getResolvedModules E results) = []
      \<and> getDependencyOrder E (objectValues providers) (registeredPlugins gt) = Inr (before @ provider # later)
      \<and> augmentAll E gt providers moduleTypes before (getResolvedModules E results, None) = Inr st
      \<and> hasAugmentGraphHandler E (p_name provider)
      \<and> (case snd st of Some x \<Rightarrow> Inr x | None \<Rightarrow> newConfigGraph E (fst st) moduleTypes) = Inr gr
      \<and> augmentGraph E (p_name provider) providers (fst st) = Inr r
      \<and> addResolvedModules E gt (fst st) (ag_addModules r) (fst st) = Inr modules
      \<and> ag_addBuildDependencies r = earlier @ d # others
      \<and> addBuildDeps provider modules earlier = Inr sofar
      \<and> list_all (\<lambda>m. mc_name m \<noteq> ab_by d) sofar
    \<longrightarrow> getConfigGraph E g =
          (Inl (PluginError (buildDependencyMessage (p_name provider) (ab_by d) (ab_on d))
                  (BuildDependencyDetail provider d)), gt))
   \<and> (resolveProviders E' g' False None = (Inr providers', gp')
      \<and> getRawModuleConfigs E' gp' None = (Inr configs', gs')
      \<and> processModuleTasks E' (recordBatch gs' (map mc_name configs')) (moduleTasks providers' configs')
           = Inr results'
      \<and> failedResults results' = []
      \<and> getActionRouter E' (recordBatch gs' (map mc_name configs')) = (Inr (), ga')
      \<and> configuredModuleTypes E' ga' = (Inr moduleTypes', gt')
      \<and> detectModuleOverlap E' (getResolvedModules E' results') = []
      \<and> getDependencyOrder E' (objectValues providers') (registeredPlugins gt') = Inr (before' @ provider' # later')
      \<and> augmentAll E' gt' providers' moduleTypes' before' (getResolvedModules E' results', None) = Inr st'
      \<and> hasAugmentGraphHandler E' (p_name provider')
      \<and> (case snd st' of Some x \<Rightarrow> Inr x | None \<Rightarrow> newConfigGraph E' (fst st') moduleTypes') = Inr gr'
      \<and> augmentGraph E' (p_name provider') providers' (fst st') = Inr r'
      \<and> addResolvedModules E' gt' (fst st') (ag_addModules r') (fst st') = Inr modules'
      \<and> ag_addBuildDependencies r' = [d']
      \<and> pushBuildDependency modules' (ab_by d') (ab_on d') = Some pushed'
      \<and> addRuntimeDeps provider' pushed' (ag_addRuntimeDependencies r') = Inr final'
      \<and> list_all (\<lambda>p. \<not> hasAugmentGraphHandler E' (p_name p)) later'
      \<and> list_all (\<lambda>m. list_all (\<lambda>dep. getModuleKey E' (bd_name dep) (bd_plugin dep) \<in> set (map mc_name modules'))
                           (mc_build_dependencies m)) modules'
      \<and> getModuleKey E' (ab_on d') None \<notin> set (map mc_name modules')
      \<and> getModuleKey E' (ab_on d') None \<notin> set objectPrototypeKeys
    \<longrightarrow> getConfigGraph E' g' =
          (Inl (case validateConfigGraph E' final' moduleTypes' of
                  Some e \<Rightarrow> e
                | None \<Rightarrow> ConfigurationError
                            (missingDependencyMessage E' (ab_by d') (getModuleKey E' (ab_on d') None))
                            (DependencyName (getModuleKey E' (ab_on d') None))), gt'))"
proof (intro conjI impI)
  assume a: "resolveProviders E g False None = (Inr providers, gp)
      \<and> getRawModuleConfigs E gp None = (Inr configs, gs)
      \<and> processModuleTasks E (recordBatch gs (map mc_name configs)) (moduleTasks providers configs)
           = Inr results
      \<and> failedResults results = []
      \<and> getActionRouter E (recordBatch gs (map mc_name configs)) = (Inr (), ga)
      \<and> configuredModuleTypes E ga = (Inr moduleTypes, gt)
      \<and> detectModuleOverlap E (getResolvedModules E results) = []
      \<and> getDependencyOrder E (objectValues providers) (registeredPlugins gt) = Inr (before @ provider # later)
      \<and> augmentAll E gt providers moduleTypes before (getResolvedModules E results, None) = Inr st
      \<and> hasAugmentGraphHandler E (p_name provider)
      \<and> (case snd st of Some x \<Rightarrow> Inr x | None \<Rightarrow> newConfigGraph E (fst st) moduleTypes) = Inr gr
      \<and> augmentGraph E (p_name provider) providers (fst st) = Inr r
      \<and> addResolvedModules E gt (fst st) (ag_addModules r) (fst st) = Inr modules
      \<and> ag_addBuildDependencies r = earlier @ d # others
      \<and> addBuildDeps provider modules earlier = Inr sofar
      \<and> list_all (\<lambda>m. mc_name m \<noteq> ab_by d) sofar"
  show "getConfigGraph E g =
          (Inl (PluginError (buildDependencyMessage (p_name provider) (ab_by d) (ab_on d))
                  (BuildDependencyDetail provider d)), gt)"
    apply (insert a)
    apply (elim conjE)
    apply (rule augment_missing_by; assumption)
    done
next
  assume b: "resolveProviders E' g' False None = (Inr providers', gp')
      \<and> getRawModuleConfigs E' gp' None = (Inr configs', gs')
      \<and> processModuleTasks E' (recordBatch gs' (map mc_name configs')) (moduleTasks providers' configs')
           = Inr results'
      \<and> failedResults results' = []
      \<and> getActionRouter E' (recordBatch gs' (map mc_name configs')) = (Inr (), ga')
      \<and> configuredModuleTypes E' ga' = (Inr moduleTypes', gt')
      \<and> detectModuleOverlap E' (getResolvedModules E' results') = []
      \<and> getDependencyOrder E' (objectValues providers') (registeredPlugins gt') = Inr (before' @ provider' # later')
      \<and> augmentAll E' gt' providers' moduleTypes' before' (getResolvedModules E' results', None) = Inr st'
      \<and> hasAugmentGraphHandler E' (p_name provider')
      \<and> (case snd st' of Some x \<Rightarrow> Inr x | None \<Rightarrow> newConfigGraph E' (fst st') moduleTypes') = Inr gr'
      \<and> augmentGraph E' (p_name provider') providers' (fst st') = Inr r'
      \<and> addResolvedModules E' gt' (fst st') (ag_addModules r') (fst st') = Inr modules'
      \<and> ag_addBuildDependencies r' = [d']
      \<and> pushBuildDependency modules' (ab_by d') (ab_on d') = Some pushed'
      \<and> addRuntimeDeps provider' pushed' (ag_addRuntimeDependencies r') = Inr final'
      \<and> list_all (\<lambda>p. \<not> hasAugmentGraphHandler E' (p_name p)) later'
      \<and> list_all (\<lambda>m. list_all (\<lambda>dep. getModuleKey E' (bd_name dep) (bd_plugin dep) \<in> set (map mc_name modules'))
                           (mc_build_dependencies m)) modules'
      \<and> getModuleKey E' (ab_on d') None \<notin> set (map mc_name modules')
      \<and> getModuleKey E' (ab_on d') None \<notin> set objectPrototypeKeys"
  show "getConfigGraph E' g' =
          (Inl (case validateConfigGraph E' final' moduleTypes' of
                  Some e \<Rightarrow> e
                | None \<Rightarrow> ConfigurationError
                            (missingDependencyMessage E' (ab_by d') (getModuleKey E' (ab_on d') None))
                            (DependencyName (getModuleKey E' (ab_on d') None))), gt')"
    apply (insert b)
    apply (elim conjE)
    apply (rule augment_missing_on; assumption)
    done
qed

theorem plugin_build_dependency_witness:
  "fst (getConfigGraph orphanCollab sampleGarden) =
     Inl (PluginError
            ''Provider 'test-plugin' added a build dependency by module 'api' on 'web' but module 'api' could not be found.''
            (BuildDependencyDetail (sampleProvider ''test-plugin'') \<lparr>ab_by = ''api'', ab_on = ''web''\<rparr>))
   \<and> fst (getConfigGraph augmentingCollab sampleGarden) =
     Inl (ConfigurationError ''Module web specifies build dependency missing-module which cannot be found.''
            (DependencyName ''missing-module''))"
proof -
  have "fst (resolveProviders orphanCollab sampleGarden False None) = Inr [(''test-plugin'', sampleProvider ''test-plugin'')]" by code_simp
  then have a_prov: "resolveProviders orphanCollab sampleGarden False None = (Inr [(''test-plugin'', sampleProvider ''test-plugin'')], (snd (resolveProviders orphanCollab sampleGarden False None)))"
    by (rule pair_fst_snd)
  have "fst (getRawModuleConfigs orphanCollab (snd (resolveProviders orphanCollab sampleGarden False None)) None) = Inr [web]" by code_simp
  then have a_raw: "getRawModuleConfigs orphanCollab (snd (resolveProviders orphanCollab sampleGarden False None)) None = (Inr [web], (snd (getRawModuleConfigs orphanCollab (snd (resolveProviders orphanCollab sampleGarden False None)) None)))"
    by (rule pair_fst_snd)
  have a_ran: "processModuleTasks orphanCollab (recordBatch (snd (getRawModuleConfigs orphanCollab (snd (resolveProviders orphanCollab sampleGarden False None)) None)) (map mc_name [web])) (moduleTasks [(''test-plugin'', sampleProvider ''test-plugin'')] [web])
           = Inr (map moduleResult (moduleTasks [(''test-plugin'', sampleProvider ''test-plugin'')] [web]))"
    by (simp add: orphanCollab_def sampleCollab_def)
  have a_ok: "failedResults (map moduleResult (moduleTasks [(''test-plugin'', sampleProvider ''test-plugin'')] [web])) = []"
    by code_simp
  have "fst (getActionRouter orphanCollab (recordBatch (snd (getRawModuleConfigs orphanCollab (snd (resolveProviders orphanCollab sampleGarden False None)) None)) (map mc_name [web]))) = Inr ()" by code_simp
  then have a_router: "getActionRouter orphanCollab (recordBatch (snd (getRawModuleConfigs orphanCollab (snd (resolveProviders orphanCollab sampleGarden False None)) None)) (map mc_name [web])) = (Inr (), (snd (getActionRouter orphanCollab (recordBatch (snd (getRawModuleConfigs orphanCollab (snd (resolveProviders orphanCollab sampleGarden False None)) None)) (map mc_name [web])))))"
    by (rule pair_fst_snd)
  have "fst (configuredModuleTypes orphanCollab (snd (getActionRouter orphanCollab (recordBatch (snd (getRawModuleConfigs orphanCollab (snd (resolveProviders orphanCollab sampleGarden False None)) None)) (map mc_name [web]))))) = Inr [''test-plugin'']" by code_simp
  then have a_types: "configuredModuleTypes orphanCollab (snd (getActionRouter orphanCollab (recordBatch (snd (getRawModuleConfigs orphanCollab (snd (resolveProviders orphanCollab sampleGarden False None)) None)) (map mc_name [web])))) = (Inr [''test-plugin''], (snd (configuredModuleTypes orphanCollab (snd (getActionRouter orphanCollab (recordBatch (snd (getRawModuleConfigs orphanCollab (snd (resolveProviders orphanCollab sampleGarden False None)) None)) (map mc_name [web])))))))"
    by (rule pair_fst_snd)
  have a_overlap: "detectModuleOverlap orphanCollab (getResolvedModules orphanCollab (map moduleResult (moduleTasks [(''test-plugin'', sampleProvider ''test-plugin'')] [web]))) = []"
    by code_simp
  have a_order: "getDependencyOrder orphanCollab (objectValues [(''test-plugin'', sampleProvider ''test-plugin'')]) (registeredPlugins (snd (configuredModuleTypes orphanCollab (snd (getActionRouter orphanCollab (recordBatch (snd (getRawModuleConfigs orphanCollab (snd (resolveProviders orphanCollab sampleGarden False None)) None)) (map mc_name [web]))))))) = Inr ([] @ (sampleProvider ''test-plugin'') # [])"
    by code_simp
  have a_walk: "augmentAll orphanCollab (snd (configuredModuleTypes orphanCollab (snd (getActionRouter orphanCollab (recordBatch (snd (getRawModuleConfigs orphanCollab (snd (resolveProviders orphanCollab sampleGarden False None)) None)) (map mc_name [web])))))) [(''test-plugin'', sampleProvider ''test-plugin'')] [''test-plugin''] [] (getResolvedModules orphanCollab (map moduleResult (moduleTasks [(''test-plugin'', sampleProvider ''test-plugin'')] [web])), None) = Inr ([sampleModule web], None)"
    by code_simp
  have a_handler: "hasAugmentGraphHandler orphanCollab (p_name (sampleProvider ''test-plugin''))"
    by code_simp
  have a_graph: "(case snd ([sampleModule web], None) of Some x \<Rightarrow> Inr x | None \<Rightarrow> newConfigGraph orphanCollab (fst ([sampleModule web], None)) [''test-plugin'']) = Inr (ConfigGraph [sampleModule web] [''test-plugin''])"
    by code_simp
  have a_aug: "augmentGraph orphanCollab (p_name (sampleProvider ''test-plugin'')) [(''test-plugin'', sampleProvider ''test-plugin'')] (fst ([sampleModule web], None)) = Inr \<lparr>ag_addBuildDependencies = [\<lparr>ab_by = ''api'', ab_on = ''web''\<rparr>], ag_addRuntimeDependencies = [], ag_addModules = []\<rparr>"
    by code_simp
  have a_added: "addResolvedModules orphanCollab (snd (configuredModuleTypes orphanCollab (snd (getActionRouter orphanCollab (recordBatch (snd (getRawModuleConfigs orphanCollab (snd (resolveProviders orphanCollab sampleGarden False None)) None)) (map mc_name [web])))))) (fst ([sampleModule web], None)) (ag_addModules \<lparr>ag_addBuildDependencies = [\<lparr>ab_by = ''api'', ab_on = ''web''\<rparr>], ag_addRuntimeDependencies = [], ag_addModules = []\<rparr>) (fst ([sampleModule web], None)) = Inr [sampleModule web]"
    by code_simp
  have a_deps: "ag_addBuildDependencies \<lparr>ag_addBuildDependencies = [\<lparr>ab_by = ''api'', ab_on = ''web''\<rparr>], ag_addRuntimeDependencies = [], ag_addModules = []\<rparr> = [] @ \<lparr>ab_by = ''api'', ab_on = ''web''\<rparr> # []"
    by code_simp
  have a_pushed: "addBuildDeps (sampleProvider ''test-plugin'') [sampleModule web] [] = Inr [sampleModule web]"
    by code_simp
  have a_noby: "list_all (\<lambda>m. mc_name m \<noteq> ab_by \<lparr>ab_by = ''api'', ab_on = ''web''\<rparr>) [sampleModule web]"
    by code_simp
  have "fst (resolveProviders augmentingCollab sampleGarden False None) = Inr [(''test-plugin'', sampleProvider ''test-plugin'')]" by code_simp
  then have b_prov: "resolveProviders augmentingCollab sampleGarden False None = (Inr [(''test-plugin'', sampleProvider ''test-plugin'')], (snd (resolveProviders augmentingCollab sampleGarden False None)))"
    by (rule pair_fst_snd)
  have "fst (getRawModuleConfigs augmentingCollab (snd (resolveProviders augmentingCollab sampleGarden False None)) None) = Inr [web]" by code_simp
  then have b_raw: "getRawModuleConfigs augmentingCollab (snd (resolveProviders augmentingCollab sampleGarden False None)) None = (Inr [web], (snd (getRawModuleConfigs augmentingCollab (snd (resolveProviders augmentingCollab sampleGarden False None)) None)))"
    by (rule pair_fst_snd)
  have b_ran: "processModuleTasks augmentingCollab (recordBatch (snd (getRawModuleConfigs augmentingCollab (snd (resolveProviders augmentingCollab sampleGarden False None)) None)) (map mc_name [web])) (moduleTasks [(''test-plugin'', sampleProvider ''test-plugin'')] [web])
           = Inr (map moduleResult (moduleTasks [(''test-plugin'', sampleProvider ''test-plugin'')] [web]))"
    by (simp add: augmentingCollab_def sampleCollab_def)
  have b_ok: "failedResults (map moduleResult (moduleTasks [(''test-plugin'', sampleProvider ''test-plugin'')] [web])) = []"
    by code_simp
  have "fst (getActionRouter augmentingCollab (recordBatch (snd (getRawModuleConfigs augmentingCollab (snd (resolveProviders augmentingCollab sampleGarden False None)) None)) (map mc_name [web]))) = Inr ()" by code_simp
  then have b_router: "getActionRouter augmentingCollab (recordBatch (snd (getRawModuleConfigs augmentingCollab (snd (resolveProviders augmentingCollab sampleGarden False None)) None)) (map mc_name [web])) = (Inr (), (snd (getActionRouter augmentingCollab (recordBatch (snd (getRawModuleConfigs augmentingCollab (snd (resolveProviders augmentingCollab sampleGarden False None)) None)) (map mc_name [web])))))"
    by (rule pair_fst_snd)
  have "fst (configuredModuleTypes augmentingCollab (snd (getActionRouter augmentingCollab (recordBatch (snd (getRawModuleConfigs augmentingCollab (snd (resolveProviders augmentingCollab sampleGarden False None)) None)) (map mc_name [web]))))) = Inr [''test-plugin'']" by code_simp
  then have b_types: "configuredModuleTypes augmentingCollab (snd (getActionRouter augmentingCollab (recordBatch (snd (getRawModuleConfigs augmentingCollab (snd (resolveProviders augmentingCollab sampleGarden False None)) None)) (map mc_name [web])))) = (Inr [''test-plugin''], (snd (configuredModuleTypes augmentingCollab (snd (getActionRouter augmentingCollab (recordBatch (snd (getRawModuleConfigs augmentingCollab (snd (resolveProviders augmentingCollab sampleGarden False None)) None)) (map mc_name [web])))))))"
    by (rule pair_fst_snd)
  have b_overlap: "detectModuleOverlap augmentingCollab (getResolvedModules augmentingCollab (map moduleResult (moduleTasks [(''test-plugin'', sampleProvider ''test-plugin'')] [web]))) = []"
    by code_simp
  have b_order: "getDependencyOrder augmentingCollab (objectValues [(''test-plugin'', sampleProvider ''test-plugin'')]) (registeredPlugins (snd (configuredModuleTypes augmentingCollab (snd (getActionRouter augmentingCollab (recordBatch (snd (getRawModuleConfigs augmentingCollab (snd (resolveProviders augmentingCollab sampleGarden False None)) None)) (map mc_name [web]))))))) = Inr ([] @ (sampleProvider ''test-plugin'') # [])"
    by code_simp
  have b_walk: "augmentAll augmentingCollab (snd (configuredModuleTypes augmentingCollab (snd (getActionRouter augmentingCollab (recordBatch (snd (getRawModuleConfigs augmentingCollab (snd (resolveProviders augmentingCollab sampleGarden False None)) None)) (map mc_name [web])))))) [(''test-plugin'', sampleProvider ''test-plugin'')] [''test-plugin''] [] (getResolvedModules augmentingCollab (map moduleResult (moduleTasks [(''test-plugin'', sampleProvider ''test-plugin'')] [web])), None) = Inr ([sampleModule web], None)"
    by code_simp
  have b_handler: "hasAugmentGraphHandler augmentingCollab (p_name (sampleProvider ''test-plugin''))"
    by code_simp
  have b_graph: "(case snd ([sampleModule web], None) of Some x \<Rightarrow> Inr x | None \<Rightarrow> newConfigGraph augmentingCollab (fst ([sampleModule web], None)) [''test-plugin'']) = Inr (ConfigGraph [sampleModule web] [''test-plugin''])"
    by code_simp
  have b_aug: "augmentGraph augmentingCollab (p_name (sampleProvider ''test-plugin'')) [(''test-plugin'', sampleProvider ''test-plugin'')] (fst ([sampleModule web], None)) = Inr \<lparr>ag_addBuildDependencies = [\<lparr>ab_by = ''web'', ab_on = ''missing-module''\<rparr>], ag_addRuntimeDependencies = [], ag_addModules = []\<rparr>"
    by code_simp
  have b_added: "addResolvedModules augmentingCollab (snd (configuredModuleTypes augmentingCollab (snd (getActionRouter augmentingCollab (recordBatch (snd (getRawModuleConfigs augmentingCollab (snd (resolveProviders augmentingCollab sampleGarden False None)) None)) (map mc_name [web])))))) (fst ([sampleModule web], None)) (ag_addModules \<lparr>ag_addBuildDependencies = [\<lparr>ab_by = ''web'', ab_on = ''missing-module''\<rparr>], ag_addRuntimeDependencies = [], ag_addModules = []\<rparr>) (fst ([sampleModule web], None)) = Inr [sampleModule web]"
    by code_simp
  have b_deps: "ag_addBuildDependencies \<lparr>ag_addBuildDependencies = [\<lparr>ab_by = ''web'', ab_on = ''missing-module''\<rparr>], ag_addRuntimeDependencies = [], ag_addModules = []\<rparr> = [\<lparr>ab_by = ''web'', ab_on = ''missing-module''\<rparr>]"
    by code_simp
  have b_byFound: "pushBuildDependency [sampleModule web] (ab_by \<lparr>ab_by = ''web'', ab_on = ''missing-module''\<rparr>) (ab_on \<lparr>ab_by = ''web'', ab_on = ''missing-module''\<rparr>) = Some [webMissing]"
    by code_simp
  have b_runtime: "addRuntimeDeps (sampleProvider ''test-plugin'') [webMissing] (ag_addRuntimeDependencies \<lparr>ag_addBuildDependencies = [\<lparr>ab_by = ''web'', ab_on = ''missing-module''\<rparr>], ag_addRuntimeDependencies = [], ag_addModules = []\<rparr>) = Inr [webMissing]"
    by code_simp
  have b_rest: "list_all (\<lambda>p. \<not> hasAugmentGraphHandler augmentingCollab (p_name p)) []"
    by code_simp
  have b_resolved: "list_all (\<lambda>m. list_all (\<lambda>dep. getModuleKey augmentingCollab (bd_name dep) (bd_plugin dep) \<in> set (map mc_name [sampleModule web]))
                           (mc_build_dependencies m)) [sampleModule web]"
    by code_simp
  have b_missing: "getModuleKey augmentingCollab (ab_on \<lparr>ab_by = ''web'', ab_on = ''missing-module''\<rparr>) None \<notin> set (map mc_name [sampleModule web])"
    by code_simp
  have b_notInherited: "getModuleKey augmentingCollab (ab_on \<lparr>ab_by = ''web'', ab_on = ''missing-module''\<rparr>) None \<notin> set objectPrototypeKeys"
    by code_simp
  note t = plugin_build_dependency[where E = "orphanCollab"
      and g = "sampleGarden"
      and providers = "[(''test-plugin'', sampleProvider ''test-plugin'')]"
      and gp = "(snd (resolveProviders orphanCollab sampleGarden False None))"
      and configs = "[web]"
      and gs = "(snd (getRawModuleConfigs orphanCollab (snd (resolveProviders orphanCollab sampleGarden False None)) None))"
      and results = "(map moduleResult (moduleTasks [(''test-plugin'', sampleProvider ''test-plugin'')] [web]))"
      and ga = "(snd (getActionRouter orphanCollab (recordBatch (snd (getRawModuleConfigs orphanCollab (snd (resolveProviders orphanCollab sampleGarden False None)) None)) (map mc_name [web]))))"
      and moduleTypes = "[''test-plugin'']"
      and gt = "(snd (configuredModuleTypes orphanCollab (snd (getActionRouter orphanCollab (recordBatch (snd (getRawModuleConfigs orphanCollab (snd (resolveProviders orphanCollab sampleGarden False None)) None)) (map mc_name [web]))))))"
      and before = "[]"
      and provider = "(sampleProvider ''test-plugin'')"
      and later = "[]"
      and st = "([sampleModule web], None)"
      and gr = "(ConfigGraph [sampleModule web] [''test-plugin''])"
      and r = "\<lparr>ag_addBuildDependencies = [\<lparr>ab_by = ''api'', ab_on = ''web''\<rparr>], ag_addRuntimeDependencies = [], ag_addModules = []\<rparr>"
      and modules = "[sampleModule web]"
      and d = "\<lparr>ab_by = ''api'', ab_on = ''web''\<rparr>"
      and earlier = "[]"
      and others = "[]"
      and sofar = "[sampleModule web]"
      and E' = "augmentingCollab"
      and g' = "sampleGarden"
      and providers' = "[(''test-plugin'', sampleProvider ''test-plugin'')]"
      and gp' = "(snd (resolveProviders augmentingCollab sampleGarden False None))"
      and configs' = "[web]"
      and gs' = "(snd (getRawModuleConfigs augmentingCollab (snd (resolveProviders augmentingCollab sampleGarden False None)) None))"
      and results' = "(map moduleResult (moduleTasks [(''test-plugin'', sampleProvider ''test-plugin'')] [web]))"
      and ga' = "(snd (getActionRouter augmentingCollab (recordBatch (snd (getRawModuleConfigs augmentingCollab (snd (resolveProviders augmentingCollab sampleGarden False None)) None)) (map mc_name [web]))))"
      and moduleTypes' = "[''test-plugin'']"
      and gt' = "(snd (configuredModuleTypes augmentingCollab (snd (getActionRouter augmentingCollab (recordBatch (snd (getRawModuleConfigs augmentingCollab (snd (resolveProviders augmentingCollab sampleGarden False None)) None)) (map mc_name [web]))))))"
      and before' = "[]"
      and provider' = "(sampleProvider ''test-plugin'')"
      and later' = "[]"
      and st' = "([sampleModule web], None)"
      and gr' = "(ConfigGraph [sampleModule web] [''test-plugin''])"
      and r' = "\<lparr>ag_addBuildDependencies = [\<lparr>ab_by = ''web'', ab_on = ''missing-module''\<rparr>], ag_addRuntimeDependencies = [], ag_addModules = []\<rparr>"
      and modules' = "[sampleModule web]"
      and d' = "\<lparr>ab_by = ''web'', ab_on = ''missing-module''\<rparr>"
      and pushed' = "[webMissing]"
      and final' = "[webMissing]"]
  have ma: "buildDependencyMessage (p_name (sampleProvider ''test-plugin'')) (ab_by \<lparr>ab_by = ''api'', ab_on = ''web''\<rparr>) (ab_on \<lparr>ab_by = ''api'', ab_on = ''web''\<rparr>) = ''Provider 'test-plugin' added a build dependency by module 'api' on 'web' but module 'api' could not be found.''"
    by code_simp
  have mb: "(case validateConfigGraph augmentingCollab [webMissing] [''test-plugin''] of Some e \<Rightarrow> e | None \<Rightarrow> ConfigurationError (missingDependencyMessage augmentingCollab (ab_by \<lparr>ab_by = ''web'', ab_on = ''missing-module''\<rparr>) (getModuleKey augmentingCollab (ab_on \<lparr>ab_by = ''web'', ab_on = ''missing-module''\<rparr>) None)) (DependencyName (getModuleKey augmentingCollab (ab_on \<lparr>ab_by = ''web'', ab_on = ''missing-module''\<rparr>) None))) =
      ConfigurationError ''Module web specifies build dependency missing-module which cannot be found.''
            (DependencyName ''missing-module'')"
    by code_simp
  from mp[OF conjunct1[OF t] conjI[OF a_prov conjI[OF a_raw conjI[OF a_ran conjI[OF a_ok conjI[OF a_router conjI[OF a_types conjI[OF a_overlap conjI[OF a_order conjI[OF a_walk conjI[OF a_handler conjI[OF a_graph conjI[OF a_aug conjI[OF a_added conjI[OF a_deps conjI[OF a_pushed a_noby]]]]]]]]]]]]]]]]
  have ra: "fst (getConfigGraph orphanCollab sampleGarden) =
     Inl (PluginError
            ''Provider 'test-plugin' added a build dependency by module 'api' on 'web' but module 'api' could not be found.''
            (BuildDependencyDetail (sampleProvider ''test-plugin'') \<lparr>ab_by = ''api'', ab_on = ''web''\<rparr>))"
    unfolding ma by (simp only: fst_conv)
  from mp[OF conjunct2[OF t] conjI[OF b_prov conjI[OF b_raw conjI[OF b_ran conjI[OF b_ok conjI[OF b_router conjI[OF b_types conjI[OF b_overlap conjI[OF b_order conjI[OF b_walk conjI[OF b_handler conjI[OF b_graph conjI[OF b_aug conjI[OF b_added conjI[OF b_deps conjI[OF b_byFound conjI[OF b_runtime conjI[OF b_rest conjI[OF b_resolved conjI[OF b_missing b_notInherited]]]]]]]]]]]]]]]]]]]]
  have rb: "fst (getConfigGraph augmentingCollab sampleGarden) =
     Inl (ConfigurationError ''Module web specifies build dependency missing-module which cannot be found.''
            (DependencyName ''missing-module''))"
    unfolding mb by (simp only: fst_conv)
  from ra rb show ?thesis by (rule conjI)
qed

text \<open>
  C1, as the claim states it, fails. The plugin adds the build dependency by \<open>web\<close> on
  \<open>missing-module\<close>, and \<open>web\<close> is resolved. \<^verbatim>\<open>getConfigGraph\<close> throws a \<^verbatim>\<open>ConfigurationError\<close>
  that names neither the plugin nor a \<^verbatim>\<open>PluginError\<close>: the one of the last loop when the
  \<^verbatim>\<open>ConfigGraph\<close> constructor accepts the modules, and the one of the constructor when it
  rejects a build dependency without a module.
\<close>

theorem missing_on_target_counterexample:
  "fst (getConfigGraph augmentingCollab sampleGarden) =
     Inl (ConfigurationError ''Module web specifies build dependency missing-module which cannot be found.''
            (DependencyName ''missing-module''))
   \<and> \<not> isPluginError (ConfigurationError ''Module web specifies build dependency missing-module which cannot be found.''
            (DependencyName ''missing-module''))
   \<and> fst (getConfigGraph strictCollab sampleGarden) = Inl (ConfigurationError ''Unknown build dependency'' NoDetail)"
  by code_simp

subsection \<open>The dump of the configuration\<close>

lemma project_recordBatch [simp]: "project (recordBatch g ns) = project g"
  by (simp add: project_def recordBatch_def)

lemma project_addModule: "addModule E g c = (r, g') \<Longrightarrow> project g' = project g"
  by (auto simp: addModule_def project_def Let_def split: option.splits property.splits)

lemma project_addModules: "addModules E g cs = (es, g') \<Longrightarrow> project g' = project g"
proof (induction cs arbitrary: g es g')
  case Nil then show ?case by simp
next
  case (Cons c cs)
  obtain r g1 where a: "addModule E g c = (r, g1)" by (cases "addModule E g c")
  obtain es' g2 where b: "addModules E g1 cs = (es', g2)" by (cases "addModules E g1 cs")
  from Cons.prems a b have "g' = g2" by (cases r) auto
  with Cons.IH[OF b] project_addModule[OF a] show ?case by simp
qed

lemma project_addWorkflow: "addWorkflow E g c = (r, g') \<Longrightarrow> project g' = project g"
  by (auto simp: addWorkflow_def project_def Let_def split: option.splits property.splits)

lemma project_addWorkflows: "addWorkflows E g cs = (es, g') \<Longrightarrow> project g' = project g"
proof (induction cs arbitrary: g es g')
  case Nil then show ?case by simp
next
  case (Cons c cs)
  obtain r g1 where a: "addWorkflow E g c = (r, g1)" by (cases "addWorkflow E g c")
  obtain es' g2 where b: "addWorkflows E g1 cs = (es', g2)" by (cases "addWorkflows E g1 cs")
  from Cons.prems a b have "g' = g2" by (cases r) auto
  with Cons.IH[OF b] project_addWorkflow[OF a] show ?case by simp
qed

lemma project_scan: "scanAndAddConfigs E g force = (r, g') \<Longrightarrow> project g' = project g"
proof -
  assume run: "scanAndAddConfigs E g force = (r, g')"
  show ?thesis
  proof (cases "loadProjectConfigs E")
    case (Inl e)
    with run show ?thesis by (auto simp: scanAndAddConfigs_def split: if_splits)
  next
    case (Inr rs)
    obtain es1 g1 where a: "addModules E g (pluginModuleConfigs g @ moduleResources rs) = (es1, g1)"
      by (cases "addModules E g (pluginModuleConfigs g @ moduleResources rs)")
    obtain es2 g2 where b: "addWorkflows E g1 (workflowResources rs) = (es2, g2)"
      by (cases "addWorkflows E g1 (workflowResources rs)")
    have p: "project g2 = project g" using project_addModules[OF a] project_addWorkflows[OF b] by simp
    then have p': "project (g2\<lparr>configsScanned := True\<rparr>) = project g" by (simp add: project_def)
    from run Inr a b have "g' = g \<or> g' = g2 \<or> g' = g2\<lparr>configsScanned := True\<rparr>"
      by (auto simp: scanAndAddConfigs_def Let_def split: if_splits option.splits list.splits)
    with p p' show ?thesis by auto
  qed
qed

lemma project_getRawModuleConfigs: "getRawModuleConfigs E g keys = (r, g') \<Longrightarrow> project g' = project g"
proof -
  assume run: "getRawModuleConfigs E g keys = (r, g')"
  obtain r1 g1 where a: "scanAndAddConfigs E g False = (r1, g1)" by (cases "scanAndAddConfigs E g False")
  from run a have "g' = g \<or> g' = g1"
    by (auto simp: getRawModuleConfigs_def split: if_splits sum.splits option.splits)
  with project_scan[OF a] show ?thesis by auto
qed

lemma project_getPlugins: "getPlugins E g = (r, g') \<Longrightarrow> project g' = project g"
  by (auto simp: getPlugins_def project_def split: option.splits sum.splits)

lemma project_collectProviders: "collectProviders E g raw rs = (r, g') \<Longrightarrow> project g' = project g"
proof -
  assume run: "collectProviders E g raw rs = (r, g')"
  obtain es g3 where a: "addModules E g (concat (map p_moduleConfigs
      (map scopeModuleConfigs (List.map_filter (\<lambda>x. x) (case taskOutputs (objectEntries rs) of Inr os \<Rightarrow> os | Inl e \<Rightarrow> []))))) = (es, g3)"
    by (cases "addModules E g (concat (map p_moduleConfigs
      (map scopeModuleConfigs (List.map_filter (\<lambda>x. x) (case taskOutputs (objectEntries rs) of Inr os \<Rightarrow> os | Inl e \<Rightarrow> [])))))")
  from project_addModules[OF a] have "project g3 = project g" .
  with run a show ?thesis
    by (auto simp: collectProviders_def Let_def project_def split: if_splits sum.splits option.splits)
qed

lemma project_validateAndProcess:
  "validateAndProcess E g forceInit raw loaded = (r, g') \<Longrightarrow> project g' = project g"
proof -
  assume run: "validateAndProcess E g forceInit raw loaded = (r, g')"
  let ?pcs = "case lookupPlugins (keyBy gp_name loaded) raw of Inr pcs \<Rightarrow> pcs | Inl e \<Rightarrow> []"
  let ?g2 = "recordBatch g (map (\<lambda>t. pc_name (rp_config t)) (providerTasks g forceInit ?pcs))"
  from run have "g' = g \<or> g' = ?g2
      \<or> (\<exists>rs. collectProviders E ?g2 raw rs = (r, g'))"
    by (auto simp: validateAndProcess_def Let_def split: if_splits sum.splits)
  then show ?thesis using project_collectProviders[of E ?g2 raw _ r g'] by auto
qed

lemma project_resolveProviders:
  "resolveProviders E g forceInit names = (r, g') \<Longrightarrow> project g' = project g"
proof -
  assume run: "resolveProviders E g forceInit names = (r, g')"
  obtain r1 g1 where a: "getPlugins E g = (r1, g1)" by (cases "getPlugins E g")
  from run a have "g' = g \<or> g' = g1 \<or> (\<exists>raw loaded. validateAndProcess E g1 forceInit raw loaded = (r, g'))"
    by (auto simp: resolveProviders_def Let_def split: if_splits sum.splits option.splits)
  then show ?thesis using project_getPlugins[OF a] project_validateAndProcess[of E g1 forceInit _ _ r g'] by auto
qed

lemma project_resolveVersion:
  "resolveVersion E g m deps force = (r, g') \<Longrightarrow> project g' = project g"
proof -
  assume run: "resolveVersion E g m deps force = (r, g')"
  obtain r1 g1 where a: "getRawModuleConfigs E g (Some (map (\<lambda>dep. getModuleKey E (dep_name dep) (dep_plugin dep)) deps)) = (r1, g1)"
    by (cases "getRawModuleConfigs E g (Some (map (\<lambda>dep. getModuleKey E (dep_name dep) (dep_plugin dep)) deps))")
  from project_getRawModuleConfigs[OF a] have p: "project g1 = project g" .
  then have p': "project (g1\<lparr>cache := c\<rparr>) = project g" for c by (simp add: project_def)
  from run a have "g' = g \<or> g' = g1 \<or> (\<exists>c. g' = g1\<lparr>cache := c\<rparr>)"
    by (auto simp: resolveVersion_def Let_def split: if_splits sum.splits option.splits)
  with p p' show ?thesis by auto
qed

lemma project_resolveVersions:
  "resolveVersions E g xs = (r, g') \<Longrightarrow> project g' = project g"
proof (induction xs arbitrary: g r g')
  case Nil then show ?case by simp
next
  case (Cons x xs)
  obtain m deps where x: "x = (m, deps)" by (cases x)
  obtain r1 g1 where a: "resolveVersion E g (ModuleConfig.truncate m) (map DepModule deps) False = (r1, g1)"
    by (cases "resolveVersion E g (ModuleConfig.truncate m) (map DepModule deps) False")
  obtain r2 g2 where b: "resolveVersions E g1 xs = (r2, g2)" by (cases "resolveVersions E g1 xs")
  from Cons.prems x a b have "g' = g1 \<or> g' = g2" by (auto split: sum.splits)
  with project_resolveVersion[OF a] Cons.IH[OF b] show ?case by auto
qed

lemma project_configuredModuleTypes:
  "configuredModuleTypes E g = (r, g') \<Longrightarrow> project g' = project g"
proof -
  assume run: "configuredModuleTypes E g = (r, g')"
  obtain r1 g1 where a: "getPlugins E g = (r1, g1)" by (cases "getPlugins E g")
  from run a have "g' = g1" by (auto simp: configuredModuleTypes_def split: sum.splits)
  with project_getPlugins[OF a] show ?thesis by simp
qed

lemma project_getActionRouter:
  "getActionRouter E g = (r, g') \<Longrightarrow> project g' = project g"
proof -
  assume run: "getActionRouter E g = (r, g')"
  obtain r1 g1 where a: "getPlugins E g = (r1, g1)" by (cases "getPlugins E g")
  obtain r2 g2 where b: "configuredModuleTypes E g1 = (r2, g2)" by (cases "configuredModuleTypes E g1")
  have p: "project g2 = project g" using project_getPlugins[OF a] project_configuredModuleTypes[OF b] by simp
  then have p': "project (g2\<lparr>actionHelper := True\<rparr>) = project g" by (simp add: project_def)
  from run a b have "g' = g \<or> g' = g1 \<or> g' = g2 \<or> g' = g2\<lparr>actionHelper := True\<rparr>"
    by (auto simp: getActionRouter_def split: if_splits sum.splits)
  with p p' project_getPlugins[OF a] show ?thesis by auto
qed

lemma project_finishGraph:
  "finishGraph E g ms mt = (r, g') \<Longrightarrow> project g' = project g"
proof -
  assume run: "finishGraph E g ms mt = (r, g')"
  from run have "g' = g \<or> (\<exists>linked r1. resolveVersions E g linked = (r1, g'))"
    by (auto simp: finishGraph_def split: sum.splits prod.splits)
  then show ?thesis using project_resolveVersions[of E g _ _ g'] by auto
qed

lemma project_augmentAndFinish:
  "augmentAndFinish E g providers ms = (r, g') \<Longrightarrow> project g' = project g"
proof -
  assume run: "augmentAndFinish E g providers ms = (r, g')"
  obtain r1 g1 where a: "getActionRouter E g = (r1, g1)" by (cases "getActionRouter E g")
  obtain r2 g2 where b: "configuredModuleTypes E g1 = (r2, g2)" by (cases "configuredModuleTypes E g1")
  have p: "project g1 = project g" "project g2 = project g"
    using project_getActionRouter[OF a] project_configuredModuleTypes[OF b] by simp_all
  from run a b have "g' = g1 \<or> g' = g2 \<or> (\<exists>ms' mt. finishGraph E g2 ms' mt = (r, g'))"
    by (auto simp: augmentAndFinish_def Let_def split: if_splits sum.splits)
  then show ?thesis using p project_finishGraph[of E g2 _ _ r g'] by auto
qed

lemma project_resolveModules:
  "resolveModules E g providers configs = (r, g') \<Longrightarrow> project g' = project g"
proof -
  assume run: "resolveModules E g providers configs = (r, g')"
  let ?g1 = "recordBatch g (map (\<lambda>t. mc_name (rm_moduleConfig t)) (moduleTasks providers configs))"
  from run have "g' = ?g1 \<or> (\<exists>ms. augmentAndFinish E ?g1 providers ms = (r, g'))"
    by (auto simp: resolveModules_def Let_def split: if_splits sum.splits)
  then show ?thesis using project_augmentAndFinish[of E ?g1 providers _ r g'] by auto
qed

lemma project_getConfigGraph:
  "getConfigGraph E g = (r, g') \<Longrightarrow> project g' = project g"
proof -
  assume run: "getConfigGraph E g = (r, g')"
  obtain r1 g1 where a: "resolveProviders E g False None = (r1, g1)" by (cases "resolveProviders E g False None")
  obtain r2 g2 where b: "getRawModuleConfigs E g1 None = (r2, g2)" by (cases "getRawModuleConfigs E g1 None")
  have p: "project g1 = project g" "project g2 = project g"
    using project_resolveProviders[OF a] project_getRawModuleConfigs[OF b] by simp_all
  from run a b have "g' = g1 \<or> g' = g2 \<or> (\<exists>ps cs. resolveModules E g2 ps cs = (r, g'))"
    by (auto simp: getConfigGraph_def split: sum.splits)
  then show ?thesis using p project_resolveModules[of E g2 _ _ r g'] by auto
qed

lemma project_getWorkflowConfigs:
  "getWorkflowConfigs E g names = (r, g') \<Longrightarrow> project g' = project g"
proof -
  assume run: "getWorkflowConfigs E g names = (r, g')"
  obtain r1 g1 where a: "resolveProviders E g False None = (r1, g1)" by (cases "resolveProviders E g False None")
  from run a have "g' = g1" by (auto simp: getWorkflowConfigs_def split: sum.splits)
  with project_resolveProviders[OF a] show ?thesis by simp
qed

text \<open>
  C9. When \<^verbatim>\<open>dumpConfig\<close> returns a dump, its module configs are the \<^verbatim>\<open>_config\<close>s of the
  modules that the graph gives, sorted by name; its workflow configs are the resolved
  workflow configs, sorted by name; its providers are the resolved providers, in their
  order, each with its name, its dependencies, its module configs, its config and its
  status, and without its tools, for which the type of the dump has no field; and its
  project root, environment name, namespace, variables and project id are those of the
  instance.
\<close>

theorem dumpConfig_contents:
  assumes run: "dumpConfig E g includeDisabled = (Inr d, g')"
  shows "sorted (map mc_name (cd_moduleConfigs d))
         \<and> sorted (map wc_name (cd_workflowConfigs d))
         \<and> (cd_projectRoot d, cd_environmentName d, cd_namespace d, cd_variables d, cd_projectId d) = project g
         \<and> (\<exists>graph g1 wfs g2 providers.
               getConfigGraph E g = (Inr graph, g1)
               \<and> getWorkflowConfigs E g1 None = (Inr wfs, g2)
               \<and> resolveProviders E g2 False None = (Inr providers, g')
               \<and> mset (cd_moduleConfigs d) = mset (map m_rawConfig (getModules E graph includeDisabled))
               \<and> mset (cd_workflowConfigs d) = mset wfs
               \<and> map p_name (cd_providers d) = map p_name (objectValues providers)
               \<and> map p_dependencies (cd_providers d) = map p_dependencies (objectValues providers)
               \<and> map p_moduleConfigs (cd_providers d) = map p_moduleConfigs (objectValues providers)
               \<and> map p_config (cd_providers d) = map p_config (objectValues providers)
               \<and> map p_status (cd_providers d) = map p_status (objectValues providers))"
proof -
  obtain r1 g1 where a: "getConfigGraph E g = (r1, g1)" by (cases "getConfigGraph E g")
  obtain r2 g2 where b: "getWorkflowConfigs E g1 None = (r2, g2)" by (cases "getWorkflowConfigs E g1 None")
  obtain r3 g3 where c: "resolveProviders E g2 False None = (r3, g3)" by (cases "resolveProviders E g2 False None")
  from run a b c obtain graph wfs providers where
    r: "r1 = Inr graph" "r2 = Inr wfs" "r3 = Inr providers" "g' = g3"
    and d: "d = \<lparr>cd_environmentName = environmentName g3, cd_namespace = namespace g3,
                 cd_providers = map omitTools (objectValues providers), cd_variables = variables g3,
                 cd_moduleConfigs = sortBy mc_name (map m_rawConfig (getModules E graph includeDisabled)),
                 cd_workflowConfigs = sortBy wc_name wfs,
                 cd_projectRoot = projectRoot g3, cd_projectId = projectId g3\<rparr>"
    by (auto simp: dumpConfig_def Let_def split: sum.splits)
  have p: "project g3 = project g"
    using project_getConfigGraph[OF a] project_getWorkflowConfigs[OF b] project_resolveProviders[OF c] by simp
  have 1: "sorted (map mc_name (cd_moduleConfigs d))" by (simp add: d sortBy_def)
  have 2: "sorted (map wc_name (cd_workflowConfigs d))" by (simp add: d sortBy_def)
  have 3: "(cd_projectRoot d, cd_environmentName d, cd_namespace d, cd_variables d, cd_projectId d) = project g"
    using p by (simp add: d project_def)
  have 4: "mset (cd_moduleConfigs d) = mset (map m_rawConfig (getModules E graph includeDisabled))"
    "mset (cd_workflowConfigs d) = mset wfs"
    by (simp_all add: d sortBy_def)
  have 5: "map p_name (cd_providers d) = map p_name (objectValues providers)"
    "map p_dependencies (cd_providers d) = map p_dependencies (objectValues providers)"
    "map p_moduleConfigs (cd_providers d) = map p_moduleConfigs (objectValues providers)"
    "map p_config (cd_providers d) = map p_config (objectValues providers)"
    "map p_status (cd_providers d) = map p_status (objectValues providers)"
    by (simp_all add: d omitTools_def comp_def)
  from a b c r 1 2 3 4 5 show ?thesis by blast
qed

theorem dumpConfig_contents_witness:
  "fst (dumpConfig dumpCollab sampleGarden False) = Inr sampleDump
   \<and> sorted (map mc_name (cd_moduleConfigs sampleDump))
   \<and> sorted (map wc_name (cd_workflowConfigs sampleDump))
   \<and> (cd_projectRoot sampleDump, cd_environmentName sampleDump, cd_namespace sampleDump,
       cd_variables sampleDump, cd_projectId sampleDump) = project sampleGarden
   \<and> map p_name (cd_providers sampleDump) = map p_name [sampleProvider ''test-plugin'']
   \<and> map p_dependencies (cd_providers sampleDump) = map p_dependencies [sampleProvider ''test-plugin'']
   \<and> map p_moduleConfigs (cd_providers sampleDump) = map p_moduleConfigs [sampleProvider ''test-plugin'']
   \<and> map p_config (cd_providers sampleDump) = map p_config [sampleProvider ''test-plugin'']
   \<and> map p_status (cd_providers sampleDump) = map p_status [sampleProvider ''test-plugin'']"
proof -
  let ?E = dumpCollab
  let ?g1 = "snd (getConfigGraph ?E sampleGarden)"
  let ?g2 = "snd (getWorkflowConfigs ?E ?g1 None)"
  have f: "fst (dumpConfig ?E sampleGarden False) = Inr sampleDump" by code_simp
  then have run: "dumpConfig ?E sampleGarden False = (Inr sampleDump, snd (dumpConfig ?E sampleGarden False))"
    by (rule pair_fst_snd)
  have ps: "fst (resolveProviders ?E ?g2 False None) = Inr [(''test-plugin'', sampleProvider ''test-plugin'')]"
    by code_simp
  note t = dumpConfig_contents[OF run]
  from t obtain graph g1 wfs g2 providers where
    e: "getConfigGraph ?E sampleGarden = (Inr graph, g1)"
       "getWorkflowConfigs ?E g1 None = (Inr wfs, g2)"
       "resolveProviders ?E g2 False None = (Inr providers, snd (dumpConfig ?E sampleGarden False))"
    and q: "map p_name (cd_providers sampleDump) = map p_name (objectValues providers)"
       "map p_dependencies (cd_providers sampleDump) = map p_dependencies (objectValues providers)"
       "map p_moduleConfigs (cd_providers sampleDump) = map p_moduleConfigs (objectValues providers)"
       "map p_config (cd_providers sampleDump) = map p_config (objectValues providers)"
       "map p_status (cd_providers sampleDump) = map p_status (objectValues providers)"
    by blast
  from e(1) have "g1 = ?g1" by simp
  with e(2) have "g2 = ?g2" by simp
  with e(3) ps have "providers = [(''test-plugin'', sampleProvider ''test-plugin'')]" by simp
  moreover have "objectValues [(''test-plugin'', sampleProvider ''test-plugin'')] = [sampleProvider ''test-plugin'']"
    by code_simp
  ultimately have "objectValues providers = [sampleProvider ''test-plugin'']" by simp
  with q have q': "map p_name (cd_providers sampleDump) = map p_name [sampleProvider ''test-plugin'']"
       "map p_dependencies (cd_providers sampleDump) = map p_dependencies [sampleProvider ''test-plugin'']"
       "map p_moduleConfigs (cd_providers sampleDump) = map p_moduleConfigs [sampleProvider ''test-plugin'']"
       "map p_config (cd_providers sampleDump) = map p_config [sampleProvider ''test-plugin'']"
       "map p_status (cd_providers sampleDump) = map p_status [sampleProvider ''test-plugin'']"
    by simp_all
  from t have s: "sorted (map mc_name (cd_moduleConfigs sampleDump))"
    "sorted (map wc_name (cd_workflowConfigs sampleDump))"
    "(cd_projectRoot sampleDump, cd_environmentName sampleDump, cd_namespace sampleDump,
       cd_variables sampleDump, cd_projectId sampleDump) = project sampleGarden"
    by blast+
  show ?thesis
    by (rule conjI[OF f conjI[OF s(1) conjI[OF s(2) conjI[OF s(3)
          conjI[OF q'(1) conjI[OF q'(2) conjI[OF q'(3) conjI[OF q'(4) q'(5)]]]]]]]])
qed

end
